theory Spec2Isabelle
  imports Main "HOL-Library.AList"
begin

section \<open>The loop-nest IR of blockize_tensorize.cc\<close>

text \<open>
  The data model follows the TIR node classes that
  \<^verbatim>\<open>src/tir/schedule/primitive/blockize_tensorize.cc\<close> works on. Every
  expression node stores its data type, a variable is identified by its object
  (the field \<open>vid\<close>), not by its name hint, and a loop or block of the tree an
  sref points into is identified by the address of its node (\<open>for_addr\<close>,
  \<open>block_addr\<close>). The file compares addresses of nodes of the input tree only; in the
  model a node copied from another (copy-on-write, \<^verbatim>\<open>make_object<T>(*node)\<close>, a
  rewrite by a mutator) keeps the address of its original, and a block built by the
  \<^verbatim>\<open>Block\<close> constructor gets a fresh one.
\<close>

datatype TypeCode = kInt | kUInt | kFloat | kHandle

datatype DataType = DataType (code: TypeCode) (bits: nat) (lanes: nat)

definition DataType_Int :: "int \<Rightarrow> DataType" where
  "DataType_Int b = DataType kInt (nat b) 1"

definition DataType_Bool :: DataType where
  "DataType_Bool = DataType kUInt 1 1"

datatype Var = Var (name_hint: string) (var_dtype: DataType) (vid: nat)

text \<open>\<^verbatim>\<open>Var::copy_with_suffix\<close>: a new variable object (identity \<open>fresh\<close>) whose
  name hint is extended by the suffix.\<close>

definition copy_with_suffix :: "Var \<Rightarrow> string \<Rightarrow> nat \<Rightarrow> Var" where
  "copy_with_suffix v suffix fresh = Var (name_hint v @ suffix) (var_dtype v) fresh"

datatype PrimExpr =
    VarE Var
  | IntImm DataType int
  | Add PrimExpr PrimExpr
  | Sub PrimExpr PrimExpr
  | Mul PrimExpr PrimExpr
  | Cast DataType PrimExpr
  | BufferLoad DataType Var "PrimExpr list"
  | Call DataType string "PrimExpr list"

fun dtype :: "PrimExpr \<Rightarrow> DataType" where
  "dtype (VarE v) = var_dtype v"
| "dtype (IntImm t n) = t"
| "dtype (Add a b) = dtype a"
| "dtype (Sub a b) = dtype a"
| "dtype (Mul a b) = dtype a"
| "dtype (Cast t a) = t"
| "dtype (BufferLoad t d idx) = t"
| "dtype (Call t f args) = t"

text \<open>\<^verbatim>\<open>is_one\<close>, \<^verbatim>\<open>make_zero\<close> and \<^verbatim>\<open>make_const\<close> on integer
  and boolean types: a constant is an \<open>IntImm\<close> node of that type.\<close>

fun is_one :: "PrimExpr \<Rightarrow> bool" where
  "is_one (IntImm t n) = (n = 1)"
| "is_one e = False"

definition make_zero :: "DataType \<Rightarrow> PrimExpr" where
  "make_zero t = IntImm t 0"

definition make_const :: "DataType \<Rightarrow> int \<Rightarrow> PrimExpr" where
  "make_const t n = IntImm t n"

datatype Range = Range (range_min: PrimExpr) (extent: PrimExpr)

definition Range_FromMinExtent :: "PrimExpr \<Rightarrow> PrimExpr \<Rightarrow> Range" where
  "Range_FromMinExtent m e = Range m e"

definition RangeFromExtent :: "PrimExpr \<Rightarrow> Range" where
  "RangeFromExtent e = Range_FromMinExtent (make_zero (dtype e)) e"

datatype IterVarType = kDataPar | kThreadIndex | kCommReduce | kOrdered | kOpaque

datatype IterVar = IterVar (dom_iv: Range) (var: Var) (iter_type: IterVarType)

datatype Buffer = Buffer (data: Var) (shape: "PrimExpr list") (buffer_name: string)

datatype BufferRegion = BufferRegion (buffer: Buffer) (region: "Range list")

datatype MatchBufferRegion = MatchBufferRegion (match_buffer: Buffer) (source_region: BufferRegion)

datatype ForKind = kSerial | kParallel | kVectorized | kUnrolled | kThreadBinding

datatype Stmt =
    ForS ForNode
  | BlockRealizeS BlockRealize
  | BlockS Block
  | SeqStmt "Stmt list"
  | IfThenElse PrimExpr Stmt "Stmt option"
  | BufferStore Buffer PrimExpr "PrimExpr list"
  | Evaluate PrimExpr
and ForNode =
    ForNode (loop_var: Var) (for_min: PrimExpr) (for_extent: PrimExpr) (kind: ForKind)
            (for_body: Stmt) (for_addr: nat)
and Block =
    Block (iter_vars: "IterVar list") (reads: "BufferRegion list") (writes: "BufferRegion list")
          (block_name_hint: string) (body: Stmt) (init: "Stmt option")
          (alloc_buffers: "Buffer list") (match_buffers: "MatchBufferRegion list")
          (annotations: "(string \<times> string) list") (block_addr: nat)
and BlockRealize =
    BlockRealize (iter_values: "PrimExpr list") (predicate: PrimExpr) (block: Block)

subsection \<open>Variable use\<close>

text \<open>\<^verbatim>\<open>UsesVar(x, pred)\<close>: some variable occurring in \<open>x\<close> satisfies the predicate.
  A buffer access touches the buffer's data variable as well as its indices.\<close>

fun UsesVar :: "PrimExpr \<Rightarrow> (Var \<Rightarrow> bool) \<Rightarrow> bool" where
  "UsesVar (VarE v) p = p v"
| "UsesVar (IntImm t n) p = False"
| "UsesVar (Add a b) p = (UsesVar a p \<or> UsesVar b p)"
| "UsesVar (Sub a b) p = (UsesVar a p \<or> UsesVar b p)"
| "UsesVar (Mul a b) p = (UsesVar a p \<or> UsesVar b p)"
| "UsesVar (Cast t a) p = UsesVar a p"
| "UsesVar (BufferLoad t d idx) p = (p d \<or> (\<exists>i \<in> set idx. UsesVar i p))"
| "UsesVar (Call t f args) p = (\<exists>a \<in> set args. UsesVar a p)"

definition UsesVar_Range :: "Range \<Rightarrow> (Var \<Rightarrow> bool) \<Rightarrow> bool" where
  "UsesVar_Range r p = (UsesVar (range_min r) p \<or> UsesVar (extent r) p)"

definition UsesVar_Region :: "BufferRegion \<Rightarrow> (Var \<Rightarrow> bool) \<Rightarrow> bool" where
  "UsesVar_Region br p = (\<exists>r \<in> set (region br). UsesVar_Range r p)"

fun UsesVar_Stmt :: "Stmt \<Rightarrow> (Var \<Rightarrow> bool) \<Rightarrow> bool"
  and UsesVar_For :: "ForNode \<Rightarrow> (Var \<Rightarrow> bool) \<Rightarrow> bool"
  and UsesVar_Block :: "Block \<Rightarrow> (Var \<Rightarrow> bool) \<Rightarrow> bool"
  and UsesVar_BlockRealize :: "BlockRealize \<Rightarrow> (Var \<Rightarrow> bool) \<Rightarrow> bool" where
  "UsesVar_Stmt (ForS f) p = UsesVar_For f p"
| "UsesVar_Stmt (BlockRealizeS r) p = UsesVar_BlockRealize r p"
| "UsesVar_Stmt (BlockS b) p = UsesVar_Block b p"
| "UsesVar_Stmt (SeqStmt ss) p = (\<exists>s \<in> set ss. UsesVar_Stmt s p)"
| "UsesVar_Stmt (IfThenElse c t e) p =
     (UsesVar c p \<or> UsesVar_Stmt t p \<or> (case e of None \<Rightarrow> False | Some s \<Rightarrow> UsesVar_Stmt s p))"
| "UsesVar_Stmt (BufferStore b v idx) p =
     (p (data b) \<or> UsesVar v p \<or> (\<exists>i \<in> set idx. UsesVar i p))"
| "UsesVar_Stmt (Evaluate e) p = UsesVar e p"
| "UsesVar_For (ForNode lv mn ex k bd a) p = (UsesVar mn p \<or> UsesVar ex p \<or> UsesVar_Stmt bd p)"
| "UsesVar_Block (Block ivs rs ws nm bd ini al mb an a) p =
     ((\<exists>iv \<in> set ivs. UsesVar_Range (dom_iv iv) p)
      \<or> (\<exists>r \<in> set rs. UsesVar_Region r p)
      \<or> (\<exists>w \<in> set ws. UsesVar_Region w p)
      \<or> (\<exists>m \<in> set mb. UsesVar_Region (source_region m) p)
      \<or> (case ini of None \<Rightarrow> False | Some s \<Rightarrow> UsesVar_Stmt s p)
      \<or> UsesVar_Stmt bd p)"
| "UsesVar_BlockRealize (BlockRealize vs pr b) p =
     ((\<exists>v \<in> set vs. UsesVar v p) \<or> UsesVar pr p \<or> UsesVar_Block b p)"

text \<open>The overload \<^verbatim>\<open>UsesVar(x, var)\<close> of the file: the variable object itself.\<close>

definition UsesVar1 :: "PrimExpr \<Rightarrow> Var \<Rightarrow> bool" where
  "UsesVar1 x v = UsesVar x (\<lambda>w. w = v)"

definition UsesVar1_Stmt :: "Stmt \<Rightarrow> Var \<Rightarrow> bool" where
  "UsesVar1_Stmt x v = UsesVar_Stmt x (\<lambda>w. w = v)"

subsection \<open>Errors, srefs and the schedule state\<close>

text \<open>A failed \<^verbatim>\<open>ICHECK\<close>, an out-of-range \<^verbatim>\<open>Array\<close> or map access and
  \<^verbatim>\<open>LOG(FATAL)\<close> are fatal errors; \<^verbatim>\<open>SubspaceNotDivisibleError\<close> is the
  schedule error of the file, with its three constructor arguments.\<close>

datatype IRModule = IRModule nat

datatype error =
    SubspaceNotDivisibleError IRModule ForNode Block
  | Fatal string

text \<open>Modelled from the spec: the constructor \<^verbatim>\<open>BlockRealize(iter_values, predicate, block)\<close>
  of the IR, whose code is not part of the file. Section 3 of the specification gives
  the invariant of a block realize, one iterator value per iterator of its block; the
  constructor rejects lists of different sizes with a fatal error.\<close>

definition BlockRealize_ctor :: "PrimExpr list \<Rightarrow> PrimExpr \<Rightarrow> Block \<Rightarrow> error + BlockRealize" where
  "BlockRealize_ctor vals pred blk =
     (if length (iter_vars blk) \<noteq> length vals
      then Inl (Fatal (''ValueError: BlockRealize needs to have the same number of ''
                       @ ''iter_vars and binding values''))
      else Inr (BlockRealize vals pred blk))"

datatype SRefStmt = SRefFor ForNode | SRefBlock Block

datatype StmtSRef =
    StmtSRef (stmt: SRefStmt) (parent: "StmtSRef option") (sref_addr: nat)

fun FastErrorString :: "error \<Rightarrow> string" where
  "FastErrorString (SubspaceNotDivisibleError m l b) =
     ''ScheduleError: The bindings of the inner block can not be blockized.''"
| "FastErrorString (Fatal msg) = msg"

fun DetailRenderTemplate :: "error \<Rightarrow> string" where
  "DetailRenderTemplate (SubspaceNotDivisibleError m l b) =
     ''ScheduleError: The bindings of the inner block {0} can not be blockized by the loops ''
     @ ''starting at {1}.''"
| "DetailRenderTemplate (Fatal msg) = msg"

fun LocationsOfInterest :: "error \<Rightarrow> SRefStmt list" where
  "LocationsOfInterest (SubspaceNotDivisibleError m scope_loop inner_block) =
     [SRefBlock inner_block, SRefFor scope_loop]"
| "LocationsOfInterest (Fatal msg) = []"

section \<open>Subspace division\<close>

text \<open>The certificates of the arithmetic solver: an \<^verbatim>\<open>IterMark\<close> carries a source
  and an extent; its source is an \<^verbatim>\<open>IterSplitExpr\<close> over a mark (the
  one-argument constructor, all other fields being defaults), an \<^verbatim>\<open>IterSumExpr\<close>
  of arguments and a base, or a plain expression.\<close>

datatype IterSource =
    PlainExpr PrimExpr
  | IterSplitExpr IterMark
  | IterSumExpr "IterSource list" PrimExpr
and IterMark =
    IterMark (source: IterSource) (mark_extent: PrimExpr)

text \<open>The operations of the arithmetic library that the file calls. They are not part
  of the file and are taken as parameters: the affine solver
  \<^verbatim>\<open>arith::SubspaceDivide\<close> (bindings, loop domains, inner variables, predicate,
  \<^verbatim>\<open>simplify_trivial_iterators\<close>), \<^verbatim>\<open>NormalizeIterMapToExpr\<close>, the analyzer's
  \<^verbatim>\<open>Simplify\<close> under the variable domains bound so far and its
  \<^verbatim>\<open>CanProveEqual\<close>, and the interval sets \<open>'s\<close> with \<^verbatim>\<open>IntSet::FromRange\<close>,
  \<^verbatim>\<open>EvalSet\<close>, \<^verbatim>\<open>CoverRange\<close>, \<^verbatim>\<open>Union\<close>, \<^verbatim>\<open>min\<close> and \<^verbatim>\<open>max\<close>.\<close>

record 's Arith =
  arith_SubspaceDivide ::
    "PrimExpr list \<Rightarrow> (Var \<times> Range) list \<Rightarrow> Var list \<Rightarrow> PrimExpr \<Rightarrow> bool \<Rightarrow> IterMark list list"
  NormalizeIterMapToExpr :: "IterSource \<Rightarrow> PrimExpr"
  Simplify :: "(Var \<times> Range) list \<Rightarrow> PrimExpr \<Rightarrow> PrimExpr"
  CanProveEqual :: "PrimExpr \<Rightarrow> PrimExpr \<Rightarrow> bool"
  IntSet_FromRange :: "Range \<Rightarrow> 's"
  EvalSet :: "Range list \<Rightarrow> (Var \<times> 's) list \<Rightarrow> 's list"
  CoverRange :: "'s \<Rightarrow> Range \<Rightarrow> Range"
  IntSet_Union :: "'s list \<Rightarrow> 's"
  IntSet_min :: "'s \<Rightarrow> PrimExpr"
  IntSet_max :: "'s \<Rightarrow> PrimExpr"

definition make_uses_var :: "Var list \<Rightarrow> PrimExpr \<Rightarrow> bool" where
  "make_uses_var vars expr = UsesVar expr (\<lambda>v. v \<in> set vars)"

definition unit_iter_mark :: IterMark where
  "unit_iter_mark =
     IterMark (IterSumExpr [] (IntImm (DataType_Int 32) 0)) (IntImm (DataType_Int 32) 1)"

definition true_iter_mark :: IterMark where
  "true_iter_mark = IterMark (IterSumExpr [] (IntImm (DataType_Int 32) 0)) (IntImm DataType_Bool 1)"

text \<open>The mark of one binding in \<^verbatim>\<open>TrivialSubspaceDivision\<close>: a split over the
  binding when the binding is a variable node, a sum with the binding as base otherwise;
  its extent is the extent of the block iterator.\<close>

fun trivial_iter_mark :: "IterVar \<Rightarrow> PrimExpr \<Rightarrow> IterMark" where
  "trivial_iter_mark iv (VarE v) =
     IterMark (IterSplitExpr (IterMark (PlainExpr (VarE v)) (extent (dom_iv iv))))
              (extent (dom_iv iv))"
| "trivial_iter_mark iv b = IterMark (IterSumExpr [] b) (extent (dom_iv iv))"

text \<open>The loop of \<^verbatim>\<open>TrivialSubspaceDivision\<close> over \<open>i = 0 ..< bindings.size()\<close>;
  the two lists are consumed in step, \<open>iter_vars[i]\<close> beyond the end of \<open>iter_vars\<close>
  is the fatal index error of \<^verbatim>\<open>Array\<close>. The empty list is the failure value.\<close>

fun TrivialSubspaceDivision_loop ::
  "IterVar list \<Rightarrow> PrimExpr list \<Rightarrow> (PrimExpr \<Rightarrow> bool) \<Rightarrow> (PrimExpr \<Rightarrow> bool) \<Rightarrow>
   IterMark list list \<Rightarrow> error + IterMark list list" where
  "TrivialSubspaceDivision_loop ivs [] use_outer use_inner res =
     Inr (res @ [[true_iter_mark, true_iter_mark]])"
| "TrivialSubspaceDivision_loop [] (b # bs) use_outer use_inner res =
     Inl (Fatal ''IndexError'')"
| "TrivialSubspaceDivision_loop (iv # ivs) (b # bs) use_outer use_inner res =
     (let outer = use_outer b; inner = use_inner b; iter_mark = trivial_iter_mark iv b in
      if outer \<and> \<not> inner then
        TrivialSubspaceDivision_loop ivs bs use_outer use_inner (res @ [[iter_mark, unit_iter_mark]])
      else if inner \<and> \<not> outer then
        TrivialSubspaceDivision_loop ivs bs use_outer use_inner (res @ [[unit_iter_mark, iter_mark]])
      else if \<not> outer \<and> \<not> inner then
        TrivialSubspaceDivision_loop ivs bs use_outer use_inner
          (res @ [[unit_iter_mark, unit_iter_mark]])
      else Inr [])"

definition TrivialSubspaceDivision ::
  "IterVar list \<Rightarrow> PrimExpr list \<Rightarrow> PrimExpr \<Rightarrow> Var list \<Rightarrow> Var list \<Rightarrow>
   error + IterMark list list" where
  "TrivialSubspaceDivision ivs bindings pred outer_iters inner_iters =
     (if \<not> is_one pred then Inr []
      else TrivialSubspaceDivision_loop ivs bindings
             (make_uses_var outer_iters) (make_uses_var inner_iters) [])"

text \<open>The walk of \<^verbatim>\<open>SubspaceDivide\<close> from the parent of the block upwards, as long
  as the sref is a loop. The accumulator holds \<open>loops\<close>, \<open>inner_vars\<close>, \<open>outer_vars\<close>
  and \<open>loop_var_domain\<close>; the flag \<open>inner\<close> is cleared after the loop of
  \<open>loop_sref\<close> (or, with \<open>loop_sref_as_outer\<close>, after its child).\<close>

fun parent_is :: "StmtSRef option \<Rightarrow> StmtSRef \<Rightarrow> bool" where
  "parent_is None l = False"
| "parent_is (Some p) l = (sref_addr p = sref_addr l)"

fun SubspaceDivide_walk ::
  "StmtSRef option \<Rightarrow> StmtSRef \<Rightarrow> bool \<Rightarrow> bool \<Rightarrow>
   ForNode list \<times> Var list \<times> Var list \<times> (Var \<times> Range) list \<Rightarrow>
   ForNode list \<times> Var list \<times> Var list \<times> (Var \<times> Range) list" where
  "SubspaceDivide_walk None loop_sref as_outer inner acc = acc"
| "SubspaceDivide_walk (Some (StmtSRef (SRefBlock b) par a)) loop_sref as_outer inner acc = acc"
| "SubspaceDivide_walk (Some (StmtSRef (SRefFor loop) par a)) loop_sref as_outer inner
     (loops, inner_vars, outer_vars, loop_var_domain) =
     (let loops' = (if inner then loops @ [loop] else loops);
          inner_vars' = (if inner then inner_vars @ [loop_var loop] else inner_vars);
          outer_vars' = (if inner then outer_vars else outer_vars @ [loop_var loop]);
          dom' = AList.update (loop_var loop)
                   (Range_FromMinExtent (for_min loop) (for_extent loop)) loop_var_domain;
          inner' = (if (as_outer \<and> parent_is par loop_sref) \<or> a = sref_addr loop_sref
                    then False else inner)
      in SubspaceDivide_walk par loop_sref as_outer inner' (loops', inner_vars', outer_vars', dom'))"

text \<open>\<^verbatim>\<open>SubspaceDivide\<close> returns the division and, through its out-parameter,
  the inner loops.\<close>

definition SubspaceDivide ::
  "'s Arith \<Rightarrow> BlockRealize \<Rightarrow> StmtSRef \<Rightarrow> StmtSRef \<Rightarrow> bool \<Rightarrow> bool \<Rightarrow>
   ForNode list \<times> (error + IterMark list list)" where
  "SubspaceDivide ar realize block_sref loop_sref preserve_unit_iters loop_sref_as_outer =
     (case SubspaceDivide_walk (parent block_sref) loop_sref loop_sref_as_outer True ([], [], [], [])
      of (loops, inner_vars, outer_vars, loop_var_domain) \<Rightarrow>
        (let result = arith_SubspaceDivide ar (iter_values realize) loop_var_domain inner_vars
                        (predicate realize) (\<not> preserve_unit_iters)
         in if result \<noteq> [] then (loops, Inr result)
            else (loops, TrivialSubspaceDivision (iter_vars (block realize)) (iter_values realize)
                           (predicate realize) outer_vars inner_vars)))"

section \<open>Block bindings\<close>

text \<open>\<^verbatim>\<open>DeriveBlockBinding\<close>. The state of its loop is the returned map
  \<open>block_var_subst\<close>, the four out-lists (outer iterators, outer bindings, inner
  iterators, inner bindings) and the supply of fresh variable objects. One iteration
  reads \<open>division[i][0]\<close> and \<open>division[i][1]\<close>, downcasts both sources to
  \<^verbatim>\<open>IterMapExpr\<close>, takes or creates the outer iterator, and records the
  substitution of the original iterator. The product and the sum of the last case are
  the nodes \<open>Mul\<close> and \<open>Add\<close>.\<close>

type_synonym DeriveState =
  "(Var \<times> PrimExpr) list \<times> IterVar list \<times> PrimExpr list \<times> IterVar list \<times> PrimExpr list \<times> nat"

fun is_IterMapExpr :: "IterSource \<Rightarrow> bool" where
  "is_IterMapExpr (PlainExpr e) = False"
| "is_IterMapExpr (IterSplitExpr m) = True"
| "is_IterMapExpr (IterSumExpr args b) = True"

definition DeriveBlockBinding_outer ::
  "'s Arith \<Rightarrow> bool \<Rightarrow> nat \<Rightarrow> IterVar \<Rightarrow> IterMark \<Rightarrow> IterVar list \<Rightarrow> PrimExpr list \<Rightarrow> nat \<Rightarrow>
   error + (IterVar \<times> IterVar list \<times> PrimExpr list \<times> nat)" where
  "DeriveBlockBinding_outer ar reuse_outer i iter_var outer_mark outer_iter_vars outer_bindings fresh =
     (if reuse_outer \<and> i < length outer_iter_vars then
        (let outer_iter = outer_iter_vars ! i in
         if \<not> CanProveEqual ar (extent (dom_iv outer_iter)) (mark_extent outer_mark)
         then Inl (Fatal ''Check failed: CanProveEqual(outer_iter->dom->extent, outer_mark->extent)'')
         else if \<not> i < length outer_bindings then Inl (Fatal ''IndexError'')
         else if \<not> CanProveEqual ar (outer_bindings ! i)
                     (NormalizeIterMapToExpr ar (source outer_mark))
         then Inl (Fatal ''Check failed: CanProveEqual(outer_bindings[i], outer_binding)'')
         else Inr (outer_iter, outer_iter_vars, outer_bindings, fresh))
      else
        (let outer_iter = IterVar (RangeFromExtent (mark_extent outer_mark))
                            (copy_with_suffix (var iter_var) ''_o'' fresh) (iter_type iter_var)
         in Inr (outer_iter, outer_iter_vars @ [outer_iter],
                 outer_bindings @ [NormalizeIterMapToExpr ar (source outer_mark)], Suc fresh)))"

definition DeriveBlockBinding_step ::
  "'s Arith \<Rightarrow> bool \<Rightarrow> bool \<Rightarrow> nat \<Rightarrow> IterVar \<Rightarrow> IterMark list \<Rightarrow> DeriveState \<Rightarrow>
   error + DeriveState" where
  "DeriveBlockBinding_step ar preserve_unit_iters reuse_outer i iter_var d st =
     (case st of (block_var_subst, outer_iter_vars, outer_bindings, inner_iter_vars,
                  inner_bindings, fresh) \<Rightarrow>
      (case d of
         outer_mark # inner_mark # rest \<Rightarrow>
           if \<not> is_IterMapExpr (source outer_mark) \<or> \<not> is_IterMapExpr (source inner_mark)
           then Inl (Fatal ''Downcast failed'')
           else
             (case DeriveBlockBinding_outer ar reuse_outer i iter_var outer_mark
                     outer_iter_vars outer_bindings fresh of
                Inl e \<Rightarrow> Inl e
              | Inr (outer_iter, outer_iter_vars', outer_bindings', fresh') \<Rightarrow>
                  if is_one (mark_extent inner_mark) then
                    (let sub = (if is_one (mark_extent outer_mark) \<and> \<not> preserve_unit_iters
                                then make_zero (dtype (mark_extent outer_mark))
                                else VarE (var outer_iter))
                     in Inr (AList.update (var iter_var) sub block_var_subst, outer_iter_vars',
                             outer_bindings', inner_iter_vars, inner_bindings, fresh'))
                  else
                    (let inner_iter = IterVar (RangeFromExtent (mark_extent inner_mark))
                                        (copy_with_suffix (var iter_var) ''_i'' fresh')
                                        (iter_type iter_var);
                         sub = (if is_one (mark_extent outer_mark) then VarE (var inner_iter)
                                else Add (Mul (VarE (var outer_iter)) (mark_extent inner_mark))
                                         (VarE (var inner_iter)))
                     in Inr (AList.update (var iter_var) sub block_var_subst, outer_iter_vars',
                             outer_bindings', inner_iter_vars @ [inner_iter],
                             inner_bindings @ [NormalizeIterMapToExpr ar (source inner_mark)],
                             Suc fresh')))
       | _ \<Rightarrow> Inl (Fatal ''IndexError'')))"

fun DeriveBlockBinding_loop ::
  "'s Arith \<Rightarrow> bool \<Rightarrow> bool \<Rightarrow> nat \<Rightarrow> IterVar list \<Rightarrow> IterMark list list \<Rightarrow> DeriveState \<Rightarrow>
   error + DeriveState" where
  "DeriveBlockBinding_loop ar pui reuse_outer i [] division st = Inr st"
| "DeriveBlockBinding_loop ar pui reuse_outer i (iter_var # ivs) [] st = Inl (Fatal ''IndexError'')"
| "DeriveBlockBinding_loop ar pui reuse_outer i (iter_var # ivs) (d # ds) st =
     (case DeriveBlockBinding_step ar pui reuse_outer i iter_var d st of
        Inl e \<Rightarrow> Inl e
      | Inr st' \<Rightarrow> DeriveBlockBinding_loop ar pui reuse_outer (Suc i) ivs ds st')"

definition DeriveBlockBinding ::
  "'s Arith \<Rightarrow> IterVar list \<Rightarrow> IterMark list list \<Rightarrow>
   IterVar list \<Rightarrow> PrimExpr list \<Rightarrow> IterVar list \<Rightarrow> PrimExpr list \<Rightarrow> bool \<Rightarrow> bool \<Rightarrow> nat \<Rightarrow>
   error + DeriveState" where
  "DeriveBlockBinding ar ivs division outer_iter_vars outer_bindings inner_iter_vars inner_bindings
     preserve_unit_iters reuse_outer fresh =
     (if length ivs + 1 \<noteq> length division
      then Inl (Fatal ''Check failed: iter_vars.size() + 1 == division.size()'')
      else DeriveBlockBinding_loop ar preserve_unit_iters reuse_outer 0 ivs division
             ([], outer_iter_vars, outer_bindings, inner_iter_vars, inner_bindings, fresh))"

section \<open>Substitution and regions\<close>

text \<open>\<^verbatim>\<open>Substitute(stmt, sub, block_sref_reuse, analyzer)\<close>. The \<^verbatim>\<open>Replacer\<close>
  of the file overrides the visit of an expression (simplify the result when it differs
  from the input), of a variable (look it up in the map) and of a block (record a
  rewritten block). The traversal itself is that of the mutator base class, which is not
  part of the file; following section 4.1 of the specification it rewrites the
  expressions of a node and nothing else: the iterator domains, regions, init and body
  of a block, the bounds and body of a loop, the values and predicate of a block
  realize, the indices and value of a store.\<close>

definition simplify_if_changed :: "(PrimExpr \<Rightarrow> PrimExpr) \<Rightarrow> PrimExpr \<Rightarrow> PrimExpr \<Rightarrow> PrimExpr" where
  "simplify_if_changed simp op result = (if result \<noteq> op then simp result else result)"

fun Substitute_expr :: "(PrimExpr \<Rightarrow> PrimExpr) \<Rightarrow> (Var \<times> PrimExpr) list \<Rightarrow> PrimExpr \<Rightarrow> PrimExpr" where
  "Substitute_expr simp sub (VarE v) =
     simplify_if_changed simp (VarE v) (case map_of sub v of Some e \<Rightarrow> e | None \<Rightarrow> VarE v)"
| "Substitute_expr simp sub (IntImm t n) = IntImm t n"
| "Substitute_expr simp sub (Add a b) =
     simplify_if_changed simp (Add a b) (Add (Substitute_expr simp sub a) (Substitute_expr simp sub b))"
| "Substitute_expr simp sub (Sub a b) =
     simplify_if_changed simp (Sub a b) (Sub (Substitute_expr simp sub a) (Substitute_expr simp sub b))"
| "Substitute_expr simp sub (Mul a b) =
     simplify_if_changed simp (Mul a b) (Mul (Substitute_expr simp sub a) (Substitute_expr simp sub b))"
| "Substitute_expr simp sub (Cast t a) =
     simplify_if_changed simp (Cast t a) (Cast t (Substitute_expr simp sub a))"
| "Substitute_expr simp sub (BufferLoad t d idx) =
     simplify_if_changed simp (BufferLoad t d idx) (BufferLoad t d (map (Substitute_expr simp sub) idx))"
| "Substitute_expr simp sub (Call t f args) =
     simplify_if_changed simp (Call t f args) (Call t f (map (Substitute_expr simp sub) args))"

definition Substitute_Range :: "(PrimExpr \<Rightarrow> PrimExpr) \<Rightarrow> (Var \<times> PrimExpr) list \<Rightarrow> Range \<Rightarrow> Range" where
  "Substitute_Range simp sub r =
     Range (Substitute_expr simp sub (range_min r)) (Substitute_expr simp sub (extent r))"

definition Substitute_Region ::
  "(PrimExpr \<Rightarrow> PrimExpr) \<Rightarrow> (Var \<times> PrimExpr) list \<Rightarrow> BufferRegion \<Rightarrow> BufferRegion" where
  "Substitute_Region simp sub br = BufferRegion (buffer br) (map (Substitute_Range simp sub) (region br))"

definition Substitute_IterVar :: "(PrimExpr \<Rightarrow> PrimExpr) \<Rightarrow> (Var \<times> PrimExpr) list \<Rightarrow> IterVar \<Rightarrow> IterVar" where
  "Substitute_IterVar simp sub iv = IterVar (Substitute_Range simp sub (dom_iv iv)) (var iv) (iter_type iv)"

definition Substitute_Match ::
  "(PrimExpr \<Rightarrow> PrimExpr) \<Rightarrow> (Var \<times> PrimExpr) list \<Rightarrow> MatchBufferRegion \<Rightarrow> MatchBufferRegion" where
  "Substitute_Match simp sub m =
     MatchBufferRegion (match_buffer m) (Substitute_Region simp sub (source_region m))"

fun Substitute_Stmt :: "(PrimExpr \<Rightarrow> PrimExpr) \<Rightarrow> (Var \<times> PrimExpr) list \<Rightarrow> Stmt \<Rightarrow> Stmt"
  and Substitute_For :: "(PrimExpr \<Rightarrow> PrimExpr) \<Rightarrow> (Var \<times> PrimExpr) list \<Rightarrow> ForNode \<Rightarrow> ForNode"
  and Substitute_Block :: "(PrimExpr \<Rightarrow> PrimExpr) \<Rightarrow> (Var \<times> PrimExpr) list \<Rightarrow> Block \<Rightarrow> Block"
  and Substitute_BlockRealize ::
    "(PrimExpr \<Rightarrow> PrimExpr) \<Rightarrow> (Var \<times> PrimExpr) list \<Rightarrow> BlockRealize \<Rightarrow> BlockRealize" where
  "Substitute_Stmt simp sub (ForS f) = ForS (Substitute_For simp sub f)"
| "Substitute_Stmt simp sub (BlockRealizeS r) = BlockRealizeS (Substitute_BlockRealize simp sub r)"
| "Substitute_Stmt simp sub (BlockS b) = BlockS (Substitute_Block simp sub b)"
| "Substitute_Stmt simp sub (SeqStmt ss) = SeqStmt (map (Substitute_Stmt simp sub) ss)"
| "Substitute_Stmt simp sub (IfThenElse c t e) =
     IfThenElse (Substitute_expr simp sub c) (Substitute_Stmt simp sub t)
       (case e of None \<Rightarrow> None | Some s \<Rightarrow> Some (Substitute_Stmt simp sub s))"
| "Substitute_Stmt simp sub (BufferStore b v idx) =
     BufferStore b (Substitute_expr simp sub v) (map (Substitute_expr simp sub) idx)"
| "Substitute_Stmt simp sub (Evaluate e) = Evaluate (Substitute_expr simp sub e)"
| "Substitute_For simp sub (ForNode lv mn ex k bd a) =
     ForNode lv (Substitute_expr simp sub mn) (Substitute_expr simp sub ex) k
       (Substitute_Stmt simp sub bd) a"
| "Substitute_Block simp sub (Block ivs rs ws nm bd ini al mb an a) =
     Block (map (Substitute_IterVar simp sub) ivs)
       (map (Substitute_Region simp sub) rs) (map (Substitute_Region simp sub) ws) nm
       (Substitute_Stmt simp sub bd)
       (case ini of None \<Rightarrow> None | Some s \<Rightarrow> Some (Substitute_Stmt simp sub s))
       al (map (Substitute_Match simp sub) mb) an a"
| "Substitute_BlockRealize simp sub (BlockRealize vs pr b) =
     BlockRealize (map (Substitute_expr simp sub) vs) (Substitute_expr simp sub pr)
       (Substitute_Block simp sub b)"

text \<open>The entries that the \<^verbatim>\<open>Replacer\<close> adds to \<open>block_sref_reuse\<close>: every block of
  the statement whose rewritten form differs from it, children before parents.\<close>

fun Substitute_reuse :: "(PrimExpr \<Rightarrow> PrimExpr) \<Rightarrow> (Var \<times> PrimExpr) list \<Rightarrow> Stmt \<Rightarrow> (Block \<times> Block) list"
  and Substitute_reuse_For ::
    "(PrimExpr \<Rightarrow> PrimExpr) \<Rightarrow> (Var \<times> PrimExpr) list \<Rightarrow> ForNode \<Rightarrow> (Block \<times> Block) list"
  and Substitute_reuse_Block ::
    "(PrimExpr \<Rightarrow> PrimExpr) \<Rightarrow> (Var \<times> PrimExpr) list \<Rightarrow> Block \<Rightarrow> (Block \<times> Block) list"
  and Substitute_reuse_BlockRealize ::
    "(PrimExpr \<Rightarrow> PrimExpr) \<Rightarrow> (Var \<times> PrimExpr) list \<Rightarrow> BlockRealize \<Rightarrow> (Block \<times> Block) list" where
  "Substitute_reuse simp sub (ForS f) = Substitute_reuse_For simp sub f"
| "Substitute_reuse simp sub (BlockRealizeS r) = Substitute_reuse_BlockRealize simp sub r"
| "Substitute_reuse simp sub (BlockS b) = Substitute_reuse_Block simp sub b"
| "Substitute_reuse simp sub (SeqStmt ss) = concat (map (Substitute_reuse simp sub) ss)"
| "Substitute_reuse simp sub (IfThenElse c t e) =
     Substitute_reuse simp sub t @ (case e of None \<Rightarrow> [] | Some s \<Rightarrow> Substitute_reuse simp sub s)"
| "Substitute_reuse simp sub (BufferStore b v idx) = []"
| "Substitute_reuse simp sub (Evaluate e) = []"
| "Substitute_reuse_For simp sub (ForNode lv mn ex k bd a) = Substitute_reuse simp sub bd"
| "Substitute_reuse_Block simp sub (Block ivs rs ws nm bd ini al mb an a) =
     (case ini of None \<Rightarrow> [] | Some s \<Rightarrow> Substitute_reuse simp sub s)
     @ Substitute_reuse simp sub bd
     @ (let src = Block ivs rs ws nm bd ini al mb an a; tgt = Substitute_Block simp sub src
        in if src \<noteq> tgt then [(src, tgt)] else [])"
| "Substitute_reuse_BlockRealize simp sub (BlockRealize vs pr b) = Substitute_reuse_Block simp sub b"

text \<open>A \<^verbatim>\<open>Map\<close> keeps one entry per key: \<^verbatim>\<open>Set\<close> is \<open>AList.update\<close>.\<close>

definition Map_Set_all :: "('k \<times> 'v) list \<Rightarrow> ('k \<times> 'v) list \<Rightarrow> ('k \<times> 'v) list" where
  "Map_Set_all m kvs = foldl (\<lambda>acc (k, v). AList.update k v acc) m kvs"

text \<open>Modelled from the spec: \<^verbatim>\<open>tir::Substitute(stmt, Map<Var, Var>)\<close> of the
  statement functors, which is not part of the file. Section 4.1: every occurrence of a
  mapped variable is replaced and there is no structural change other than variable
  substitution; it does not simplify.\<close>

definition tir_Substitute :: "Stmt \<Rightarrow> (Var \<times> Var) list \<Rightarrow> Stmt" where
  "tir_Substitute s vmap = Substitute_Stmt (\<lambda>e. e) (map (\<lambda>(k, v). (k, VarE v)) vmap) s"

definition tir_Substitute_expr :: "PrimExpr \<Rightarrow> (Var \<times> Var) list \<Rightarrow> PrimExpr" where
  "tir_Substitute_expr e vmap = Substitute_expr (\<lambda>e. e) (map (\<lambda>(k, v). (k, VarE v)) vmap) e"

text \<open>\<^verbatim>\<open>EvalSetRegions\<close>: relax every region over the domain map and cover it by the
  buffer's shape; the relaxed region must have one set per buffer dimension.\<close>

fun EvalSetRegions :: "'s Arith \<Rightarrow> BufferRegion list \<Rightarrow> (Var \<times> 's) list \<Rightarrow> error + BufferRegion list" where
  "EvalSetRegions ar [] dom_map = Inr []"
| "EvalSetRegions ar (buffer_region # regions) dom_map =
     (let buf = buffer buffer_region;
          relaxed = EvalSet ar (region buffer_region) dom_map
      in if length relaxed \<noteq> length (shape buf)
         then Inl (Fatal ''Check failed: relaxed.size() == buffer->shape.size()'')
         else (case EvalSetRegions ar regions dom_map of
                 Inl e \<Rightarrow> Inl e
               | Inr results \<Rightarrow>
                   Inr (BufferRegion buf
                          (map2 (\<lambda>r sh. CoverRange ar r (RangeFromExtent sh)) relaxed (shape buf))
                        # results)))"

section \<open>Single-loop Blockize\<close>

text \<open>\<^verbatim>\<open>GenerateInner\<close>: the block template gets the inner iterators, loses its init
  and, for a write reduction, reads its writes before its reads; the block realize is
  built by the constructor.\<close>

definition GenerateInner ::
  "bool \<Rightarrow> IterVar list \<Rightarrow> PrimExpr list \<Rightarrow> PrimExpr \<Rightarrow> Block \<Rightarrow> error + BlockRealize" where
  "GenerateInner is_write_reduction ivs ivals pred blk =
     BlockRealize_ctor ivals pred
       (Block ivs (if is_write_reduction then writes blk @ reads blk else reads blk) (writes blk)
          (block_name_hint blk) (body blk) None (alloc_buffers blk) (match_buffers blk)
          (annotations blk) (block_addr blk))"

text \<open>\<^verbatim>\<open>GenerateOuterInit\<close>, step 1: the iterators of the init block. The state is
  the substitution map, the new iterators, their values and the supply of fresh
  variable objects.\<close>

fun GenerateOuterInit_iters ::
  "Stmt \<Rightarrow> IterVar list \<Rightarrow> PrimExpr list \<Rightarrow>
   (Var \<times> Var) list \<times> IterVar list \<times> PrimExpr list \<times> nat \<Rightarrow>
   (Var \<times> Var) list \<times> IterVar list \<times> PrimExpr list \<times> nat" where
  "GenerateOuterInit_iters block_init (old_iter_var # olds) (iter_value # vals)
     (subst_map, ivs, ivals, fresh) =
     (if iter_type old_iter_var = kDataPar \<and> UsesVar1_Stmt block_init (var old_iter_var) then
        (let new_var = copy_with_suffix (var old_iter_var) ''_init'' fresh;
             new_iter_var = IterVar (dom_iv old_iter_var) new_var (iter_type old_iter_var)
         in GenerateOuterInit_iters block_init olds vals
              (AList.update (var old_iter_var) new_var subst_map, ivs @ [new_iter_var],
               ivals @ [iter_value], Suc fresh))
      else GenerateOuterInit_iters block_init olds vals (subst_map, ivs, ivals, fresh))"
| "GenerateOuterInit_iters block_init olds vals st = st"

text \<open>Step 3: the loop nest on top of the init block; a loop is cloned when its loop
  variable is used by one of the init bindings.\<close>

fun GenerateOuterInit_loops ::
  "PrimExpr list \<Rightarrow> ForNode list \<Rightarrow> Stmt \<times> (Var \<times> Var) list \<times> nat \<Rightarrow>
   Stmt \<times> (Var \<times> Var) list \<times> nat" where
  "GenerateOuterInit_loops ivals [] st = st"
| "GenerateOuterInit_loops ivals (loop # loops) (s, subst_map, fresh) =
     (if \<exists>init_binding \<in> set ivals. UsesVar1 init_binding (loop_var loop) then
        (let new_loop_var = copy_with_suffix (loop_var loop) [] fresh;
             new_loop = ForNode new_loop_var (for_min loop) (for_extent loop) (kind loop) s
                          (for_addr loop)
         in GenerateOuterInit_loops ivals loops
              (ForS new_loop, AList.update (loop_var loop) new_loop_var subst_map, Suc fresh))
      else GenerateOuterInit_loops ivals loops (s, subst_map, fresh))"

definition GenerateOuterInit ::
  "Stmt \<Rightarrow> BlockRealize \<Rightarrow> ForNode list \<Rightarrow> string \<Rightarrow> nat \<Rightarrow> error + Stmt \<times> nat" where
  "GenerateOuterInit block_init inner_realize loops block_name fresh =
     (let inner_block = block inner_realize in
      if length (iter_vars inner_block) \<noteq> length (iter_values inner_realize)
      then Inl (Fatal ''Check failed: inner_block->iter_vars.size() == inner_realize->iter_values.size()'')
      else
        (case GenerateOuterInit_iters block_init (iter_vars inner_block)
                (iter_values inner_realize) ([], [], [], fresh) of
           (subst_map, ivs, ivals, fresh1) \<Rightarrow>
             (case BlockRealize_ctor ivals (predicate inner_realize)
                     (Block ivs [] (writes inner_block) block_name block_init None [] [] []
                        fresh1) of
                Inl e \<Rightarrow> Inl e
              | Inr init_realize \<Rightarrow>
                  (case GenerateOuterInit_loops ivals loops
                          (BlockRealizeS init_realize, subst_map, Suc fresh1) of
                     (s, subst_map', fresh2) \<Rightarrow> Inr (tir_Substitute s subst_map', fresh2)))))"

fun MakeLoopNest :: "Stmt \<Rightarrow> ForNode list \<Rightarrow> Stmt" where
  "MakeLoopNest s [] = s"
| "MakeLoopNest s (loop # loops) =
     MakeLoopNest (ForS (ForNode (loop_var loop) (for_min loop) (for_extent loop) (kind loop) s
                           (for_addr loop))) loops"

text \<open>The schedule state: the module, the map from a node (its address) to its sref
  and the map from a block sref (its address) to the cached flags of the block.\<close>

datatype BlockInfo = BlockInfo (affine_binding: bool) (region_cover: bool) (stage_pipeline: bool)

datatype ScheduleState =
  ScheduleState (state_mod: IRModule) (stmt2ref: "(nat \<times> StmtSRef) list")
                (block_info: "(nat \<times> BlockInfo) list")

text \<open>The operations of the schedule framework that the file calls; they are not part
  of the file and are taken as parameters.\<close>

record Sched =
  CheckGetSingleChildBlockRealizeOnSRefTree :: "ScheduleState \<Rightarrow> StmtSRef \<Rightarrow> error + BlockRealize"
  Replace :: "ScheduleState \<Rightarrow> StmtSRef \<Rightarrow> Stmt \<Rightarrow> (Block \<times> Block) list \<Rightarrow> error + ScheduleState"
  GetScopeRoot :: "ScheduleState \<Rightarrow> StmtSRef \<Rightarrow> bool \<Rightarrow> error + StmtSRef"
  GetBlockRealize :: "ScheduleState \<Rightarrow> StmtSRef \<Rightarrow> error + BlockRealize"
  UpdateScopeBlockInfo :: "ScheduleState \<Rightarrow> Stmt \<Rightarrow> error + ScheduleState"
  IsAffineBlockBinding :: "ScheduleState \<Rightarrow> StmtSRef \<Rightarrow> error + bool"
  GetSRefLowestCommonAncestor :: "StmtSRef list \<Rightarrow> error + StmtSRef"

text \<open>The outer init of \<^verbatim>\<open>BlockizeImpl\<close>: generated when the substituted block has
  an init.\<close>

definition BlockizeImpl_init ::
  "Block \<Rightarrow> BlockRealize \<Rightarrow> ForNode list \<Rightarrow> nat \<Rightarrow> error + Stmt option \<times> nat" where
  "BlockizeImpl_init block_subst inner_realize loops fresh =
     (case init block_subst of
        None \<Rightarrow> Inr (None, fresh)
      | Some block_init \<Rightarrow>
          (case GenerateOuterInit block_init inner_realize loops
                  (block_name_hint block_subst @ ''_init'') fresh of
             Inl e \<Rightarrow> Inl e
           | Inr (s, fresh') \<Rightarrow> Inr (Some s, fresh')))"

text \<open>Step 4 of \<^verbatim>\<open>BlockizeImpl\<close>: the domains of the inner iterators are bound in
  the analyzer, and the block is substituted under them.\<close>

definition inner_iter_bound :: "IterVar list \<Rightarrow> (Var \<times> Range) list" where
  "inner_iter_bound inner_iter_vars =
     Map_Set_all [] (map (\<lambda>iter. (var iter, dom_iv iter)) inner_iter_vars)"

definition BlockizeImpl_block_subst ::
  "'s Arith \<Rightarrow> Block \<Rightarrow> (Var \<times> PrimExpr) list \<Rightarrow> IterVar list \<Rightarrow> Block" where
  "BlockizeImpl_block_subst ar blk block_var_subst inner_iter_vars =
     Substitute_Block (Simplify ar (inner_iter_bound inner_iter_vars)) block_var_subst blk"

text \<open>Step 5: the write regions of the inner block are a reduction when the substituted
  block has an init and one of the outer iterators is a reduction iterator.\<close>

definition has_outer_reduction :: "Block \<Rightarrow> IterVar list \<Rightarrow> bool" where
  "has_outer_reduction block_subst outer_iter_vars =
     (init block_subst \<noteq> None \<and>
      (\<exists>iter_var \<in> set outer_iter_vars. iter_type iter_var = kCommReduce))"

text \<open>Steps 3 to 6 of \<^verbatim>\<open>BlockizeImpl\<close>, once the division is known to be non-empty.\<close>

definition BlockizeImpl_build ::
  "'s Arith \<Rightarrow> Block \<Rightarrow> ForNode list \<Rightarrow> IterMark list list \<Rightarrow> bool \<Rightarrow> nat \<Rightarrow>
   error + BlockRealize \<times> (Block \<times> Block) list \<times> nat" where
  "BlockizeImpl_build ar blk loops division preserve_unit_iters fresh =
     (case last division of
        outer_pred_mark # inner_pred_mark # rest \<Rightarrow>
          (case DeriveBlockBinding ar (iter_vars blk) division [] [] [] [] preserve_unit_iters
                  False fresh of
             Inl e \<Rightarrow> Inl e
           | Inr (block_var_subst, outer_iter_vars, outer_bindings, inner_iter_vars,
                  inner_bindings, fresh1) \<Rightarrow>
               (let outer_predicate = mark_extent outer_pred_mark;
                    inner_predicate = mark_extent inner_pred_mark;
                    inner_iter_dom = Map_Set_all []
                      (map (\<lambda>iter. (var iter, IntSet_FromRange ar (dom_iv iter))) inner_iter_vars);
                    block_subst = BlockizeImpl_block_subst ar blk block_var_subst inner_iter_vars;
                    reuse = Substitute_reuse_Block (Simplify ar (inner_iter_bound inner_iter_vars))
                              block_var_subst blk
                in
                (case GenerateInner (has_outer_reduction block_subst outer_iter_vars)
                        inner_iter_vars inner_bindings inner_predicate block_subst of
                   Inl e \<Rightarrow> Inl e
                 | Inr inner_realize \<Rightarrow>
                (case EvalSetRegions ar (reads block_subst) inner_iter_dom of
                   Inl e \<Rightarrow> Inl e
                 | Inr outer_reads \<Rightarrow>
                     (case EvalSetRegions ar (writes block_subst) inner_iter_dom of
                        Inl e \<Rightarrow> Inl e
                      | Inr outer_writes \<Rightarrow>
                          (case BlockizeImpl_init block_subst inner_realize loops fresh1 of
                             Inl e \<Rightarrow> Inl e
                           | Inr (outer_init, fresh2) \<Rightarrow>
                               (case BlockRealize_ctor outer_bindings outer_predicate
                                       (Block outer_iter_vars outer_reads outer_writes
                                          (block_name_hint block_subst @ ''_o'')
                                          (MakeLoopNest (BlockRealizeS inner_realize) loops)
                                          outer_init [] [] [] fresh2) of
                                  Inl e \<Rightarrow> Inl e
                                | Inr outer_realize \<Rightarrow>
                                    Inr (outer_realize,
                                         AList.update blk (block inner_realize) reuse,
                                         Suc fresh2))))))))
      | _ \<Rightarrow> Inl (Fatal ''IndexError''))"

text \<open>\<^verbatim>\<open>BlockizeImpl\<close>. \<^verbatim>\<open>loops.back()\<close> of an empty vector is undefined in the
  source; the model makes it a fatal error.\<close>

definition BlockizeImpl ::
  "Sched \<Rightarrow> 's Arith \<Rightarrow> ScheduleState \<Rightarrow> StmtSRef \<Rightarrow> bool \<Rightarrow> nat \<Rightarrow>
   error + BlockRealize \<times> (Block \<times> Block) list \<times> nat" where
  "BlockizeImpl sch ar self loop_sref preserve_unit_iters fresh =
     (case stmt loop_sref of
        SRefBlock b \<Rightarrow> Inl (Fatal ''TypeError: Expects StmtSRef `loop_sref` points to `Loop`'')
      | SRefFor loop \<Rightarrow>
          (case CheckGetSingleChildBlockRealizeOnSRefTree sch self loop_sref of
             Inl e \<Rightarrow> Inl e
           | Inr block_realize \<Rightarrow>
               (case map_of (stmt2ref self) (block_addr (block block_realize)) of
                  None \<Rightarrow> Inl (Fatal ''std::out_of_range'')
                | Some block_sref \<Rightarrow>
                    (case SubspaceDivide ar block_realize block_sref loop_sref
                            preserve_unit_iters False of
                       (loops, Inl e) \<Rightarrow> Inl e
                     | (loops, Inr division) \<Rightarrow>
                         if division = [] then
                           (if loops = [] then Inl (Fatal ''loops.back() of an empty vector'')
                            else Inl (SubspaceNotDivisibleError (state_mod self) (last loops)
                                        (block block_realize)))
                         else BlockizeImpl_build ar (block block_realize) loops division
                                preserve_unit_iters fresh))))"

text \<open>\<^verbatim>\<open>self->block_info[scope_root].affine_binding = flag\<close>; a missing entry is
  created with all flags cleared first.\<close>

definition set_affine_binding :: "ScheduleState \<Rightarrow> StmtSRef \<Rightarrow> bool \<Rightarrow> ScheduleState" where
  "set_affine_binding self scope_root flag =
     (let info = (case map_of (block_info self) (sref_addr scope_root) of
                    None \<Rightarrow> BlockInfo False False False
                  | Some i \<Rightarrow> i)
      in ScheduleState (state_mod self) (stmt2ref self)
           (AList.update (sref_addr scope_root)
              (BlockInfo flag (region_cover info) (stage_pipeline info)) (block_info self)))"

text \<open>\<^verbatim>\<open>Blockize(self, loop_sref, preserve_unit_iters)\<close>.\<close>

definition Blockize ::
  "Sched \<Rightarrow> 's Arith \<Rightarrow> ScheduleState \<Rightarrow> StmtSRef \<Rightarrow> bool \<Rightarrow> nat \<Rightarrow>
   error + ScheduleState \<times> StmtSRef \<times> nat" where
  "Blockize sch ar self loop_sref preserve_unit_iters fresh =
     (case BlockizeImpl sch ar self loop_sref preserve_unit_iters fresh of
        Inl e \<Rightarrow> Inl e
      | Inr (blockized, block_sref_reuse, fresh') \<Rightarrow>
     (case Replace sch self loop_sref (BlockRealizeS blockized) block_sref_reuse of
        Inl e \<Rightarrow> Inl e
      | Inr self1 \<Rightarrow>
     (case map_of (stmt2ref self1) (block_addr (block blockized)) of
        None \<Rightarrow> Inl (Fatal ''std::out_of_range'')
      | Some result \<Rightarrow>
     (case GetScopeRoot sch self1 result False of
        Inl e \<Rightarrow> Inl e
      | Inr scope_root \<Rightarrow>
     (case IsAffineBlockBinding sch self1 scope_root of
        Inl e \<Rightarrow> Inl e
      | Inr scope_block_affine_binding \<Rightarrow>
     (case GetBlockRealize sch self1 scope_root of
        Inl e \<Rightarrow> Inl e
      | Inr scope_realize \<Rightarrow>
     (case UpdateScopeBlockInfo sch self1 (BlockRealizeS scope_realize) of
        Inl e \<Rightarrow> Inl e
      | Inr self2 \<Rightarrow>
          Inr (set_affine_binding self2 scope_root scope_block_affine_binding, result,
               fresh'))))))))"

section \<open>Tensorize\<close>

text \<open>A primitive function, and a tensor intrinsic as the registry holds it: references
  to the function objects of its description and its implementation in the object
  store. The store makes the sharing explicit: the registered implementation stays
  reachable from the registry while \<^verbatim>\<open>Tensorize\<close> works on a copy.\<close>

datatype PrimFunc = PrimFunc (params: "Var list") (buffer_map: "(Var \<times> Buffer) list") (func_body: Stmt)

datatype TensorIntrin = TensorIntrin (desc: nat) (impl: nat)

type_synonym FuncStore = "(nat \<times> PrimFunc) list"

text \<open>The operations that \<^verbatim>\<open>Tensorize\<close> calls and that are not part of the file, as
  parameters: the JSON round trip of \<^verbatim>\<open>DeepCopy\<close>, the rewrite of
  \<^verbatim>\<open>IndexDataTypeNormalizer\<close>, the structural comparator in assert mode (it fails or
  yields \<open>rhs_buffer_map_\<close> and \<open>buffer_indices_\<close>) and \<^verbatim>\<open>cast\<close>.\<close>

record TensorizeOps =
  LoadJSON_SaveJSON :: "PrimFunc \<Rightarrow> PrimFunc"
  IndexDataTypeNormalizer_Rewrite :: "DataType \<Rightarrow> PrimFunc \<Rightarrow> PrimFunc"
  TensorizeComparator_VisitStmt ::
    "IRModule \<Rightarrow> BlockRealize \<Rightarrow> Stmt \<Rightarrow>
     error + (Buffer \<times> Buffer) list \<times> (Buffer \<times> PrimExpr list) list"
  cast :: "DataType \<Rightarrow> PrimExpr \<Rightarrow> PrimExpr"

text \<open>The scan of the index width: the maximum of the bit widths of the minima of all
  ranges of the reads and then of the writes, starting from \<open>-1\<close>.\<close>

definition f_update_max_dtype_bits_from_region :: "int \<Rightarrow> BufferRegion list \<Rightarrow> int" where
  "f_update_max_dtype_bits_from_region index_dtype_bits buffer_regions =
     fold (\<lambda>buffer_region acc.
             fold (\<lambda>r acc'. max acc' (int (bits (dtype (range_min r))))) (region buffer_region) acc)
          buffer_regions index_dtype_bits"

definition index_dtype_bits :: "Block \<Rightarrow> int" where
  "index_dtype_bits blk =
     f_update_max_dtype_bits_from_region
       (f_update_max_dtype_bits_from_region (- 1) (reads blk)) (writes blk)"

text \<open>\<^verbatim>\<open>DeepCopy\<close> builds a new function object. The rewrite of the normalizer is
  modelled as overwriting the object it is given, which is what copy-on-write does to an
  object that is not shared and what the deep copy guards the registry against.\<close>

definition fresh_ref :: "FuncStore \<Rightarrow> nat" where
  "fresh_ref store = Suc (fold max (map fst store) 0)"

definition DeepCopy :: "TensorizeOps \<Rightarrow> FuncStore \<Rightarrow> nat \<Rightarrow> error + nat \<times> FuncStore" where
  "DeepCopy ops store ref =
     (case map_of store ref of
        None \<Rightarrow> Inl (Fatal ''undefined PrimFunc'')
      | Some f \<Rightarrow> Inr (fresh_ref store, store @ [(fresh_ref store, LoadJSON_SaveJSON ops f)]))"

definition Rewrite_in_place :: "TensorizeOps \<Rightarrow> DataType \<Rightarrow> FuncStore \<Rightarrow> nat \<Rightarrow> error + FuncStore" where
  "Rewrite_in_place ops t store ref =
     (case map_of store ref of
        None \<Rightarrow> Inl (Fatal ''undefined PrimFunc'')
      | Some f \<Rightarrow> Inr (AList.update ref (IndexDataTypeNormalizer_Rewrite ops t f) store))"

definition Tensorize_normalize ::
  "TensorizeOps \<Rightarrow> FuncStore \<Rightarrow> TensorIntrin \<Rightarrow> BlockRealize \<Rightarrow> error + nat \<times> FuncStore" where
  "Tensorize_normalize ops store intrin block_realize =
     (case DeepCopy ops store (impl intrin) of
        Inl e \<Rightarrow> Inl e
      | Inr (intrin_impl, store1) \<Rightarrow>
          if \<not> index_dtype_bits (block block_realize) > 0
          then Inl (Fatal ''Check failed: index_dtype_bits > 0'')
          else (case Rewrite_in_place ops (DataType_Int (index_dtype_bits (block block_realize)))
                       store1 intrin_impl of
                  Inl e \<Rightarrow> Inl e
                | Inr store2 \<Rightarrow> Inr (intrin_impl, store2)))"

text \<open>Step 4 of \<^verbatim>\<open>Tensorize\<close>: the region of the current buffer that a buffer of the
  implementation is matched to.\<close>

definition Tensorize_new_region ::
  "TensorizeOps \<Rightarrow> PrimExpr list \<Rightarrow> Range list \<Rightarrow> error + Range list" where
  "Tensorize_new_region ops indices_base old_region =
     (if int (length indices_base) - int (length old_region) < 0
      then Inl (Fatal ''Check failed: offset >= 0'')
      else
        (let offset = length indices_base - length old_region
         in Inr (map (\<lambda>i. Range_FromMinExtent (indices_base ! i)
                             (make_const (dtype (indices_base ! i)) 1)) [0..<offset]
                 @ map (\<lambda>i. Range_FromMinExtent (indices_base ! (i + offset))
                               (cast ops (dtype (indices_base ! (i + offset)))
                                  (extent (old_region ! i))))
                     [0..<length old_region])))"

definition Map_at :: "('k \<times> 'v) list \<Rightarrow> 'k \<Rightarrow> error + 'v" where
  "Map_at m k = (case map_of m k of None \<Rightarrow> Inl (Fatal ''std::out_of_range'') | Some v \<Rightarrow> Inr v)"

definition Tensorize_match_buffer ::
  "TensorizeOps \<Rightarrow> PrimFunc \<Rightarrow> (Buffer \<times> Buffer) list \<Rightarrow> (Buffer \<times> Range list) list \<Rightarrow>
   (Buffer \<times> PrimExpr list) list \<Rightarrow> Var \<Rightarrow> error + MatchBufferRegion" where
  "Tensorize_match_buffer ops intrin_impl impl2cur impl2region buffer_indices param =
     (case Map_at (buffer_map intrin_impl) param of
        Inl e \<Rightarrow> Inl e
      | Inr impl_buffer \<Rightarrow>
     (case Map_at impl2cur impl_buffer of
        Inl e \<Rightarrow> Inl e
      | Inr cur \<Rightarrow>
     (case Map_at impl2region impl_buffer of
        Inl e \<Rightarrow> Inl e
      | Inr old_region \<Rightarrow>
     (case Map_at buffer_indices cur of
        Inl e \<Rightarrow> Inl e
      | Inr indices_base \<Rightarrow>
     (case Tensorize_new_region ops indices_base old_region of
        Inl e \<Rightarrow> Inl e
      | Inr new_region \<Rightarrow>
          Inr (MatchBufferRegion impl_buffer (BufferRegion cur new_region)))))))"

fun Tensorize_match_buffers ::
  "TensorizeOps \<Rightarrow> PrimFunc \<Rightarrow> (Buffer \<times> Buffer) list \<Rightarrow> (Buffer \<times> Range list) list \<Rightarrow>
   (Buffer \<times> PrimExpr list) list \<Rightarrow> Var list \<Rightarrow> error + MatchBufferRegion list" where
  "Tensorize_match_buffers ops intrin_impl impl2cur impl2region buffer_indices [] = Inr []"
| "Tensorize_match_buffers ops intrin_impl impl2cur impl2region buffer_indices (p # ps) =
     (case Tensorize_match_buffer ops intrin_impl impl2cur impl2region buffer_indices p of
        Inl e \<Rightarrow> Inl e
      | Inr m \<Rightarrow>
          (case Tensorize_match_buffers ops intrin_impl impl2cur impl2region buffer_indices ps of
             Inl e \<Rightarrow> Inl e
           | Inr ms \<Rightarrow> Inr (m # ms)))"

text \<open>Step 3: the buffer mappings. Annotation values are compared as values.\<close>

fun Tensorize_impl2desc ::
  "PrimFunc \<Rightarrow> PrimFunc \<Rightarrow> Var list \<Rightarrow> Var list \<Rightarrow> (Buffer \<times> Buffer) list \<Rightarrow>
   error + (Buffer \<times> Buffer) list" where
  "Tensorize_impl2desc intrin_desc intrin_impl (dp # dps) (ip # ips) m =
     (case map_of (buffer_map intrin_desc) dp of
        None \<Rightarrow> Inl (Fatal ''Check failed: the key is not in the map'')
      | Some desc_buffer \<Rightarrow>
          (case map_of (buffer_map intrin_impl) ip of
             None \<Rightarrow> Inl (Fatal ''Check failed: the key is not in the map'')
           | Some impl_buffer \<Rightarrow>
               Tensorize_impl2desc intrin_desc intrin_impl dps ips
                 (AList.update impl_buffer desc_buffer m)))"
| "Tensorize_impl2desc intrin_desc intrin_impl dps ips m = Inr m"

fun Tensorize_impl2cur ::
  "(Buffer \<times> Buffer) list \<Rightarrow> (Buffer \<times> Buffer) list \<Rightarrow> (Buffer \<times> Buffer) list \<Rightarrow>
   error + (Buffer \<times> Buffer) list" where
  "Tensorize_impl2cur rhs_buffer_map [] m = Inr m"
| "Tensorize_impl2cur rhs_buffer_map ((impl_buffer, desc_buffer) # rest) m =
     (case map_of rhs_buffer_map desc_buffer of
        None \<Rightarrow> Inl (Fatal ''Check failed: comparator.rhs_buffer_map_.count(desc)'')
      | Some cur \<Rightarrow> Tensorize_impl2cur rhs_buffer_map rest (AList.update impl_buffer cur m))"

definition emplace :: "('k \<times> 'v) list \<Rightarrow> 'k \<Rightarrow> 'v \<Rightarrow> ('k \<times> 'v) list" where
  "emplace m k v = (case map_of m k of None \<Rightarrow> m @ [(k, v)] | Some x \<Rightarrow> m)"

definition Tensorize_impl2region :: "Block \<Rightarrow> (Buffer \<times> Range list) list" where
  "Tensorize_impl2region impl_block =
     fold (\<lambda>br m. emplace m (buffer br) (region br)) (reads impl_block @ writes impl_block) []"

definition Tensorize_annotations ::
  "(string \<times> string) list \<Rightarrow> (string \<times> string) list \<Rightarrow> (string \<times> string) list" where
  "Tensorize_annotations block_annotations impl_annotations =
     fold (\<lambda>(key, val) m.
             (case map_of m key of
                Some old \<Rightarrow> (if old \<noteq> val then m else AList.update key val m)
              | None \<Rightarrow> AList.update key val m))
          impl_annotations block_annotations"

text \<open>Step 1, and steps 2 to 5 up to the rewritten block realize. Step 5 changes the
  body, the match buffers and the annotations of the block through copy-on-write
  handles; the iterator values, the predicate and the iterators stay.\<close>

definition Tensorize_obtain ::
  "Sched \<Rightarrow> 's Arith \<Rightarrow> ScheduleState \<Rightarrow> StmtSRef \<Rightarrow> bool \<Rightarrow> nat \<Rightarrow>
   error + BlockRealize \<times> Block option \<times> nat" where
  "Tensorize_obtain sch ar self sref preserve_unit_iters next =
     (case stmt sref of
        SRefBlock b \<Rightarrow>
          (case GetBlockRealize sch self sref of
             Inl e \<Rightarrow> Inl e
           | Inr block_realize \<Rightarrow> Inr (block_realize, Some (block block_realize), next))
      | SRefFor l \<Rightarrow>
          (case BlockizeImpl sch ar self sref preserve_unit_iters next of
             Inl e \<Rightarrow> Inl e
           | Inr (block_realize, reuse, next') \<Rightarrow> Inr (block_realize, None, next')))"

definition Tensorize_rewrite ::
  "TensorizeOps \<Rightarrow> IRModule \<Rightarrow> FuncStore \<Rightarrow> TensorIntrin \<Rightarrow> BlockRealize \<Rightarrow>
   error + BlockRealize \<times> FuncStore" where
  "Tensorize_rewrite ops m store intrin block_realize =
     (case map_of store (desc intrin) of
        None \<Rightarrow> Inl (Fatal ''undefined PrimFunc'')
      | Some intrin_desc \<Rightarrow>
     (case Tensorize_normalize ops store intrin block_realize of
        Inl e \<Rightarrow> Inl e
      | Inr (impl_ref, store') \<Rightarrow>
     (case map_of store' impl_ref of
        None \<Rightarrow> Inl (Fatal ''undefined PrimFunc'')
      | Some intrin_impl \<Rightarrow>
     (case TensorizeComparator_VisitStmt ops m block_realize (func_body intrin_desc) of
        Inl e \<Rightarrow> Inl e
      | Inr (rhs_buffer_map, buffer_indices) \<Rightarrow>
          if length (params intrin_desc) \<noteq> length (params intrin_impl)
          then Inl (Fatal ''Check failed: intrin_desc->params.size() == intrin_impl->params.size()'')
          else
     (case Tensorize_impl2desc intrin_desc intrin_impl (params intrin_desc) (params intrin_impl) [] of
        Inl e \<Rightarrow> Inl e
      | Inr impl2desc \<Rightarrow>
     (case Tensorize_impl2cur rhs_buffer_map impl2desc [] of
        Inl e \<Rightarrow> Inl e
      | Inr impl2cur \<Rightarrow>
     (case func_body intrin_impl of
        BlockRealizeS impl_realize \<Rightarrow>
          (case Tensorize_match_buffers ops intrin_impl impl2cur
                  (Tensorize_impl2region (block impl_realize)) buffer_indices (params intrin_impl) of
             Inl e \<Rightarrow> Inl e
           | Inr match_buffer_regions \<Rightarrow>
               (let blk = block block_realize;
                    impl_block = block impl_realize
                in Inr (BlockRealize (iter_values block_realize) (predicate block_realize)
                          (Block (iter_vars blk) (reads blk) (writes blk) (block_name_hint blk)
                             (body impl_block) (init blk) (alloc_buffers blk)
                             match_buffer_regions
                             (Tensorize_annotations (annotations blk) (annotations impl_block))
                             (block_addr blk)),
                        store')))
      | _ \<Rightarrow> Inl (Fatal ''Downcast failed''))))))))"

text \<open>The end of step 5: a block that existed before is replaced by the new block, with
  the old block mapped to it for reuse; a block realize that \<^verbatim>\<open>BlockizeImpl\<close> built
  is installed whole.\<close>

definition Tensorize_install ::
  "Sched \<Rightarrow> ScheduleState \<Rightarrow> StmtSRef \<Rightarrow> Block option \<Rightarrow> BlockRealize \<Rightarrow> error + ScheduleState" where
  "Tensorize_install sch self sref old_block new_realize =
     (case old_block of
        Some old \<Rightarrow> Replace sch self sref (BlockS (block new_realize)) [(old, block new_realize)]
      | None \<Rightarrow> Replace sch self sref (BlockRealizeS new_realize) [])"

definition Tensorize ::
  "Sched \<Rightarrow> 's Arith \<Rightarrow> TensorizeOps \<Rightarrow> ScheduleState \<Rightarrow> FuncStore \<Rightarrow> StmtSRef \<Rightarrow>
   TensorIntrin \<Rightarrow> bool \<Rightarrow> nat \<Rightarrow> error + ScheduleState \<times> FuncStore \<times> nat" where
  "Tensorize sch ar ops self store sref intrin preserve_unit_iters next =
     (case Tensorize_obtain sch ar self sref preserve_unit_iters next of
        Inl e \<Rightarrow> Inl e
      | Inr (block_realize, old_block, next') \<Rightarrow>
     (case Tensorize_rewrite ops (state_mod self) store intrin block_realize of
        Inl e \<Rightarrow> Inl e
      | Inr (new_realize, store') \<Rightarrow>
     (case Tensorize_install sch self sref old_block new_realize of
        Inl e \<Rightarrow> Inl e
      | Inr self1 \<Rightarrow>
     (case map_of (stmt2ref self1) (block_addr (block new_realize)) of
        None \<Rightarrow> Inl (Fatal ''std::out_of_range'')
      | Some result \<Rightarrow>
     (case GetScopeRoot sch self1 result False of
        Inl e \<Rightarrow> Inl e
      | Inr scope_root \<Rightarrow>
     (case stmt scope_root of
        SRefFor l \<Rightarrow> Inl (Fatal ''Check failed: scope root is not a block'')
      | SRefBlock root_block \<Rightarrow>
          (case UpdateScopeBlockInfo sch self1 (body root_block) of
             Inl e \<Rightarrow> Inl e
           | Inr self2 \<Rightarrow> Inr (self2, store', next'))))))))"

section \<open>The claims' words\<close>

text \<open>The entry of the trivial subspace division for one binding, as the specification
  words it: a binding that uses outer loop variables gets its mark on the outer side
  and a unit mark on the inner side, one that uses inner loop variables the converse,
  and one that uses neither a pair of unit marks.\<close>

definition trivial_division_entry ::
  "(PrimExpr \<Rightarrow> bool) \<Rightarrow> (PrimExpr \<Rightarrow> bool) \<Rightarrow> IterVar \<Rightarrow> PrimExpr \<Rightarrow> IterMark list" where
  "trivial_division_entry use_outer use_inner iv b =
     (if use_outer b then [trivial_iter_mark iv b, unit_iter_mark]
      else if use_inner b then [unit_iter_mark, trivial_iter_mark iv b]
      else [unit_iter_mark, unit_iter_mark])"

text \<open>The substitution of one original block iterator, as the specification words it:
  the constant 0 when both extents are 1 and unit iterators are not preserved, the
  outer iterator when the inner extent is 1 otherwise, the inner iterator when the inner
  extent is not 1 and the outer extent is 1, and \<open>outer * inner_extent + inner\<close> in the
  remaining case. \<open>has_inner\<close> says that the inner extent of a division entry is not 1,
  and \<open>inner_index division i\<close> counts such entries before position \<open>i\<close>.\<close>

definition binding_substitution :: "bool \<Rightarrow> PrimExpr \<Rightarrow> PrimExpr \<Rightarrow> Var \<Rightarrow> Var \<Rightarrow> PrimExpr" where
  "binding_substitution preserve_unit_iters outer_extent inner_extent outer inner =
     (if is_one inner_extent then
        (if is_one outer_extent \<and> \<not> preserve_unit_iters then IntImm (dtype outer_extent) 0
         else VarE outer)
      else if is_one outer_extent then VarE inner
      else Add (Mul (VarE outer) inner_extent) (VarE inner))"

definition has_inner :: "IterMark list \<Rightarrow> bool" where
  "has_inner d = (\<not> is_one (mark_extent (d ! 1)))"

definition inner_index :: "IterMark list list \<Rightarrow> nat \<Rightarrow> nat" where
  "inner_index division i = length (filter has_inner (take i division))"

text \<open>Reading a generated subtree: the loops of a loop nest from the outermost inwards,
  and the statement under them.\<close>

fun loop_nest :: "Stmt \<Rightarrow> ForNode list" where
  "loop_nest (ForS (ForNode lv mn ex k bd a)) = ForNode lv mn ex k bd a # loop_nest bd"
| "loop_nest s = []"

fun innermost :: "Stmt \<Rightarrow> Stmt" where
  "innermost (ForS (ForNode lv mn ex k bd a)) = innermost bd"
| "innermost s = s"

text \<open>The innermost of the loops around a block: the loop of the parent of its sref.\<close>

definition bottommost_inner_loop :: "StmtSRef \<Rightarrow> SRefStmt option" where
  "bottommost_inner_loop block_sref = map_option stmt (parent block_sref)"

text \<open>The sref \<open>l\<close> is met on the way up from an sref, with loops only before it.\<close>

fun reaches :: "StmtSRef option \<Rightarrow> StmtSRef \<Rightarrow> bool" where
  "reaches None l = False"
| "reaches (Some (StmtSRef (SRefBlock b) par a)) l = False"
| "reaches (Some (StmtSRef (SRefFor f) par a)) l =
     (if a = sref_addr l then StmtSRef (SRefFor f) par a = l else reaches par l)"

text \<open>The init subtree, as the specification words it: an iterator of the inner block
  is selected when it is data parallel and its variable is referenced by the init body;
  the init bindings are the bindings of the selected iterators; a loop is selected when
  its loop variable appears in at least one init binding.\<close>

definition init_iter_selected :: "Stmt \<Rightarrow> IterVar \<Rightarrow> bool" where
  "init_iter_selected block_init iv =
     (iter_type iv = kDataPar \<and> UsesVar1_Stmt block_init (var iv))"

definition init_bindings :: "Stmt \<Rightarrow> BlockRealize \<Rightarrow> PrimExpr list" where
  "init_bindings block_init inner_realize =
     map snd (filter (\<lambda>(iv, v). init_iter_selected block_init iv)
                (zip (iter_vars (block inner_realize)) (iter_values inner_realize)))"

definition init_loop_selected :: "PrimExpr list \<Rightarrow> ForNode \<Rightarrow> bool" where
  "init_loop_selected bindings loop = (\<exists>b \<in> set bindings. UsesVar1 b (loop_var loop))"

text \<open>The region bounds of a block: the ranges of all its read and write regions.\<close>

definition region_bounds :: "Block \<Rightarrow> Range list" where
  "region_bounds blk = concat (map region (reads blk @ writes blk))"

text \<open>The index width as the specification words it: the maximum bit width of the types
  of the region bounds, and \<open>-1\<close> when there is no bound.\<close>

definition max_bound_bits :: "Block \<Rightarrow> int" where
  "max_bound_bits blk =
     Max (insert (- 1) ((\<lambda>r. int (bits (dtype (range_min r)))) ` set (region_bounds blk)))"


text \<open>A block realize has equal sizes when it has one iterator value per iterator of
  its block; a statement has equal sizes throughout when every block realize in it
  has.\<close>

definition sizes_equal :: "BlockRealize \<Rightarrow> bool" where
  "sizes_equal r = (length (iter_values r) = length (iter_vars (block r)))"

fun all_sizes_equal :: "Stmt \<Rightarrow> bool"
  and all_sizes_equal_For :: "ForNode \<Rightarrow> bool"
  and all_sizes_equal_Block :: "Block \<Rightarrow> bool"
  and all_sizes_equal_BlockRealize :: "BlockRealize \<Rightarrow> bool" where
  "all_sizes_equal (ForS f) = all_sizes_equal_For f"
| "all_sizes_equal (BlockRealizeS r) = all_sizes_equal_BlockRealize r"
| "all_sizes_equal (BlockS b) = all_sizes_equal_Block b"
| "all_sizes_equal (SeqStmt ss) = (\<forall>s \<in> set ss. all_sizes_equal s)"
| "all_sizes_equal (IfThenElse c t e) =
     (all_sizes_equal t \<and> (case e of None \<Rightarrow> True | Some s \<Rightarrow> all_sizes_equal s))"
| "all_sizes_equal (BufferStore b v idx) = True"
| "all_sizes_equal (Evaluate e) = True"
| "all_sizes_equal_For (ForNode lv mn ex k bd a) = all_sizes_equal bd"
| "all_sizes_equal_Block (Block ivs rs ws nm bd ini al mb an a) =
     (all_sizes_equal bd \<and> (case ini of None \<Rightarrow> True | Some s \<Rightarrow> all_sizes_equal s))"
| "all_sizes_equal_BlockRealize (BlockRealize vs pr b) =
     (length vs = length (iter_vars b) \<and> all_sizes_equal_Block b)"

section \<open>A reduction block under two loops\<close>

text \<open>The program used to instantiate the theorems:
  \<^verbatim>\<open>for i in 0..4: for j in 0..8: with block("B"): vi = spatial(4, i); vj = reduce(8, j);
  init: C[vi] = 0; body: C[vi] = C[vi] + A[vi, vj]\<close>.\<close>

definition int32 :: DataType where
  "int32 = DataType_Int 32"

definition ex_i :: Var where "ex_i = Var ''i'' int32 0"
definition ex_j :: Var where "ex_j = Var ''j'' int32 1"
definition ex_vi :: Var where "ex_vi = Var ''vi'' int32 2"
definition ex_vj :: Var where "ex_vj = Var ''vj'' int32 3"

definition ex_A :: Buffer where
  "ex_A = Buffer (Var ''A'' (DataType kHandle 64 1) 4) [IntImm int32 4, IntImm int32 8] ''A''"

definition ex_C :: Buffer where
  "ex_C = Buffer (Var ''C'' (DataType kHandle 64 1) 5) [IntImm int32 4] ''C''"

definition ex_float32 :: DataType where
  "ex_float32 = DataType kFloat 32 1"

definition ex_block :: Block where
  "ex_block =
     Block [IterVar (Range (IntImm int32 0) (IntImm int32 4)) ex_vi kDataPar,
            IterVar (Range (IntImm int32 0) (IntImm int32 8)) ex_vj kCommReduce]
       [BufferRegion ex_A [Range (VarE ex_vi) (IntImm int32 1), Range (VarE ex_vj) (IntImm int32 1)]]
       [BufferRegion ex_C [Range (VarE ex_vi) (IntImm int32 1)]]
       ''B''
       (BufferStore ex_C
          (Add (BufferLoad ex_float32 (data ex_C) [VarE ex_vi])
               (BufferLoad ex_float32 (data ex_A) [VarE ex_vi, VarE ex_vj]))
          [VarE ex_vi])
       (Some (BufferStore ex_C (Call ex_float32 ''FloatImm(0)'' []) [VarE ex_vi]))
       [] [] [] 12"

definition ex_realize :: "PrimExpr \<Rightarrow> BlockRealize" where
  "ex_realize pred = BlockRealize [VarE ex_i, VarE ex_j] pred ex_block"

definition ex_loop_j :: "PrimExpr \<Rightarrow> ForNode" where
  "ex_loop_j pred =
     ForNode ex_j (IntImm int32 0) (IntImm int32 8) kSerial (BlockRealizeS (ex_realize pred)) 11"

definition ex_loop_i :: "PrimExpr \<Rightarrow> ForNode" where
  "ex_loop_i pred = ForNode ex_i (IntImm int32 0) (IntImm int32 4) kSerial (ForS (ex_loop_j pred)) 10"

definition ex_sref_i :: "PrimExpr \<Rightarrow> StmtSRef" where
  "ex_sref_i pred = StmtSRef (SRefFor (ex_loop_i pred)) None 20"

definition ex_sref_j :: "PrimExpr \<Rightarrow> StmtSRef" where
  "ex_sref_j pred = StmtSRef (SRefFor (ex_loop_j pred)) (Some (ex_sref_i pred)) 21"

definition ex_sref_block :: "PrimExpr \<Rightarrow> StmtSRef" where
  "ex_sref_block pred = StmtSRef (SRefBlock ex_block) (Some (ex_sref_j pred)) 22"

definition ex_true :: PrimExpr where
  "ex_true = IntImm DataType_Bool 1"

text \<open>An arithmetic library for the instances: its affine solver gives up on every
  input, so that the division is the trivial one; a sum without arguments normalizes to
  its base and a split over a mark to the source of the mark; nothing is simplified;
  an interval set is a range, relaxing replaces nothing and covering keeps the set.\<close>

fun ex_Normalize :: "IterSource \<Rightarrow> PrimExpr" where
  "ex_Normalize (PlainExpr e) = e"
| "ex_Normalize (IterSplitExpr m) = (case source m of PlainExpr e \<Rightarrow> e | _ \<Rightarrow> IntImm int32 0)"
| "ex_Normalize (IterSumExpr args b) = b"

definition ex_Arith :: "Range Arith" where
  "ex_Arith = \<lparr>
     arith_SubspaceDivide = (\<lambda>bindings doms inner_vars pred simplify_trivial. []),
     NormalizeIterMapToExpr = ex_Normalize,
     Simplify = (\<lambda>bound e. e),
     CanProveEqual = (\<lambda>a b. a = b),
     IntSet_FromRange = (\<lambda>r. r),
     EvalSet = (\<lambda>rs dom_map. rs),
     CoverRange = (\<lambda>s r. s),
     IntSet_Union = (\<lambda>ss. case ss of [] \<Rightarrow> Range (IntImm int32 0) (IntImm int32 0) | s # _ \<Rightarrow> s),
     IntSet_min = range_min,
     IntSet_max = (\<lambda>r. Sub (Add (range_min r) (extent r)) (IntImm int32 1)) \<rparr>"

definition ex_division_j :: "IterMark list list" where
  "ex_division_j =
     [[trivial_iter_mark (iter_vars ex_block ! 0) (VarE ex_i), unit_iter_mark],
      [unit_iter_mark, trivial_iter_mark (iter_vars ex_block ! 1) (VarE ex_j)],
      [true_iter_mark, true_iter_mark]]"

definition ex_derived_j :: DeriveState where
  "ex_derived_j =
     ([(ex_vi, VarE (Var ''vi_o'' int32 100)), (ex_vj, VarE (Var ''vj_i'' int32 102))],
      [IterVar (Range (IntImm int32 0) (IntImm int32 4)) (Var ''vi_o'' int32 100) kDataPar,
       IterVar (Range (IntImm int32 0) (IntImm int32 1)) (Var ''vj_o'' int32 101) kCommReduce],
      [VarE ex_i, IntImm int32 0],
      [IterVar (Range (IntImm int32 0) (IntImm int32 8)) (Var ''vj_i'' int32 102) kCommReduce],
      [VarE ex_j], 103)"

text \<open>A predicate that is not the literal 1, the root block above loop \<open>i\<close>, and a
  schedule framework for the instances: the only block under a loop is block \<open>B\<close>;
  \<open>Replace\<close> registers an sref for the block of a new block realize; the scope root is
  the root block; \<open>UpdateScopeBlockInfo\<close> recomputes the flags (here: clears
  \<open>affine_binding\<close> everywhere); \<open>IsAffineBlockBinding\<close> reads the flag of a block
  that has an entry.\<close>

definition ex_pred3 :: PrimExpr where
  "ex_pred3 = Call DataType_Bool ''EQ''
                [Call int32 ''floormod'' [VarE ex_i, IntImm int32 3], IntImm int32 0]"

definition ex_root_block :: "PrimExpr \<Rightarrow> Block" where
  "ex_root_block pred = Block [] [] [] ''root'' (ForS (ex_loop_i pred)) None [ex_C] [] [] 9"

definition ex_sref_root :: "PrimExpr \<Rightarrow> StmtSRef" where
  "ex_sref_root pred = StmtSRef (SRefBlock (ex_root_block pred)) None 19"

definition ex_state :: "PrimExpr \<Rightarrow> ScheduleState" where
  "ex_state pred =
     ScheduleState (IRModule 0)
       [(9, ex_sref_root pred), (10, ex_sref_i pred), (11, ex_sref_j pred), (12, ex_sref_block pred)]
       [(19, BlockInfo True True True), (22, BlockInfo False True True)]"

definition ex_Sched :: "PrimExpr \<Rightarrow> Sched" where
  "ex_Sched pred = \<lparr>
     CheckGetSingleChildBlockRealizeOnSRefTree = (\<lambda>self sref. Inr (ex_realize pred)),
     Replace = (\<lambda>self sref s reuse.
        Inr (ScheduleState (state_mod self)
               ((case s of
                   BlockRealizeS r \<Rightarrow>
                     [(block_addr (block r), StmtSRef (SRefBlock (block r)) (Some (ex_sref_root pred)) 23)]
                 | _ \<Rightarrow> []) @ stmt2ref self)
               (block_info self))),
     GetScopeRoot = (\<lambda>self sref require_stage_pipeline. Inr (ex_sref_root pred)),
     GetBlockRealize = (\<lambda>self sref. Inr (BlockRealize [] ex_true (ex_root_block pred))),
     UpdateScopeBlockInfo = (\<lambda>self s.
        Inr (ScheduleState (state_mod self) (stmt2ref self)
               (map (\<lambda>(k, i). (k, BlockInfo False (region_cover i) (stage_pipeline i)))
                  (block_info self)))),
     IsAffineBlockBinding = (\<lambda>self sref.
        case map_of (block_info self) (sref_addr sref) of
          None \<Rightarrow> Inl (Fatal ''Check failed: cannot find the block info'')
        | Some i \<Rightarrow> Inr (affine_binding i)),
     GetSRefLowestCommonAncestor = (\<lambda>srefs.
        case srefs of
          [] \<Rightarrow> Inl (Fatal ''Check failed: srefs is empty'')
        | s # _ \<Rightarrow> (case parent s of None \<Rightarrow> Inr s | Some p \<Rightarrow> Inr p)) \<rparr>"

text \<open>Blockize on loop \<open>i\<close> of the program: the division of the trivial fallback (both
  bindings are inner), what \<^verbatim>\<open>DeriveBlockBinding\<close> derives from it, the result of
  \<^verbatim>\<open>BlockizeImpl\<close> and the state after \<open>Replace\<close>.\<close>

definition ex_division_i :: "IterMark list list" where
  "ex_division_i =
     [[unit_iter_mark, trivial_iter_mark (iter_vars ex_block ! 0) (VarE ex_i)],
      [unit_iter_mark, trivial_iter_mark (iter_vars ex_block ! 1) (VarE ex_j)],
      [true_iter_mark, true_iter_mark]]"

definition ex_derived_i :: DeriveState where
  "ex_derived_i =
     ([(ex_vi, VarE (Var ''vi_i'' int32 101)), (ex_vj, VarE (Var ''vj_i'' int32 103))],
      [IterVar (Range (IntImm int32 0) (IntImm int32 1)) (Var ''vi_o'' int32 100) kDataPar,
       IterVar (Range (IntImm int32 0) (IntImm int32 1)) (Var ''vj_o'' int32 102) kCommReduce],
      [IntImm int32 0, IntImm int32 0],
      [IterVar (Range (IntImm int32 0) (IntImm int32 4)) (Var ''vi_i'' int32 101) kDataPar,
       IterVar (Range (IntImm int32 0) (IntImm int32 8)) (Var ''vj_i'' int32 103) kCommReduce],
      [VarE ex_i, VarE ex_j], 104)"

definition ex_blockize_i :: "BlockRealize \<times> (Block \<times> Block) list \<times> nat" where
  "ex_blockize_i =
     projr (BlockizeImpl (ex_Sched ex_true) ex_Arith (ex_state ex_true) (ex_sref_i ex_true) False 100)"


definition ex_blockized_state_i :: "ScheduleState \<times> StmtSRef \<times> nat" where
  "ex_blockized_state_i =
     projr (Blockize (ex_Sched ex_true) ex_Arith (ex_state ex_true) (ex_sref_i ex_true) False 100)"



text \<open>The init subtree generated from the init of block \<open>B\<close>, the block realize of
  \<open>B\<close> and the loops \<open>j\<close>, \<open>i\<close>.\<close>

definition ex_init_tree :: Stmt where
  "ex_init_tree =
     ForS (ForNode (Var ''i'' int32 102) (IntImm int32 0) (IntImm int32 4) kSerial
       (BlockRealizeS (BlockRealize [VarE (Var ''i'' int32 102)] ex_true
          (Block [IterVar (Range (IntImm int32 0) (IntImm int32 4)) (Var ''vi_init'' int32 100) kDataPar]
             []
             [BufferRegion ex_C [Range (VarE (Var ''vi_init'' int32 100)) (IntImm int32 1)]]
             ''B_init''
             (BufferStore ex_C (Call ex_float32 ''FloatImm(0)'' []) [VarE (Var ''vi_init'' int32 100)])
             None [] [] [] 101)))
       10)"

section \<open>Group-form Blockize\<close>

text \<open>An \<^verbatim>\<open>Array\<close> handle that is initialised with \<^verbatim>\<open>nullptr\<close> is undefined
  (\<open>None\<close>) until the first \<^verbatim>\<open>push_back\<close>.\<close>

definition Array_push_back :: "'a list option \<Rightarrow> 'a \<Rightarrow> 'a list option" where
  "Array_push_back a x = (case a of None \<Rightarrow> Some [x] | Some xs \<Rightarrow> Some (xs @ [x]))"

definition Array_pop_back :: "'a list option \<Rightarrow> 'a list option" where
  "Array_pop_back a = (case a of None \<Rightarrow> None | Some xs \<Rightarrow> Some (butlast xs))"

definition Array_clear :: "'a list option \<Rightarrow> 'a list option" where
  "Array_clear a = (case a of None \<Rightarrow> None | Some xs \<Rightarrow> Some [])"

definition Array_elems :: "'a list option \<Rightarrow> 'a list" where
  "Array_elems a = (case a of None \<Rightarrow> [] | Some xs \<Rightarrow> xs)"

text \<open>The visitor \<^verbatim>\<open>CollectSubstInfo\<close>. Its out-parameters point to the members
  \<open>outer_iter_vars\<close>, \<open>outer_bindings\<close> and \<open>block_var_subst\<close> of the rewriter (here
  \<open>out_iter_vars\<close>, \<open>out_bindings\<close>, \<open>out_subst\<close>); \<open>collect_lca\<close> is the statement of
  the lca and \<open>collect_next\<close> the supply of fresh variable objects. The traversal of the
  visitor base class descends into the body of a loop, the block of a block realize,
  the init and body of a block, the statements of a sequence and the branches of a
  conditional.\<close>

record CollectSubstInfo =
  collect_lca :: SRefStmt
  out_iter_vars :: "IterVar list option"
  out_bindings :: "PrimExpr list option"
  out_subst :: "(Var \<times> PrimExpr) list"
  outer_extent :: "PrimExpr list"
  in_lca :: bool
  num_outer_iter_vars :: int
  num_travered :: int
  collect_next :: nat

text \<open>The pointer comparisons \<^verbatim>\<open>loop == sref->stmt\<close> and \<^verbatim>\<open>block == sref->stmt\<close>.\<close>

fun points_to_For :: "SRefStmt \<Rightarrow> ForNode \<Rightarrow> bool" where
  "points_to_For (SRefFor l) loop = (for_addr l = for_addr loop)"
| "points_to_For (SRefBlock b) loop = False"

fun points_to_Block :: "SRefStmt \<Rightarrow> Block \<Rightarrow> bool" where
  "points_to_Block (SRefBlock b) blk = (block_addr b = block_addr blk)"
| "points_to_Block (SRefFor l) blk = False"

text \<open>The loop over the iterators of the first block met inside the lca.\<close>

fun collect_iter ::
  "(PrimExpr \<Rightarrow> PrimExpr \<Rightarrow> bool) \<Rightarrow> CollectSubstInfo \<Rightarrow> nat \<Rightarrow> IterVar list \<Rightarrow> error + CollectSubstInfo" where
  "collect_iter can_prove_equal cs i [] = Inr cs"
| "collect_iter can_prove_equal cs i (iter_var # ivs) =
     (if i < length (outer_extent cs) then
        (if \<not> can_prove_equal (outer_extent cs ! i) (extent (dom_iv iter_var))
         then Inl (Fatal ''Check failed: ana.CanProveEqual(outer_extent[i], iter_var->dom->extent)'')
         else if \<not> i < length (Array_elems (out_bindings cs)) then Inl (Fatal ''IndexError'')
         else
           (case Array_elems (out_bindings cs) ! i of
              VarE outer_bind \<Rightarrow>
                (let outer_iter = IterVar (dom_iv iter_var)
                                    (Var (''v'' @ name_hint outer_bind) (var_dtype (var iter_var))
                                       (collect_next cs))
                                    (iter_type iter_var);
                     cs' = cs\<lparr>collect_next := Suc (collect_next cs)\<rparr>
                 in collect_iter can_prove_equal
                      (if num_outer_iter_vars cs = 0
                       then cs'\<lparr>out_iter_vars := Array_push_back (out_iter_vars cs) outer_iter,
                                out_subst := AList.update (var iter_var) (VarE (var outer_iter))
                                               (out_subst cs)\<rparr>
                       else cs')
                      (Suc i) ivs)
            | _ \<Rightarrow> Inl (Fatal ''Downcast failed'')))
      else collect_iter can_prove_equal cs (Suc i) ivs)"

fun Collect_VisitStmt :: "(PrimExpr \<Rightarrow> PrimExpr \<Rightarrow> bool) \<Rightarrow> CollectSubstInfo \<Rightarrow> Stmt \<Rightarrow> error + CollectSubstInfo"
and Collect_For :: "(PrimExpr \<Rightarrow> PrimExpr \<Rightarrow> bool) \<Rightarrow> CollectSubstInfo \<Rightarrow> ForNode \<Rightarrow> error + CollectSubstInfo"
and Collect_Block :: "(PrimExpr \<Rightarrow> PrimExpr \<Rightarrow> bool) \<Rightarrow> CollectSubstInfo \<Rightarrow> Block \<Rightarrow> error + CollectSubstInfo"
where
  "Collect_VisitStmt eq cs (ForS loop) = Collect_For eq cs loop"
| "Collect_VisitStmt eq cs (BlockS b) = Collect_Block eq cs b"
| "Collect_VisitStmt eq cs (BlockRealizeS (BlockRealize vs pr b)) = Collect_Block eq cs b"
| "Collect_VisitStmt eq cs (SeqStmt ss) =
     fold (\<lambda>s r. case r of Inl e \<Rightarrow> Inl e | Inr cs' \<Rightarrow> Collect_VisitStmt eq cs' s) ss (Inr cs)"
| "Collect_VisitStmt eq cs (IfThenElse c t e) =
     (case Collect_VisitStmt eq cs t of
        Inl err \<Rightarrow> Inl err
      | Inr cs' \<Rightarrow> (case e of None \<Rightarrow> Inr cs' | Some s \<Rightarrow> Collect_VisitStmt eq cs' s))"
| "Collect_VisitStmt eq cs (BufferStore b v idx) = Inr cs"
| "Collect_VisitStmt eq cs (Evaluate e) = Inr cs"
| "Collect_For eq cs (ForNode lv mn ex k bd a) =
     (if \<not> in_lca cs then
        (let cs1 = cs\<lparr>in_lca := (if points_to_For (collect_lca cs) (ForNode lv mn ex k bd a)
                                  then True else in_lca cs),
                      out_bindings := Array_push_back (out_bindings cs) (VarE lv),
                      outer_extent := outer_extent cs @ [ex],
                      num_travered := num_travered cs + 1\<rparr>
         in case Collect_VisitStmt eq cs1 bd of
              Inl e \<Rightarrow> Inl e
            | Inr cs2 \<Rightarrow>
                (let cs3 = cs2\<lparr>num_travered := num_travered cs2 - 1\<rparr>;
                     cs4 = (if \<not> in_lca cs3
                            then cs3\<lparr>out_bindings := Array_pop_back (out_bindings cs3),
                                     outer_extent := butlast (outer_extent cs3)\<rparr>
                            else cs3)
                 in Inr (if num_travered cs4 = 0 then cs4\<lparr>in_lca := False\<rparr> else cs4)))
      else Collect_VisitStmt eq cs bd)"
| "Collect_Block eq cs (Block ivs rs ws nm bd ini al mb an a) =
     (if points_to_Block (collect_lca cs) (Block ivs rs ws nm bd ini al mb an a) \<and> nm = ''root''
      then Inr cs
      else if in_lca cs \<and> ivs \<noteq> [] then
        (case collect_iter eq cs 0 ivs of
           Inl e \<Rightarrow> Inl e
         | Inr cs' \<Rightarrow> Inr (cs'\<lparr>num_outer_iter_vars := num_outer_iter_vars cs' + 1\<rparr>))
      else
        (case (case ini of None \<Rightarrow> Inr cs | Some s \<Rightarrow> Collect_VisitStmt eq cs s) of
           Inl e \<Rightarrow> Inl e
         | Inr cs' \<Rightarrow> Collect_VisitStmt eq cs' bd))"

text \<open>The two-argument \<^verbatim>\<open>Range(begin, end)\<close> constructor.\<close>

definition Range_begin_end :: "PrimExpr \<Rightarrow> PrimExpr \<Rightarrow> Range" where
  "Range_begin_end b e = Range b (case b of IntImm t n \<Rightarrow> (if n = 0 then e else Sub e b) | _ \<Rightarrow> Sub e b)"

text \<open>\<^verbatim>\<open>UnionRegions\<close>: the interval sets of every region are gathered per buffer and
  dimension, buffers in first-seen order; each dimension becomes the range from the
  simplified minimum to the simplified maximum plus one.\<close>

fun UnionRegions_collect ::
  "'s Arith \<Rightarrow> BufferRegion list \<Rightarrow> (Buffer \<times> 's list list) list \<Rightarrow>
   error + (Buffer \<times> 's list list) list" where
  "UnionRegions_collect ar [] intset_map = Inr intset_map"
| "UnionRegions_collect ar (buffer_region # regions) intset_map =
     (let buf = buffer buffer_region;
          sets = (case map_of intset_map buf of
                    None \<Rightarrow> replicate (length (shape buf)) []
                  | Some x \<Rightarrow> x)
      in if length (region buffer_region) < length (shape buf) then Inl (Fatal ''IndexError'')
         else UnionRegions_collect ar regions
                (AList.update buf
                   (map2 (\<lambda>acc r. acc @ [IntSet_FromRange ar r]) sets
                      (take (length (shape buf)) (region buffer_region)))
                   intset_map))"

definition UnionRegions :: "'s Arith \<Rightarrow> BufferRegion list \<Rightarrow> error + BufferRegion list" where
  "UnionRegions ar regions =
     (case UnionRegions_collect ar regions [] of
        Inl e \<Rightarrow> Inl e
      | Inr intset_map \<Rightarrow>
          Inr (map (\<lambda>(buf, sets).
                 BufferRegion buf
                   (map (\<lambda>dim_sets.
                      (let intset = IntSet_Union ar dim_sets
                       in Range_begin_end (Simplify ar [] (IntSet_min ar intset))
                            (Simplify ar []
                               (Add (IntSet_max ar intset)
                                    (IntImm (dtype (IntSet_max ar intset)) 1))))) sets))
               intset_map))"

text \<open>The mutator \<^verbatim>\<open>BlockizeBlocks\<close>: its members, with \<open>next_id\<close> the supply of
  fresh objects. The flags \<^verbatim>\<open>_first_in\<close> and \<^verbatim>\<open>_target_in\<close> are \<open>first_in\<close> and
  \<open>target_in\<close>.\<close>

record 's BlockizeBlocks =
  blocks :: "StmtSRef list"
  lca :: StmtSRef
  block_sref_reuse :: "(Block \<times> Block) list"
  blockized :: "BlockRealize option"
  seq_body :: "Stmt list"
  outer_iter_vars :: "IterVar list option"
  outer_bindings :: "PrimExpr list option"
  inner_iter_vars :: "IterVar list option"
  block_var_subst :: "(Var \<times> PrimExpr) list"
  read_regions :: "BufferRegion list"
  write_regions :: "BufferRegion list"
  outer_block_name :: string
  loop_var_subst :: "(Var \<times> Var) list"
  tmp_in_block :: "Block option"
  inner_iter_dom :: "(Var \<times> 's) list"
  first_in :: bool
  target_in :: bool
  next_id :: nat

text \<open>The construction of the outer block realize, which \<^verbatim>\<open>RewriteSeq\<close> contains
  twice: a dummy unit iterator bound to 0 is synthesized when \<open>outer_iter_vars\<close> is
  undefined; the two arrays are moved into the new node, which the constructor of
  the block realize checks.\<close>

definition make_outer :: "'s Arith \<Rightarrow> 's BlockizeBlocks \<Rightarrow> error + BlockRealize \<times> 's BlockizeBlocks" where
  "make_outer ar st =
     (let st1 = (if outer_iter_vars st = None then
                   (let new_var = Var ''init'' (DataType_Int 32) (next_id st);
                        outer_iter = IterVar (RangeFromExtent (IntImm (DataType_Int 32) 1))
                                       (copy_with_suffix new_var ''_o'' (Suc (next_id st))) kDataPar
                    in st\<lparr>outer_bindings :=
                             Array_push_back (Array_clear (outer_bindings st))
                               (make_zero (var_dtype new_var)),
                           outer_iter_vars := Array_push_back (outer_iter_vars st) outer_iter,
                           next_id := Suc (Suc (next_id st))\<rparr>)
                 else st)
      in case UnionRegions ar (read_regions st1) of
           Inl e \<Rightarrow> Inl e
         | Inr outer_reads \<Rightarrow>
             (case UnionRegions ar (write_regions st1) of
                Inl e \<Rightarrow> Inl e
              | Inr outer_writes \<Rightarrow>
                  (case BlockRealize_ctor (Array_elems (outer_bindings st1))
                          (make_const DataType_Bool 1)
                          (Block (Array_elems (outer_iter_vars st1)) outer_reads outer_writes
                             (outer_block_name st1) (SeqStmt (seq_body st1)) None [] [] []
                             (next_id st1)) of
                     Inl e \<Rightarrow> Inl e
                   | Inr b \<Rightarrow>
                       Inr (b, st1\<lparr>outer_bindings := None, outer_iter_vars := None,
                                       blockized := Some b, next_id := Suc (next_id st1)\<rparr>))))"

text \<open>One iteration of the loop of \<^verbatim>\<open>RewriteSeq\<close> after the visit of the element
  \<open>it\<close>; the locals are \<open>idx_start\<close>, \<open>found_cnt\<close>, \<open>last_found_idx\<close>, \<open>cur_idx\<close> and
  \<open>new_seq\<close>.\<close>

type_synonym RewriteSeq_locals = "int \<times> int \<times> int \<times> nat \<times> Stmt list"

definition RewriteSeq_step ::
  "'s Arith \<Rightarrow> nat \<Rightarrow> Stmt \<Rightarrow> Stmt \<Rightarrow> 's BlockizeBlocks \<Rightarrow> RewriteSeq_locals \<Rightarrow>
   error + 's BlockizeBlocks \<times> RewriteSeq_locals" where
  "RewriteSeq_step ar seq_size it visited st locals =
     (case locals of (idx_start, found_cnt, last_found_idx, cur_idx, new_seq) \<Rightarrow>
      if target_in st then
        (if idx_start \<noteq> - 1 \<and> last_found_idx \<noteq> int cur_idx - 1
         then Inl (Fatal ''Target blocks must be consecutive!'')
         else
           (let idx_start' = (if idx_start = - 1 then int cur_idx else idx_start);
                st1 = st\<lparr>seq_body := seq_body st @ [visited]\<rparr>
            in if int cur_idx = int seq_size - 1 then
                 (case make_outer ar st1 of
                    Inl e \<Rightarrow> Inl e
                  | Inr (b, st2) \<Rightarrow>
                      Inr (st2, (idx_start', found_cnt + 1, int cur_idx, Suc cur_idx,
                                 new_seq @ [BlockRealizeS b])))
               else Inr (st1, (idx_start', found_cnt + 1, int cur_idx, Suc cur_idx, new_seq))))
      else
        (if idx_start \<noteq> - 1 \<and> last_found_idx = int cur_idx - 1 then
           (case make_outer ar st of
              Inl e \<Rightarrow> Inl e
            | Inr (b, st2) \<Rightarrow>
                Inr (st2, (idx_start, found_cnt, last_found_idx, Suc cur_idx,
                           new_seq @ [BlockRealizeS b] @ [it])))
         else Inr (st, (idx_start, found_cnt, last_found_idx, Suc cur_idx, new_seq @ [it]))))"

text \<open>The visit of a block that one of the target srefs points to.\<close>

definition is_target :: "StmtSRef list \<Rightarrow> Block \<Rightarrow> bool" where
  "is_target srefs blk = (\<exists>block_sref \<in> set srefs. points_to_Block (stmt block_sref) blk)"

fun target_iters :: "'s BlockizeBlocks \<Rightarrow> IterVar list \<Rightarrow> 's BlockizeBlocks" where
  "target_iters st [] = st"
| "target_iters st (iter_var # ivs) =
     (let inner_iter = IterVar (RangeFromExtent (extent (dom_iv iter_var)))
                         (copy_with_suffix (var iter_var) ''_i'' (next_id st)) (iter_type iter_var)
      in target_iters
           (st\<lparr>inner_iter_vars := Array_push_back (inner_iter_vars st) inner_iter,
                block_var_subst := AList.update (var iter_var) (VarE (var inner_iter))
                                     (block_var_subst st),
                next_id := Suc (next_id st)\<rparr>) ivs)"

definition target_block :: "'s Arith \<Rightarrow> 's BlockizeBlocks \<Rightarrow> Block \<Rightarrow> error + Block \<times> 's BlockizeBlocks" where
  "target_block ar st blk =
     (let st1 = (target_iters (st\<lparr>target_in := True\<rparr>) (iter_vars blk))\<lparr>tmp_in_block := Some blk\<rparr>;
          block_subst = Substitute_Block (Simplify ar []) (block_var_subst st1) blk;
          st2 = st1\<lparr>block_sref_reuse :=
                      Map_Set_all (block_sref_reuse st1)
                        (Substitute_reuse_Block (Simplify ar []) (block_var_subst st1) blk)\<rparr>
      in case inner_iter_vars st2 of
           Some inner \<Rightarrow>
             (let dom_map = Map_Set_all (inner_iter_dom st2)
                              (map (\<lambda>iter. (var iter, IntSet_FromRange ar (dom_iv iter))) inner)
              in case EvalSetRegions ar (reads block_subst) dom_map of
                   Inl e \<Rightarrow> Inl e
                 | Inr rd \<Rightarrow>
                     (case EvalSetRegions ar (writes block_subst) dom_map of
                        Inl e \<Rightarrow> Inl e
                      | Inr wr \<Rightarrow>
                          Inr (block_subst,
                               st2\<lparr>inner_iter_dom := dom_map,
                                    read_regions := read_regions st2 @ rd,
                                    write_regions := write_regions st2 @ wr,
                                    outer_block_name := outer_block_name st2
                                       @ block_name_hint block_subst @ ''_''\<rparr>)))
         | None \<Rightarrow>
             Inr (block_subst,
                  st2\<lparr>read_regions := read_regions st2 @ reads block_subst,
                       write_regions := write_regions st2 @ writes block_subst,
                       outer_block_name := outer_block_name st2
                          @ block_name_hint block_subst @ ''_''\<rparr>))"

text \<open>The visit of a block realize after its block has been visited. The entry of
  \<open>block_sref_reuse\<close> is keyed by \<open>tmp_in_block\<close>, which is defined whenever
  \<open>target_in\<close> holds.\<close>

definition realize_target ::
  "'s BlockizeBlocks \<Rightarrow> BlockRealize \<Rightarrow> Block \<Rightarrow> error + Stmt \<times> 's BlockizeBlocks" where
  "realize_target st blockrealize block_subst =
     (if \<not> target_in st then Inr (BlockRealizeS blockrealize, st)
      else if has_outer_reduction block_subst (Array_elems (outer_iter_vars st))
      then Inl (Fatal (''No reduction iter vars allowed for the outer loops ''
                       @ ''when blockize multiple blocks''))
      else
        (let new_inner_iter_vars =
               map (\<lambda>v. tir_Substitute_expr v (loop_var_subst st)) (iter_values blockrealize)
         in case GenerateInner False (Array_elems (inner_iter_vars st))
                   new_inner_iter_vars (predicate blockrealize) block_subst of
              Inl e \<Rightarrow> Inl e
            | Inr inner_realize \<Rightarrow>
                Inr (BlockRealizeS inner_realize,
                     st\<lparr>block_sref_reuse :=
                           (case tmp_in_block st of
                              None \<Rightarrow> block_sref_reuse st
                            | Some t \<Rightarrow>
                                AList.update t (block inner_realize) (block_sref_reuse st))\<rparr>)))"

definition substitute_loop_var :: "Var \<Rightarrow> (Var \<times> Var) list \<Rightarrow> error + Var" where
  "substitute_loop_var lv vmap =
     (case tir_Substitute_expr (VarE lv) vmap of
        VarE v \<Rightarrow> Inr v
      | _ \<Rightarrow> Inl (Fatal ''Downcast failed''))"

definition RewriteSeq_result :: "Stmt list \<Rightarrow> Stmt" where
  "RewriteSeq_result new_seq = (case new_seq of [s] \<Rightarrow> s | _ \<Rightarrow> SeqStmt new_seq)"

text \<open>The overridden visits of loops, conditionals, blocks and block realizes, the
  default visits of the mutator base class for the other statements, and
  \<^verbatim>\<open>RewriteSeq\<close>.\<close>

fun BlockizeBlocks_VisitStmt ::
      "'s Arith \<Rightarrow> 's BlockizeBlocks \<Rightarrow> Stmt \<Rightarrow> error + Stmt \<times> 's BlockizeBlocks"
and BlockizeBlocks_For ::
      "'s Arith \<Rightarrow> 's BlockizeBlocks \<Rightarrow> ForNode \<Rightarrow> error + Stmt \<times> 's BlockizeBlocks"
and BlockizeBlocks_Block ::
      "'s Arith \<Rightarrow> 's BlockizeBlocks \<Rightarrow> Block \<Rightarrow> error + Block \<times> 's BlockizeBlocks"
and RewriteSeq ::
      "'s Arith \<Rightarrow> 's BlockizeBlocks \<Rightarrow> Stmt \<Rightarrow> error + Stmt \<times> 's BlockizeBlocks"
where
  "BlockizeBlocks_VisitStmt ar st (ForS loop) = BlockizeBlocks_For ar st loop"
| "BlockizeBlocks_VisitStmt ar st (BlockS b) =
     (case BlockizeBlocks_Block ar st b of
        Inl e \<Rightarrow> Inl e
      | Inr (b', st') \<Rightarrow> Inr (BlockS b', st'))"
| "BlockizeBlocks_VisitStmt ar st (BlockRealizeS (BlockRealize vs pr b)) =
     (case BlockizeBlocks_Block ar (st\<lparr>inner_iter_vars := Array_clear (inner_iter_vars st)\<rparr>) b of
        Inl e \<Rightarrow> Inl e
      | Inr (block_subst, st') \<Rightarrow> realize_target st' (BlockRealize vs pr b) block_subst)"
| "BlockizeBlocks_VisitStmt ar st (SeqStmt ss) =
     (case fold (\<lambda>s r. case r of
                          Inl e \<Rightarrow> Inl e
                        | Inr (acc, st') \<Rightarrow>
                            (case BlockizeBlocks_VisitStmt ar st' s of
                               Inl e \<Rightarrow> Inl e
                             | Inr (s', st'') \<Rightarrow> Inr (acc @ [s'], st'')))
             ss (Inr ([], st)) of
        Inl e \<Rightarrow> Inl e
      | Inr (ss', st') \<Rightarrow> Inr (SeqStmt ss', st'))"
| "BlockizeBlocks_VisitStmt ar st (IfThenElse c t e) =
     (case BlockizeBlocks_VisitStmt ar st t of
        Inl err \<Rightarrow> Inl err
      | Inr (stmt_then, st1) \<Rightarrow>
          (case (case e of
                   None \<Rightarrow> Inr (None, st1)
                 | Some s \<Rightarrow>
                     (case BlockizeBlocks_VisitStmt ar st1 s of
                        Inl err \<Rightarrow> Inl err
                      | Inr (s', st2) \<Rightarrow> Inr (Some s', st2))) of
             Inl err \<Rightarrow> Inl err
           | Inr (else_case, st2) \<Rightarrow>
               Inr (IfThenElse (if loop_var_subst st \<noteq> []
                                then tir_Substitute_expr c (loop_var_subst st) else c)
                      stmt_then else_case, st2)))"
| "BlockizeBlocks_VisitStmt ar st (BufferStore b v idx) = Inr (BufferStore b v idx, st)"
| "BlockizeBlocks_VisitStmt ar st (Evaluate e) = Inr (Evaluate e, st)"
| "BlockizeBlocks_For ar st (ForNode lv mn ex k bd a) =
     (if points_to_For (stmt (lca st)) (ForNode lv mn ex k bd a) then
        (case RewriteSeq ar (st\<lparr>first_in := True\<rparr>) bd of
           Inl e \<Rightarrow> Inl e
         | Inr (bd', st') \<Rightarrow> Inr (ForS (ForNode lv mn ex k bd' a), st'))
      else if loop_var_subst st \<noteq> [] then
        (case substitute_loop_var lv (loop_var_subst st) of
           Inl e \<Rightarrow> Inl e
         | Inr loop_var' \<Rightarrow>
             (case BlockizeBlocks_VisitStmt ar st bd of
                Inl e \<Rightarrow> Inl e
              | Inr (bd', st') \<Rightarrow> Inr (ForS (ForNode loop_var' mn ex k bd' a), st')))
      else
        (case BlockizeBlocks_VisitStmt ar st bd of
           Inl e \<Rightarrow> Inl e
         | Inr (bd', st') \<Rightarrow> Inr (ForS (ForNode lv mn ex k bd' a), st')))"
| "BlockizeBlocks_Block ar st (Block ivs rs ws nm bd ini al mb an a) =
     (if points_to_Block (stmt (lca st)) (Block ivs rs ws nm bd ini al mb an a) then
        (case RewriteSeq ar (st\<lparr>first_in := True\<rparr>) bd of
           Inl e \<Rightarrow> Inl e
         | Inr (bd', st') \<Rightarrow> Inr (Block ivs rs ws nm bd' ini al mb an a, st'))
      else if first_in st \<and> is_target (blocks st) (Block ivs rs ws nm bd ini al mb an a) then
        target_block ar st (Block ivs rs ws nm bd ini al mb an a)
      else Inr (Block ivs rs ws nm bd ini al mb an a, st))"
| "RewriteSeq ar st (SeqStmt ss) =
     (case fold (\<lambda>it r. case r of
                           Inl e \<Rightarrow> Inl e
                         | Inr (st', locals) \<Rightarrow>
                             (case BlockizeBlocks_VisitStmt ar (st'\<lparr>target_in := False\<rparr>) it of
                                Inl e \<Rightarrow> Inl e
                              | Inr (visited, st'') \<Rightarrow>
                                  RewriteSeq_step ar (length ss) it visited st'' locals))
             ss (Inr (st, (- 1, 0, - 1, 0, []))) of
        Inl e \<Rightarrow> Inl e
      | Inr (st', (idx_start, found_cnt, last_found_idx, cur_idx, new_seq)) \<Rightarrow>
          Inr (RewriteSeq_result new_seq, st'))"
| "RewriteSeq ar st s = Inl (Fatal ''Target blocks must not be nested with each other!'')"

text \<open>\<^verbatim>\<open>CollectSubstInfo::Collect\<close>: visit the scope root block of the first target.\<close>

definition Collect ::
  "Sched \<Rightarrow> 's Arith \<Rightarrow> ScheduleState \<Rightarrow> StmtSRef \<Rightarrow> StmtSRef \<Rightarrow> nat \<Rightarrow>
   error + CollectSubstInfo" where
  "Collect sch ar self lca_sref block_sref next =
     (case GetScopeRoot sch self block_sref False of
        Inl e \<Rightarrow> Inl e
      | Inr scope_root \<Rightarrow>
          (case stmt scope_root of
             SRefFor l \<Rightarrow> Inl (Fatal ''Check failed: root_block != nullptr'')
           | SRefBlock root_block \<Rightarrow>
               Collect_Block (CanProveEqual ar)
                 \<lparr>collect_lca = stmt lca_sref, out_iter_vars = None, out_bindings = None,
                  out_subst = [], outer_extent = [], in_lca = False, num_outer_iter_vars = 0,
                  num_travered = 0, collect_next = next\<rparr>
                 root_block))"

text \<open>The loop of the constructor of \<^verbatim>\<open>BlockizeBlocks\<close>: an outer binding that is a
  variable is mapped to the variable of the outer iterator at the same position.\<close>

fun init_loop_var_subst :: "IterVar list \<Rightarrow> PrimExpr list \<Rightarrow> (Var \<times> Var) list \<Rightarrow> error + (Var \<times> Var) list" where
  "init_loop_var_subst [] bs m = Inr m"
| "init_loop_var_subst (iv # ivs) [] m = Inl (Fatal ''IndexError'')"
| "init_loop_var_subst (iv # ivs) (b # bs) m =
     init_loop_var_subst ivs bs (case b of VarE v \<Rightarrow> AList.update v (var iv) m | _ \<Rightarrow> m)"

definition BlockizeBlocks_new ::
  "Sched \<Rightarrow> 's Arith \<Rightarrow> ScheduleState \<Rightarrow> StmtSRef list \<Rightarrow> StmtSRef \<Rightarrow> nat \<Rightarrow>
   error + 's BlockizeBlocks" where
  "BlockizeBlocks_new sch ar self block_srefs lca_sref next =
     (case block_srefs of
        [] \<Rightarrow> Inl (Fatal ''IndexError: cannot index an empty array'')
      | front # rest \<Rightarrow>
          (case Collect sch ar self lca_sref front next of
             Inl e \<Rightarrow> Inl e
           | Inr cs \<Rightarrow>
               (case init_loop_var_subst (Array_elems (out_iter_vars cs))
                       (Array_elems (out_bindings cs)) [] of
                  Inl e \<Rightarrow> Inl e
                | Inr lvs \<Rightarrow>
                    Inr \<lparr>blocks = block_srefs, lca = lca_sref, block_sref_reuse = [],
                         blockized = None, seq_body = [],
                         outer_iter_vars = out_iter_vars cs, outer_bindings = out_bindings cs,
                         inner_iter_vars = None, block_var_subst = out_subst cs,
                         read_regions = [], write_regions = [], outer_block_name = ''outer_'',
                         loop_var_subst = lvs, tmp_in_block = None, inner_iter_dom = [],
                         first_in = False, target_in = False, next_id = collect_next cs\<rparr>)))"

fun SRefStmt_Stmt :: "SRefStmt \<Rightarrow> Stmt" where
  "SRefStmt_Stmt (SRefFor l) = ForS l"
| "SRefStmt_Stmt (SRefBlock b) = BlockS b"

text \<open>\<^verbatim>\<open>BlockizeBlocks::Rewrite\<close>: the rewritten lca and the final state of the
  rewriter, which holds \<open>blockized\<close> and \<open>block_sref_reuse\<close>.\<close>

definition Rewrite ::
  "Sched \<Rightarrow> 's Arith \<Rightarrow> ScheduleState \<Rightarrow> StmtSRef list \<Rightarrow> StmtSRef \<Rightarrow> nat \<Rightarrow>
   error + Stmt \<times> 's BlockizeBlocks" where
  "Rewrite sch ar self block_srefs lca_sref next =
     (case BlockizeBlocks_new sch ar self block_srefs lca_sref next of
        Inl e \<Rightarrow> Inl e
      | Inr rewriter \<Rightarrow> BlockizeBlocks_VisitStmt ar rewriter (SRefStmt_Stmt (stmt lca_sref)))"

text \<open>\<^verbatim>\<open>Blockize(self, blocks, preserve_unit_iters)\<close>, the group form. Reading the
  block of a \<open>blockized\<close> that was never set is a fatal error.\<close>

definition Blockize_blocks ::
  "Sched \<Rightarrow> 's Arith \<Rightarrow> ScheduleState \<Rightarrow> StmtSRef list \<Rightarrow> bool \<Rightarrow> nat \<Rightarrow>
   error + ScheduleState \<times> StmtSRef \<times> nat" where
  "Blockize_blocks sch ar self block_srefs preserve_unit_iters next =
     (case GetSRefLowestCommonAncestor sch block_srefs of
        Inl e \<Rightarrow> Inl e
      | Inr lca_sref \<Rightarrow>
     (case (Rewrite sch ar self block_srefs lca_sref next
              :: error + Stmt \<times> 's BlockizeBlocks) of
        Inl e \<Rightarrow> Inl e
      | Inr (new_lca, rewriter) \<Rightarrow>
     (case Replace sch self lca_sref new_lca (block_sref_reuse rewriter) of
        Inl e \<Rightarrow> Inl e
      | Inr self1 \<Rightarrow>
     (case blockized rewriter of
        None \<Rightarrow> Inl (Fatal ''blockized is not defined'')
      | Some outer \<Rightarrow>
     (case map_of (stmt2ref self1) (block_addr (block outer)) of
        None \<Rightarrow> Inl (Fatal ''std::out_of_range'')
      | Some result \<Rightarrow>
     (case GetScopeRoot sch self1 result False of
        Inl e \<Rightarrow> Inl e
      | Inr scope_root \<Rightarrow>
     (case GetBlockRealize sch self1 scope_root of
        Inl e \<Rightarrow> Inl e
      | Inr scope_realize \<Rightarrow>
     (case UpdateScopeBlockInfo sch self1 (BlockRealizeS scope_realize) of
        Inl e \<Rightarrow> Inl e
      | Inr self2 \<Rightarrow> Inr (self2, result, next_id rewriter)))))))))"

text \<open>The predicate of the outer block realize that the rewriter holds, if it holds
  one, is the boolean constant true.\<close>

definition outer_pred_ok :: "'s BlockizeBlocks \<Rightarrow> bool" where
  "outer_pred_ok st = (\<forall>b. blockized st = Some b \<longrightarrow> predicate b = IntImm DataType_Bool 1)"

text \<open>The outer block realize that the rewriter holds, if it holds one, has equal
  sizes; and the statements gathered for the body of the outer block have equal sizes
  throughout.\<close>

definition outer_sizes_ok :: "'s BlockizeBlocks \<Rightarrow> bool" where
  "outer_sizes_ok st = (\<forall>b. blockized st = Some b \<longrightarrow> sizes_equal b)"

definition seq_body_ok :: "'s BlockizeBlocks \<Rightarrow> bool" where
  "seq_body_ok st = (\<forall>s \<in> set (seq_body st). all_sizes_equal s)"

section \<open>Two sibling blocks under one loop\<close>

text \<open>The program used for the group form:
  \<^verbatim>\<open>for i in 0..4: { block("B1"): vi = spatial(4, i); D[vi] = C[vi];
  block("B2"): vi = spatial(4, i); E[vi] = D[vi] }\<close> under the root block, with the
  srefs of its nodes. Its framework registers an sref for every block realize of a new
  subtree and finds the lowest common ancestor of sibling blocks in their parent.\<close>

definition ex2_vi :: "nat \<Rightarrow> Var" where "ex2_vi n = Var ''vi'' int32 n"

definition ex2_block :: "string \<Rightarrow> Buffer \<Rightarrow> Buffer \<Rightarrow> nat \<Rightarrow> nat \<Rightarrow> Block" where
  "ex2_block name src dst n addr =
     Block [IterVar (Range (IntImm int32 0) (IntImm int32 4)) (ex2_vi n) kDataPar]
       [BufferRegion src [Range (VarE (ex2_vi n)) (IntImm int32 1)]]
       [BufferRegion dst [Range (VarE (ex2_vi n)) (IntImm int32 1)]]
       name
       (BufferStore dst (BufferLoad ex_float32 (data src) [VarE (ex2_vi n)]) [VarE (ex2_vi n)])
       None [] [] [] addr"

definition ex2_D :: Buffer where
  "ex2_D = Buffer (Var ''D'' (DataType kHandle 64 1) 6) [IntImm int32 4] ''D''"

definition ex2_E :: Buffer where
  "ex2_E = Buffer (Var ''E'' (DataType kHandle 64 1) 7) [IntImm int32 4] ''E''"

definition ex2_B1 :: Block where "ex2_B1 = ex2_block ''B1'' ex_C ex2_D 2 32"
definition ex2_B2 :: Block where "ex2_B2 = ex2_block ''B2'' ex2_D ex2_E 3 33"

definition ex2_seq :: Stmt where
  "ex2_seq = SeqStmt [BlockRealizeS (BlockRealize [VarE ex_i] ex_true ex2_B1),
                      BlockRealizeS (BlockRealize [VarE ex_i] ex_true ex2_B2)]"

definition ex2_loop_i :: ForNode where
  "ex2_loop_i = ForNode ex_i (IntImm int32 0) (IntImm int32 4) kSerial ex2_seq 30"

definition ex2_root :: Block where
  "ex2_root = Block [] [] [] ''root'' (ForS ex2_loop_i) None [ex2_D] [] [] 29"

definition ex2_sref_root :: StmtSRef where "ex2_sref_root = StmtSRef (SRefBlock ex2_root) None 40"
definition ex2_sref_i :: StmtSRef where
  "ex2_sref_i = StmtSRef (SRefFor ex2_loop_i) (Some ex2_sref_root) 41"
definition ex2_sref_B1 :: StmtSRef where
  "ex2_sref_B1 = StmtSRef (SRefBlock ex2_B1) (Some ex2_sref_i) 43"
definition ex2_sref_B2 :: StmtSRef where
  "ex2_sref_B2 = StmtSRef (SRefBlock ex2_B2) (Some ex2_sref_i) 44"

definition ex2_state :: ScheduleState where
  "ex2_state = ScheduleState (IRModule 0)
     [(29, ex2_sref_root), (30, ex2_sref_i), (32, ex2_sref_B1), (33, ex2_sref_B2)]
     [(40, BlockInfo True True True), (43, BlockInfo True True True), (44, BlockInfo True True True)]"

fun ex2_realizes :: "Stmt \<Rightarrow> BlockRealize list" where
  "ex2_realizes (ForS (ForNode lv mn ex k bd a)) = ex2_realizes bd"
| "ex2_realizes (BlockRealizeS r) = [r]"
| "ex2_realizes (SeqStmt ss) = concat (map ex2_realizes ss)"
| "ex2_realizes s = []"

definition ex2_Sched :: "StmtSRef \<Rightarrow> Sched" where
  "ex2_Sched root_sref = \<lparr>
     CheckGetSingleChildBlockRealizeOnSRefTree = (\<lambda>self sref. Inl (Fatal ''not a single child'')),
     Replace = (\<lambda>self sref s reuse.
        Inr (ScheduleState (state_mod self)
               (map (\<lambda>r. (block_addr (block r),
                           StmtSRef (SRefBlock (block r)) (Some sref) (100 + block_addr (block r))))
                  (ex2_realizes s) @ stmt2ref self)
               (block_info self))),
     GetScopeRoot = (\<lambda>self sref require_stage_pipeline. Inr root_sref),
     GetBlockRealize = (\<lambda>self sref.
        case stmt root_sref of
          SRefBlock b \<Rightarrow> Inr (BlockRealize [] ex_true b)
        | SRefFor l \<Rightarrow> Inl (Fatal ''not a block'')),
     UpdateScopeBlockInfo = (\<lambda>self s. Inr self),
     IsAffineBlockBinding = (\<lambda>self sref.
        case map_of (block_info self) (sref_addr sref) of
          None \<Rightarrow> Inl (Fatal ''Check failed: cannot find the block info'')
        | Some i \<Rightarrow> Inr (affine_binding i)),
     GetSRefLowestCommonAncestor = (\<lambda>srefs.
        case srefs of
          [] \<Rightarrow> Inl (Fatal ''Check failed: srefs is empty'')
        | s # _ \<Rightarrow> (case parent s of None \<Rightarrow> Inr s | Some p \<Rightarrow> Inr p)) \<rparr>"

text \<open>The result of \<^verbatim>\<open>BlockizeBlocks::Rewrite\<close> for the two blocks, with lca loop
  \<open>i\<close>.\<close>

definition ex2_rewrite :: "Stmt \<times> Range BlockizeBlocks" where
  "ex2_rewrite =
     projr (Rewrite (ex2_Sched ex2_sref_root) ex_Arith ex2_state [ex2_sref_B1, ex2_sref_B2]
              ex2_sref_i 200)"

definition ex2_outer :: BlockRealize where
  "ex2_outer = the (blockized (snd ex2_rewrite))"

definition ex2_blockized :: "ScheduleState \<times> StmtSRef \<times> nat" where
  "ex2_blockized =
     projr (Blockize_blocks (ex2_Sched ex2_sref_root) ex_Arith ex2_state
              [ex2_sref_B1, ex2_sref_B2] False 200)"

section \<open>The two sibling blocks under two loops\<close>

text \<open>The same two blocks under a second loop:
  \<^verbatim>\<open>for i in 0..4: for j in 0..8: { B1; B2 }\<close>, with lca loop \<open>j\<close>. The collector
  records the two loop variables as outer bindings and one outer iterator for the
  iterator of \<open>B1\<close>.\<close>

definition ex3_loop_j :: ForNode where
  "ex3_loop_j = ForNode ex_j (IntImm int32 0) (IntImm int32 8) kSerial ex2_seq 31"

definition ex3_loop_i :: ForNode where
  "ex3_loop_i = ForNode ex_i (IntImm int32 0) (IntImm int32 4) kSerial (ForS ex3_loop_j) 30"

definition ex3_root :: Block where
  "ex3_root = Block [] [] [] ''root'' (ForS ex3_loop_i) None [ex2_D] [] [] 29"

definition ex3_sref_root :: StmtSRef where "ex3_sref_root = StmtSRef (SRefBlock ex3_root) None 40"
definition ex3_sref_i :: StmtSRef where
  "ex3_sref_i = StmtSRef (SRefFor ex3_loop_i) (Some ex3_sref_root) 41"
definition ex3_sref_j :: StmtSRef where
  "ex3_sref_j = StmtSRef (SRefFor ex3_loop_j) (Some ex3_sref_i) 42"
definition ex3_sref_B1 :: StmtSRef where
  "ex3_sref_B1 = StmtSRef (SRefBlock ex2_B1) (Some ex3_sref_j) 43"
definition ex3_sref_B2 :: StmtSRef where
  "ex3_sref_B2 = StmtSRef (SRefBlock ex2_B2) (Some ex3_sref_j) 44"

definition ex3_state :: ScheduleState where
  "ex3_state = ScheduleState (IRModule 0)
     [(29, ex3_sref_root), (30, ex3_sref_i), (31, ex3_sref_j), (32, ex3_sref_B1), (33, ex3_sref_B2)]
     [(40, BlockInfo True True True), (43, BlockInfo True True True), (44, BlockInfo True True True)]"

section \<open>A tensor intrinsic\<close>

text \<open>An intrinsic over one buffer of shape \<open>[8]\<close>, described and implemented by a block
  that reads the whole buffer; the implementation states its region in 64-bit integers.
  The operations for the instances: the JSON round trip yields an equal function, the
  normalizer casts the bounds of the read regions of the top-level block, the comparator
  maps the description buffer to buffer \<open>A\<close> with base indices \<open>vi, vj\<close>, and
  \<^verbatim>\<open>cast\<close> keeps an expression of the target type, retypes an integer constant and
  wraps anything else.\<close>

definition int64 :: DataType where
  "int64 = DataType_Int 64"

definition ex_Aimpl :: Buffer where
  "ex_Aimpl = Buffer (Var ''A_impl'' (DataType kHandle 64 1) 8) [IntImm int32 8] ''A_impl''"

definition ex_Adesc :: Buffer where
  "ex_Adesc = Buffer (Var ''A_desc'' (DataType kHandle 64 1) 9) [IntImm int32 8] ''A_desc''"

definition ex_intrin_func :: "Var \<Rightarrow> Buffer \<Rightarrow> DataType \<Rightarrow> nat \<Rightarrow> PrimFunc" where
  "ex_intrin_func p buf t addr =
     PrimFunc [p] [(p, buf)]
       (BlockRealizeS (BlockRealize [] ex_true
          (Block [] [BufferRegion buf [Range (IntImm t 0) (IntImm t 8)]] [] ''intrin''
             (Evaluate (Call int32 ''call_extern'' [])) None [] [] [] addr)))"

definition ex_desc_func :: PrimFunc where
  "ex_desc_func = ex_intrin_func (Var ''a'' (DataType kHandle 64 1) 60) ex_Adesc int32 50"

definition ex_impl_func :: PrimFunc where
  "ex_impl_func = ex_intrin_func (Var ''a'' (DataType kHandle 64 1) 61) ex_Aimpl int64 51"

definition ex_store :: FuncStore where
  "ex_store = [(0, ex_desc_func), (1, ex_impl_func)]"

definition ex_intrin :: TensorIntrin where
  "ex_intrin = TensorIntrin 0 1"

definition ex_cast :: "DataType \<Rightarrow> PrimExpr \<Rightarrow> PrimExpr" where
  "ex_cast t e = (if dtype e = t then e else (case e of IntImm t' n \<Rightarrow> IntImm t n | _ \<Rightarrow> Cast t e))"

fun ex_normalize :: "DataType \<Rightarrow> PrimFunc \<Rightarrow> PrimFunc" where
  "ex_normalize t (PrimFunc ps bm (BlockRealizeS (BlockRealize vs pr b))) =
     PrimFunc ps bm
       (BlockRealizeS (BlockRealize vs pr
          (Block (iter_vars b)
             (map (\<lambda>br. BufferRegion (buffer br)
                          (map (\<lambda>r. Range (ex_cast t (range_min r)) (ex_cast t (extent r)))
                             (region br)))
                (reads b))
             (writes b) (block_name_hint b) (body b) (init b) (alloc_buffers b)
             (match_buffers b) (annotations b) (block_addr b))))"
| "ex_normalize t f = f"

definition ex_TensorizeOps :: TensorizeOps where
  "ex_TensorizeOps = \<lparr>
     LoadJSON_SaveJSON = (\<lambda>f. f),
     IndexDataTypeNormalizer_Rewrite = ex_normalize,
     TensorizeComparator_VisitStmt =
       (\<lambda>m r s. Inr ([(ex_Adesc, ex_A)], [(ex_A, [VarE ex_vi, VarE ex_vj])])),
     cast = ex_cast \<rparr>"

text \<open>The framework of the reduction example, asked for the block realize of block
  \<open>B\<close>.\<close>

definition ex_Sched_B :: Sched where
  "ex_Sched_B = (ex_Sched ex_true)\<lparr>GetBlockRealize := (\<lambda>self sref. Inr (ex_realize ex_true))\<rparr>"

text \<open>\<^verbatim>\<open>Tensorize\<close> of block \<open>B\<close> with the intrinsic, and a comparator that records
  three base indices for the two-dimensional buffer \<open>A\<close>.\<close>

definition ex_tensorized :: "ScheduleState \<times> FuncStore \<times> nat" where
  "ex_tensorized =
     projr (Tensorize ex_Sched_B ex_Arith ex_TensorizeOps (ex_state ex_true) ex_store
              (ex_sref_block ex_true) ex_intrin False 100)"

definition ex_tensorized_realize :: BlockRealize where
  "ex_tensorized_realize =
     fst (projr (Tensorize_rewrite ex_TensorizeOps (state_mod (ex_state ex_true)) ex_store
                   ex_intrin (ex_realize ex_true)))"




section \<open>Properties\<close>

subsection \<open>C3: the trivial fallback of the subspace divider\<close>

lemma TrivialSubspaceDivision_loop_eq:
  "length ivs = length bs \<Longrightarrow>
   TrivialSubspaceDivision_loop ivs bs uo ui res =
     Inr (if \<forall>b \<in> set bs. \<not> (uo b \<and> ui b)
          then res @ map2 (trivial_division_entry uo ui) ivs bs @ [[true_iter_mark, true_iter_mark]]
          else [])"
proof (induction ivs bs arbitrary: res rule: list_induct2)
  case Nil
  then show ?case by simp
next
  case (Cons iv ivs b bs)
  show ?case
    by (auto simp add: Cons.IH Let_def trivial_division_entry_def)
qed

text \<open>
  C3. When the affine solver gives up (returns the empty list), \<^verbatim>\<open>SubspaceDivide\<close>
  returns what the trivial division returns. That result is non-empty only when the
  predicate is the literal 1 and no binding uses both an outer and an inner loop
  variable; it then holds, for each binding, its mark on the side whose loop variables
  it uses and a unit mark on the other side (two unit marks when it uses neither),
  followed by the predicate pair. If the predicate is not the literal 1 or some binding
  uses loop variables of both sides, the result is empty. The block realize has one
  binding per block iterator.
\<close>

theorem SubspaceDivide_trivial_fallback:
  assumes "SubspaceDivide_walk (parent block_sref) loop_sref as_outer True ([], [], [], [])
             = (loops, inner_vars, outer_vars, loop_var_domain)"
    and "arith_SubspaceDivide ar (iter_values realize) loop_var_domain inner_vars
           (predicate realize) (\<not> pui) = []"
    and "length (iter_vars (block realize)) = length (iter_values realize)"
  shows "SubspaceDivide ar realize block_sref loop_sref pui as_outer =
     (loops,
      Inr (if is_one (predicate realize) \<and>
              (\<forall>b \<in> set (iter_values realize).
                 \<not> (make_uses_var outer_vars b \<and> make_uses_var inner_vars b))
           then map2 (trivial_division_entry (make_uses_var outer_vars) (make_uses_var inner_vars))
                  (iter_vars (block realize)) (iter_values realize)
                @ [[true_iter_mark, true_iter_mark]]
           else []))"
  using assms
  by (auto simp add: SubspaceDivide_def TrivialSubspaceDivision_def TrivialSubspaceDivision_loop_eq)

lemma ex_walk_j:
  "SubspaceDivide_walk (parent (ex_sref_block p)) (ex_sref_j p) False True ([], [], [], [])
     = ([ex_loop_j p], [ex_j], [ex_i],
        [(ex_j, Range (IntImm int32 0) (IntImm int32 8)), (ex_i, Range (IntImm int32 0) (IntImm int32 4))])"
  by (simp add: ex_sref_block_def ex_sref_j_def ex_sref_i_def ex_loop_j_def ex_loop_i_def
        Range_FromMinExtent_def ex_j_def ex_i_def)

theorem SubspaceDivide_trivial_fallback_witness:
  "SubspaceDivide_walk (parent (ex_sref_block ex_true)) (ex_sref_j ex_true) False True ([], [], [], [])
     = ([ex_loop_j ex_true], [ex_j], [ex_i],
        [(ex_j, Range (IntImm int32 0) (IntImm int32 8)), (ex_i, Range (IntImm int32 0) (IntImm int32 4))])
   \<and> arith_SubspaceDivide ex_Arith (iter_values (ex_realize ex_true))
        [(ex_j, Range (IntImm int32 0) (IntImm int32 8)), (ex_i, Range (IntImm int32 0) (IntImm int32 4))]
        [ex_j] (predicate (ex_realize ex_true)) (\<not> False) = []
   \<and> length (iter_vars (block (ex_realize ex_true))) = length (iter_values (ex_realize ex_true))
   \<and> SubspaceDivide ex_Arith (ex_realize ex_true) (ex_sref_block ex_true) (ex_sref_j ex_true)
        False False = ([ex_loop_j ex_true], Inr ex_division_j)"
proof -
  have a: "arith_SubspaceDivide ex_Arith (iter_values (ex_realize ex_true))
        [(ex_j, Range (IntImm int32 0) (IntImm int32 8)), (ex_i, Range (IntImm int32 0) (IntImm int32 4))]
        [ex_j] (predicate (ex_realize ex_true)) (\<not> False) = []"
    by (simp add: ex_Arith_def)
  have l: "length (iter_vars (block (ex_realize ex_true))) = length (iter_values (ex_realize ex_true))"
    by (simp add: ex_realize_def ex_block_def)
  have u: "make_uses_var [ex_i] (VarE ex_i)" "\<not> make_uses_var [ex_j] (VarE ex_i)"
     "\<not> make_uses_var [ex_i] (VarE ex_j)" "make_uses_var [ex_j] (VarE ex_j)"
    by (simp_all add: make_uses_var_def ex_i_def ex_j_def)
  show ?thesis
    using SubspaceDivide_trivial_fallback[OF ex_walk_j a l] ex_walk_j a l u
    by (simp add: ex_realize_def ex_true_def ex_division_j_def ex_block_def trivial_division_entry_def)
qed

subsection \<open>C2: the substitution of the binding deriver\<close>

lemma inner_index_0 [simp]: "inner_index ds 0 = 0"
  by (simp add: inner_index_def)

lemma inner_index_Suc [simp]:
  "inner_index (d # ds) (Suc k) = (if has_inner d then Suc (inner_index ds k) else inner_index ds k)"
  by (simp add: inner_index_def)

lemma DeriveBlockBinding_step_Inr:
  assumes "DeriveBlockBinding_step ar pui reuse i iv d (subst, oiv, ob, iiv, ib, fresh) = Inr st'"
    and "\<not> (reuse \<and> i < length oiv)"
  shows "\<exists>om im rest. d = om # im # rest \<and>
     st' = (AList.update (var iv)
              (binding_substitution pui (mark_extent om) (mark_extent im)
                 (copy_with_suffix (var iv) ''_o'' fresh)
                 (copy_with_suffix (var iv) ''_i'' (Suc fresh))) subst,
            oiv @ [IterVar (RangeFromExtent (mark_extent om))
                     (copy_with_suffix (var iv) ''_o'' fresh) (iter_type iv)],
            ob @ [NormalizeIterMapToExpr ar (source om)],
            iiv @ (if is_one (mark_extent im) then []
                   else [IterVar (RangeFromExtent (mark_extent im))
                           (copy_with_suffix (var iv) ''_i'' (Suc fresh)) (iter_type iv)]),
            ib @ (if is_one (mark_extent im) then [] else [NormalizeIterMapToExpr ar (source im)]),
            (if is_one (mark_extent im) then Suc fresh else Suc (Suc fresh)))"
proof -
  obtain om im rest where d: "d = om # im # rest"
    using assms(1) by (cases d; cases "tl d") (auto simp add: DeriveBlockBinding_step_def)
  have outer: "DeriveBlockBinding_outer ar reuse i iv om oiv ob fresh =
      Inr (IterVar (RangeFromExtent (mark_extent om)) (copy_with_suffix (var iv) ''_o'' fresh)
             (iter_type iv),
           oiv @ [IterVar (RangeFromExtent (mark_extent om))
                    (copy_with_suffix (var iv) ''_o'' fresh) (iter_type iv)],
           ob @ [NormalizeIterMapToExpr ar (source om)], Suc fresh)"
    using assms(2) by (auto simp add: DeriveBlockBinding_outer_def Let_def)
  have ok: "is_IterMapExpr (source om) \<and> is_IterMapExpr (source im)"
    using assms(1) unfolding d DeriveBlockBinding_step_def
    by (simp split: if_splits)
  show ?thesis
    using assms(1) ok unfolding d DeriveBlockBinding_step_def
    by (auto simp add: outer Let_def binding_substitution_def make_zero_def split: if_splits)
qed

lemma map_of_update_other: "v \<noteq> k \<Longrightarrow> map_of (AList.update k x m) v = map_of m v"
  by (simp add: update_conv')

lemma DeriveBlockBinding_loop_props:
  assumes "DeriveBlockBinding_loop ar pui reuse i ivs ds (subst, oiv, ob, iiv, ib, fresh)
             = Inr (subst', oiv', ob', iiv', ib', fresh')"
    and "i = length oiv"
  shows "length oiv' = length oiv + length ivs \<and> take (length oiv) oiv' = oiv
     \<and> length ob' = length ob + length ivs
     \<and> length iiv' = length iiv + inner_index ds (length ivs) \<and> take (length iiv) iiv' = iiv
     \<and> length ib' = length ib + inner_index ds (length ivs)
     \<and> (\<forall>v. v \<notin> var ` set ivs \<longrightarrow> map_of subst' v = map_of subst v)
     \<and> (\<forall>k < length ivs. var (ivs ! k) \<notin> var ` set (drop (Suc k) ivs) \<longrightarrow>
           map_of subst' (var (ivs ! k)) =
             Some (binding_substitution pui (mark_extent (ds ! k ! 0)) (mark_extent (ds ! k ! 1))
                     (var (oiv' ! (length oiv + k)))
                     (var (iiv' ! (length iiv + inner_index ds k))))
         \<and> name_hint (var (oiv' ! (length oiv + k))) = name_hint (var (ivs ! k)) @ ''_o''
         \<and> (has_inner (ds ! k) \<longrightarrow>
              name_hint (var (iiv' ! (length iiv + inner_index ds k)))
                = name_hint (var (ivs ! k)) @ ''_i''))"
  using assms
proof (induction ivs arbitrary: i ds subst oiv ob iiv ib fresh)
  case Nil
  then show ?case by simp
next
  case (Cons iv ivs)
  from Cons.prems(1) obtain d ds' where ds: "ds = d # ds'"
    by (cases ds) auto
  from Cons.prems(1) obtain st1 where
    step: "DeriveBlockBinding_step ar pui reuse i iv d (subst, oiv, ob, iiv, ib, fresh) = Inr st1"
    and rest: "DeriveBlockBinding_loop ar pui reuse (Suc i) ivs ds' st1
                 = Inr (subst', oiv', ob', iiv', ib', fresh')"
    unfolding ds by (auto split: sum.splits)
  from DeriveBlockBinding_step_Inr[OF step] Cons.prems(2)
  obtain om im rst where d: "d = om # im # rst"
    and st1: "st1 = (AList.update (var iv)
              (binding_substitution pui (mark_extent om) (mark_extent im)
                 (copy_with_suffix (var iv) ''_o'' fresh)
                 (copy_with_suffix (var iv) ''_i'' (Suc fresh))) subst,
            oiv @ [IterVar (RangeFromExtent (mark_extent om))
                     (copy_with_suffix (var iv) ''_o'' fresh) (iter_type iv)],
            ob @ [NormalizeIterMapToExpr ar (source om)],
            iiv @ (if is_one (mark_extent im) then []
                   else [IterVar (RangeFromExtent (mark_extent im))
                           (copy_with_suffix (var iv) ''_i'' (Suc fresh)) (iter_type iv)]),
            ib @ (if is_one (mark_extent im) then [] else [NormalizeIterMapToExpr ar (source im)]),
            (if is_one (mark_extent im) then Suc fresh else Suc (Suc fresh)))"
    by auto
  let ?o = "IterVar (RangeFromExtent (mark_extent om))
                     (copy_with_suffix (var iv) ''_o'' fresh) (iter_type iv)"
  let ?n = "IterVar (RangeFromExtent (mark_extent im))
                           (copy_with_suffix (var iv) ''_i'' (Suc fresh)) (iter_type iv)"
  let ?iiv1 = "iiv @ (if is_one (mark_extent im) then [] else [?n])"
  have hi: "has_inner d = (\<not> is_one (mark_extent im))"
    by (simp add: has_inner_def d)
  note IH = Cons.IH[OF rest[unfolded st1], simplified]
  have len_o: "length oiv' = Suc (length oiv + length ivs)" and tk_o: "take (Suc (length oiv)) oiv' = oiv @ [?o]"
    using IH Cons.prems(2) by auto
  have len_i: "length iiv' = length ?iiv1 + inner_index ds' (length ivs)"
    and tk_i: "take (length ?iiv1) iiv' = ?iiv1"
    using IH Cons.prems(2) by auto
  have o_at: "oiv' ! length oiv = ?o"
  proof -
    have "oiv' ! length oiv = take (Suc (length oiv)) oiv' ! length oiv" by simp
    then show ?thesis by (simp add: tk_o)
  qed
  have tk_o': "take (length oiv) oiv' = oiv"
  proof -
    have "take (length oiv) oiv' = take (length oiv) (take (Suc (length oiv)) oiv')" by (simp add: min_def)
    then show ?thesis by (simp add: tk_o)
  qed
  have tk_i': "take (length iiv) iiv' = iiv"
  proof -
    have "take (length iiv) (take (length ?iiv1) iiv') = take (length iiv) ?iiv1"
      by (simp only: tk_i)
    moreover have "take (length iiv) (take (length ?iiv1) iiv') = take (length iiv) iiv'"
      by (simp add: min_def)
    moreover have "take (length iiv) ?iiv1 = iiv" by simp
    ultimately show ?thesis by simp
  qed
  have i_at: "\<not> is_one (mark_extent im) \<Longrightarrow> iiv' ! length iiv = ?n"
  proof -
    assume a: "\<not> is_one (mark_extent im)"
    have t: "take (Suc (length iiv)) iiv' = iiv @ [?n]" using tk_i a by simp
    have "iiv' ! length iiv = take (Suc (length iiv)) iiv' ! length iiv" by simp
    then show ?thesis by (simp only: t nth_append_length)
  qed
  have others: "\<forall>v. v \<notin> var ` set (iv # ivs) \<longrightarrow> map_of subst' v = map_of subst v"
    using IH Cons.prems(2) by (auto simp add: map_of_update_other)
  have head: "var iv \<notin> var ` set ivs \<Longrightarrow>
      map_of subst' (var iv) = Some (binding_substitution pui (mark_extent om) (mark_extent im)
                 (var (oiv' ! length oiv)) (var (iiv' ! length iiv)))"
  proof -
    assume a: "var iv \<notin> var ` set ivs"
    have "map_of subst' (var iv) = Some (binding_substitution pui (mark_extent om) (mark_extent im)
                 (copy_with_suffix (var iv) ''_o'' fresh)
                 (copy_with_suffix (var iv) ''_i'' (Suc fresh)))"
      using IH Cons.prems(2) a by (simp add: update_conv')
    moreover have "binding_substitution pui (mark_extent om) (mark_extent im)
                 (copy_with_suffix (var iv) ''_o'' fresh)
                 (copy_with_suffix (var iv) ''_i'' (Suc fresh))
        = binding_substitution pui (mark_extent om) (mark_extent im)
                 (var (oiv' ! length oiv)) (var (iiv' ! length iiv))"
      using i_at by (cases "is_one (mark_extent im)") (simp_all add: binding_substitution_def o_at)
    ultimately show ?thesis by simp
  qed
  have tail: "\<forall>k < length ivs. var (ivs ! k) \<notin> var ` set (drop (Suc k) ivs) \<longrightarrow>
           map_of subst' (var (ivs ! k)) =
             Some (binding_substitution pui (mark_extent (ds' ! k ! 0)) (mark_extent (ds' ! k ! 1))
                     (var (oiv' ! (Suc (length oiv) + k)))
                     (var (iiv' ! (length ?iiv1 + inner_index ds' k))))
         \<and> name_hint (var (oiv' ! (Suc (length oiv) + k))) = name_hint (var (ivs ! k)) @ ''_o''
         \<and> (has_inner (ds' ! k) \<longrightarrow>
              name_hint (var (iiv' ! (length ?iiv1 + inner_index ds' k)))
                = name_hint (var (ivs ! k)) @ ''_i'')"
    using IH Cons.prems(2) by simp
  show ?case
  proof (intro conjI allI impI)
    show "length oiv' = length oiv + length (iv # ivs)" using len_o by simp
    show "take (length oiv) oiv' = oiv" by (rule tk_o')
    show "length ob' = length ob + length (iv # ivs)" using IH Cons.prems(2) by simp
    show "length iiv' = length iiv + inner_index ds (length (iv # ivs))"
      using len_i by (simp add: ds hi)
    show "take (length iiv) iiv' = iiv" by (rule tk_i')
    show "length ib' = length ib + inner_index ds (length (iv # ivs))"
      using IH Cons.prems(2) by (simp add: ds hi)
    show "\<And>v. v \<notin> var ` set (iv # ivs) \<Longrightarrow> map_of subst' v = map_of subst v"
      using others by blast
  next
    fix k assume k: "k < length (iv # ivs)"
      and nd: "var ((iv # ivs) ! k) \<notin> var ` set (drop (Suc k) (iv # ivs))"
    show "map_of subst' (var ((iv # ivs) ! k)) =
             Some (binding_substitution pui (mark_extent (ds ! k ! 0)) (mark_extent (ds ! k ! 1))
                     (var (oiv' ! (length oiv + k)))
                     (var (iiv' ! (length iiv + inner_index ds k))))"
    proof (cases k)
      case 0
      then show ?thesis using head nd by (simp add: ds d)
    next
      case (Suc k')
      then show ?thesis using tail k nd
        by (cases "is_one (mark_extent im)") (simp_all add: ds hi)
    qed
  next
    fix k assume k: "k < length (iv # ivs)"
      and nd: "var ((iv # ivs) ! k) \<notin> var ` set (drop (Suc k) (iv # ivs))"
    show "name_hint (var (oiv' ! (length oiv + k))) = name_hint (var ((iv # ivs) ! k)) @ ''_o''"
    proof (cases k)
      case 0
      then show ?thesis by (simp add: o_at copy_with_suffix_def)
    next
      case (Suc k')
      then show ?thesis using tail k nd by simp
    qed
  next
    fix k assume k: "k < length (iv # ivs)"
      and nd: "var ((iv # ivs) ! k) \<notin> var ` set (drop (Suc k) (iv # ivs))"
      and h: "has_inner (ds ! k)"
    show "name_hint (var (iiv' ! (length iiv + inner_index ds k)))
                = name_hint (var ((iv # ivs) ! k)) @ ''_i''"
    proof (cases k)
      case 0
      then show ?thesis using h i_at by (simp add: ds hi copy_with_suffix_def)
    next
      case (Suc k')
      then show ?thesis using tail k nd h
        by (cases "is_one (mark_extent im)") (simp_all add: ds hi)
    qed
  qed
qed

lemma DeriveBlockBinding_loop_inner_names:
  assumes "DeriveBlockBinding_loop ar pui reuse i ivs ds (subst, oiv, ob, iiv, ib, fresh)
             = Inr (subst', oiv', ob', iiv', ib', fresh')"
    and "i = length oiv"
  shows "map (\<lambda>v. name_hint (var v)) iiv' =
           map (\<lambda>v. name_hint (var v)) iiv
           @ map (\<lambda>(iv, d). name_hint (var iv) @ ''_i'') (filter (\<lambda>(iv, d). has_inner d) (zip ivs ds))"
  using assms
proof (induction ivs arbitrary: i ds subst oiv ob iiv ib fresh)
  case Nil
  then show ?case by simp
next
  case (Cons iv ivs)
  from Cons.prems(1) obtain d ds' where ds: "ds = d # ds'"
    by (cases ds) auto
  from Cons.prems(1) obtain st1 where
    step: "DeriveBlockBinding_step ar pui reuse i iv d (subst, oiv, ob, iiv, ib, fresh) = Inr st1"
    and rest: "DeriveBlockBinding_loop ar pui reuse (Suc i) ivs ds' st1
                 = Inr (subst', oiv', ob', iiv', ib', fresh')"
    unfolding ds by (auto split: sum.splits)
  from DeriveBlockBinding_step_Inr[OF step] Cons.prems(2)
  obtain om im rst s1 o1 b1 f1 where d: "d = om # im # rst"
    and st1: "st1 = (s1, oiv @ [o1], b1,
            iiv @ (if is_one (mark_extent im) then []
                   else [IterVar (RangeFromExtent (mark_extent im))
                           (copy_with_suffix (var iv) ''_i'' (Suc fresh)) (iter_type iv)]),
            ib @ (if is_one (mark_extent im) then [] else [NormalizeIterMapToExpr ar (source im)]),
            f1)"
    by auto
  have hi: "has_inner d = (\<not> is_one (mark_extent im))"
    by (simp add: has_inner_def d)
  from Cons.IH[OF rest[unfolded st1]] Cons.prems(2)
  show ?case by (simp add: ds hi copy_with_suffix_def)
qed

lemma distinct_nth_notin_drop:
  "distinct (map f xs) \<Longrightarrow> k < length xs \<Longrightarrow> f (xs ! k) \<notin> f ` set (drop (Suc k) xs)"
proof -
  assume d: "distinct (map f xs)" and k: "k < length xs"
  have "map f xs = map f (take k xs) @ f (xs ! k) # map f (drop (Suc k) xs)"
    using k by (metis id_take_nth_drop list.simps(9) map_append)
  with d have "distinct (map f (take k xs) @ f (xs ! k) # map f (drop (Suc k) xs))" by simp
  then show ?thesis by auto
qed

text \<open>
  C2. \<^verbatim>\<open>DeriveBlockBinding\<close>, called with empty out-lists: for every original
  block iterator \<open>ivs ! i\<close> (the iterators being distinct variables) the substitution
  recorded in the returned map is the constant 0 when both extents are 1 and unit
  iterators are not preserved, the outer iterator alone when the inner extent is 1
  otherwise, the inner iterator alone when the inner extent is not 1 and the outer
  extent is 1, and \<open>outer * inner_extent + inner\<close> in the remaining case. The outer
  iterator is the \<open>i\<close>-th outer iterator, named after the original with suffix
  \<open>_o\<close>; the inner iterators are allocated exactly for the entries whose inner extent is
  not 1, in order and named with suffix \<open>_i\<close>.
\<close>

theorem DeriveBlockBinding_substitution:
  assumes "DeriveBlockBinding ar ivs division [] [] [] [] pui reuse fresh
             = Inr (subst, oiv, ob, iiv, ib, fresh')"
    and "distinct (map var ivs)"
    and "i < length ivs"
  shows "map_of subst (var (ivs ! i)) =
           Some (binding_substitution pui
                   (mark_extent (division ! i ! 0)) (mark_extent (division ! i ! 1))
                   (var (oiv ! i)) (var (iiv ! inner_index division i)))
       \<and> length oiv = length ivs
       \<and> name_hint (var (oiv ! i)) = name_hint (var (ivs ! i)) @ ''_o''
       \<and> (has_inner (division ! i) \<longrightarrow>
            name_hint (var (iiv ! inner_index division i)) = name_hint (var (ivs ! i)) @ ''_i'')
       \<and> map (\<lambda>v. name_hint (var v)) iiv =
           map (\<lambda>(iv, d). name_hint (var iv) @ ''_i'')
             (filter (\<lambda>(iv, d). has_inner d) (zip ivs division))"
proof -
  from assms(1) have loop:
    "DeriveBlockBinding_loop ar pui reuse 0 ivs division ([], [], [], [], [], fresh)
       = Inr (subst, oiv, ob, iiv, ib, fresh')"
    by (simp add: DeriveBlockBinding_def split: if_splits)
  note P = DeriveBlockBinding_loop_props[OF loop, simplified]
  note N = DeriveBlockBinding_loop_inner_names[OF loop, simplified]
  have nd: "var (ivs ! i) \<notin> var ` set (drop (Suc i) ivs)"
    using distinct_nth_notin_drop[OF assms(2) assms(3)] .
  show ?thesis using P nd assms(3) N by simp
qed

lemma ex_DeriveBlockBinding_j:
  "DeriveBlockBinding ex_Arith (iter_vars ex_block) ex_division_j [] [] [] [] False False 100
     = Inr ex_derived_j"
  by code_simp

theorem DeriveBlockBinding_substitution_witness:
  "DeriveBlockBinding ex_Arith (iter_vars ex_block) ex_division_j [] [] [] [] False False 100
     = Inr ex_derived_j
   \<and> distinct (map var (iter_vars ex_block))
   \<and> (1::nat) < length (iter_vars ex_block)
   \<and> map_of (fst ex_derived_j) ex_vj = Some (VarE (Var ''vj_i'' int32 102))"
proof -
  have d: "distinct (map var (iter_vars ex_block))"
    by (simp add: ex_block_def ex_vi_def ex_vj_def)
  have l: "(1::nat) < length (iter_vars ex_block)"
    by (simp add: ex_block_def)
  show ?thesis
    using DeriveBlockBinding_substitution[OF ex_DeriveBlockBinding_j[unfolded ex_derived_j_def] d l]
      ex_DeriveBlockBinding_j d l
    by (simp add: ex_derived_j_def ex_vi_def ex_vj_def)
qed

subsection \<open>C5: the error of an indivisible subspace\<close>

lemma SubspaceDivide_walk_outer:
  "fst (SubspaceDivide_walk p l ao False acc) = fst acc"
proof (induction p l ao "False" acc rule: SubspaceDivide_walk.induct)
  case (1 loop_sref as_outer acc)
  then show ?case by simp
next
  case (2 b par a loop_sref as_outer acc)
  then show ?case by simp
next
  case (3 loop par a loop_sref as_outer loops inner_vars outer_vars loop_var_domain)
  then show ?case by (simp add: Let_def)
qed

lemma SubspaceDivide_walk_reaches:
  "reaches p l \<Longrightarrow> stmt l = SRefFor loop \<Longrightarrow>
   fst (SubspaceDivide_walk p l False True (loops0, iv0, ov0, dom0)) \<noteq> [] \<and>
   last (fst (SubspaceDivide_walk p l False True (loops0, iv0, ov0, dom0))) = loop"
proof (induction p l arbitrary: loops0 iv0 ov0 dom0 rule: reaches.induct)
  case (1 l)
  then show ?case by simp
next
  case (2 b par a l)
  then show ?case by simp
next
  case (3 f par a l)
  show ?case
  proof (cases "a = sref_addr l")
    case True
    with 3 have "StmtSRef (SRefFor f) par a = l" by simp
    with 3 have "f = loop" by auto
    with True show ?thesis
      by (simp add: Let_def SubspaceDivide_walk_outer)
  next
    case False
    with 3 show ?thesis by (simp add: Let_def)
  qed
qed

text \<open>
  C5 (amended). When the subspace divider returns the empty division for the block under
  the loop that \<^verbatim>\<open>BlockizeImpl\<close> is called on, the call raises
  \<^verbatim>\<open>SubspaceNotDivisibleError\<close> carrying the module of the state. Its short message
  is \<open>ScheduleError: The bindings of the inner block can not be blockized.\<close> and its
  locations of interest are the inner block and the loop the call was made on, which is
  the last loop collected on the way up from the block, that is the outermost of the
  inner loops.
\<close>

theorem BlockizeImpl_SubspaceNotDivisible:
  assumes "stmt loop_sref = SRefFor loop"
    and "CheckGetSingleChildBlockRealizeOnSRefTree sch self loop_sref = Inr block_realize"
    and "map_of (stmt2ref self) (block_addr (block block_realize)) = Some block_sref"
    and "reaches (parent block_sref) loop_sref"
    and "snd (SubspaceDivide ar block_realize block_sref loop_sref preserve_unit_iters False) = Inr []"
  shows "BlockizeImpl sch ar self loop_sref preserve_unit_iters fresh =
           Inl (SubspaceNotDivisibleError (state_mod self) loop (block block_realize))
       \<and> FastErrorString (SubspaceNotDivisibleError (state_mod self) loop (block block_realize)) =
           ''ScheduleError: The bindings of the inner block can not be blockized.''
       \<and> LocationsOfInterest (SubspaceNotDivisibleError (state_mod self) loop (block block_realize)) =
           [SRefBlock (block block_realize), SRefFor loop]"
proof -
  obtain loops where sd:
    "SubspaceDivide ar block_realize block_sref loop_sref preserve_unit_iters False = (loops, Inr [])"
    using assms(5)
    by (cases "SubspaceDivide ar block_realize block_sref loop_sref preserve_unit_iters False") auto
  have "loops = fst (SubspaceDivide_walk (parent block_sref) loop_sref False True ([], [], [], []))"
    using sd by (auto simp add: SubspaceDivide_def Let_def split: prod.splits if_splits)
  with SubspaceDivide_walk_reaches[OF assms(4) assms(1)]
  have "loops \<noteq> []" "last loops = loop" by auto
  then show ?thesis
    using assms(1,2,3) sd by (simp add: BlockizeImpl_def)
qed

lemma ex_C5_hyps:
  "stmt (ex_sref_i ex_pred3) = SRefFor (ex_loop_i ex_pred3)"
  "CheckGetSingleChildBlockRealizeOnSRefTree (ex_Sched ex_pred3) (ex_state ex_pred3) (ex_sref_i ex_pred3)
     = Inr (ex_realize ex_pred3)"
  "map_of (stmt2ref (ex_state ex_pred3)) (block_addr (block (ex_realize ex_pred3)))
     = Some (ex_sref_block ex_pred3)"
  "reaches (parent (ex_sref_block ex_pred3)) (ex_sref_i ex_pred3)"
  "snd (SubspaceDivide ex_Arith (ex_realize ex_pred3) (ex_sref_block ex_pred3) (ex_sref_i ex_pred3)
          False False) = Inr []"
  by code_simp+

theorem BlockizeImpl_SubspaceNotDivisible_witness:
  "stmt (ex_sref_i ex_pred3) = SRefFor (ex_loop_i ex_pred3)
   \<and> reaches (parent (ex_sref_block ex_pred3)) (ex_sref_i ex_pred3)
   \<and> snd (SubspaceDivide ex_Arith (ex_realize ex_pred3) (ex_sref_block ex_pred3)
            (ex_sref_i ex_pred3) False False) = Inr []
   \<and> BlockizeImpl (ex_Sched ex_pred3) ex_Arith (ex_state ex_pred3) (ex_sref_i ex_pred3) False 100
       = Inl (SubspaceNotDivisibleError (IRModule 0) (ex_loop_i ex_pred3) ex_block)"
  using BlockizeImpl_SubspaceNotDivisible[OF ex_C5_hyps, of 100] ex_C5_hyps
  by (simp add: ex_state_def ex_realize_def)

text \<open>
  C5 as stated fails on the program with predicate \<open>i % 3 == 0\<close>, blockized at loop
  \<open>i\<close>: the bottommost inner loop is \<open>j\<close>, the error names loop \<open>i\<close>, and its short
  message starts with \<open>ScheduleError: \<close>.
\<close>

theorem BlockizeImpl_bottommost_loop_counterexample:
  "BlockizeImpl (ex_Sched ex_pred3) ex_Arith (ex_state ex_pred3) (ex_sref_i ex_pred3) False 100
       = Inl (SubspaceNotDivisibleError (IRModule 0) (ex_loop_i ex_pred3) ex_block)
   \<and> bottommost_inner_loop (ex_sref_block ex_pred3) = Some (SRefFor (ex_loop_j ex_pred3))
   \<and> SRefFor (ex_loop_j ex_pred3)
        \<notin> set (LocationsOfInterest
                 (SubspaceNotDivisibleError (IRModule 0) (ex_loop_i ex_pred3) ex_block))
   \<and> FastErrorString (SubspaceNotDivisibleError (IRModule 0) (ex_loop_i ex_pred3) ex_block)
        \<noteq> ''The bindings of the inner block can not be blockized.''"
  by code_simp

subsection \<open>C6: the reads of the inner block\<close>

lemma innermost_MakeLoopNest: "innermost (MakeLoopNest s loops) = innermost s"
  by (induction loops arbitrary: s) simp_all

lemma BlockizeImpl_Inr_build:
  assumes "BlockizeImpl sch ar self loop_sref preserve_unit_iters fresh = Inr r"
    and "CheckGetSingleChildBlockRealizeOnSRefTree sch self loop_sref = Inr block_realize"
    and "map_of (stmt2ref self) (block_addr (block block_realize)) = Some block_sref"
    and "SubspaceDivide ar block_realize block_sref loop_sref preserve_unit_iters False
           = (loops, Inr division)"
  shows "BlockizeImpl_build ar (block block_realize) loops division preserve_unit_iters fresh = Inr r"
  using assms
  by (cases "stmt loop_sref") (auto simp add: BlockizeImpl_def split: if_splits)

lemma BlockizeImpl_build_inner_reads:
  assumes "BlockizeImpl_build ar blk loops division preserve_unit_iters fresh = Inr r"
    and "DeriveBlockBinding ar (iter_vars blk) division [] [] [] [] preserve_unit_iters False fresh
             = Inr (sub, oivs, obs, iivs,
                    ibs, fresh1)"
    and "block_subst = BlockizeImpl_block_subst ar blk sub iivs"
  shows "\<exists>inner_realize.
           innermost (body (block (fst r))) = BlockRealizeS inner_realize
         \<and> iter_vars (block (fst r)) = oivs
         \<and> reads (block inner_realize) =
             (if init block_subst \<noteq> None \<and>
                 (\<exists>iter_var \<in> set oivs. iter_type iter_var = kCommReduce)
              then writes block_subst @ reads block_subst
              else reads block_subst)"
  using assms
  by (auto simp add: BlockizeImpl_build_def Let_def GenerateInner_def has_outer_reduction_def
        innermost_MakeLoopNest BlockRealize_ctor_def
      split: list.splits sum.splits prod.splits if_splits)

text \<open>
  C6. In a successful \<^verbatim>\<open>BlockizeImpl\<close> the body of the outer block is a loop nest
  around the inner block realize, the outer block has the derived outer iterators, and
  the reads of the inner block are the writes of the substituted block followed by its
  reads if the substituted block has an init and some outer iterator is a reduction
  iterator; otherwise they are the reads of the substituted block, unchanged.
\<close>

theorem BlockizeImpl_inner_reads:
  assumes "BlockizeImpl sch ar self loop_sref preserve_unit_iters fresh = Inr r"
    and "CheckGetSingleChildBlockRealizeOnSRefTree sch self loop_sref = Inr block_realize"
    and "map_of (stmt2ref self) (block_addr (block block_realize)) = Some block_sref"
    and "SubspaceDivide ar block_realize block_sref loop_sref preserve_unit_iters False
           = (loops, Inr division)"
    and "DeriveBlockBinding ar (iter_vars (block block_realize)) division [] [] [] []
           preserve_unit_iters False fresh
           = Inr (sub, oivs, obs, iivs,
                  ibs, fresh1)"
    and "block_subst = BlockizeImpl_block_subst ar (block block_realize) sub iivs"
  shows "\<exists>inner_realize.
           innermost (body (block (fst r))) = BlockRealizeS inner_realize
         \<and> iter_vars (block (fst r)) = oivs
         \<and> reads (block inner_realize) =
             (if init block_subst \<noteq> None \<and>
                 (\<exists>iter_var \<in> set oivs. iter_type iter_var = kCommReduce)
              then writes block_subst @ reads block_subst
              else reads block_subst)"
  using BlockizeImpl_build_inner_reads[OF BlockizeImpl_Inr_build[OF assms(1-4)] assms(5,6)] .

lemma ex_C6_hyps:
  "BlockizeImpl (ex_Sched ex_true) ex_Arith (ex_state ex_true) (ex_sref_i ex_true) False 100
     = Inr ex_blockize_i"
  "CheckGetSingleChildBlockRealizeOnSRefTree (ex_Sched ex_true) (ex_state ex_true) (ex_sref_i ex_true)
     = Inr (ex_realize ex_true)"
  "map_of (stmt2ref (ex_state ex_true)) (block_addr (block (ex_realize ex_true)))
     = Some (ex_sref_block ex_true)"
  "SubspaceDivide ex_Arith (ex_realize ex_true) (ex_sref_block ex_true) (ex_sref_i ex_true) False False
     = ([ex_loop_j ex_true, ex_loop_i ex_true], Inr ex_division_i)"
  "DeriveBlockBinding ex_Arith (iter_vars (block (ex_realize ex_true))) ex_division_i [] [] [] []
     False False 100 = Inr ex_derived_i"
  by code_simp+

lemma ex_C6_eval:
  "init (BlockizeImpl_block_subst ex_Arith ex_block (fst ex_derived_i) (fst (snd (snd (snd ex_derived_i))))) \<noteq> None"
  "map iter_type (fst (snd ex_derived_i)) = [kDataPar, kCommReduce]"
  "map (\<lambda>r. buffer_name (buffer r))
     (writes (BlockizeImpl_block_subst ex_Arith ex_block (fst ex_derived_i) (fst (snd (snd (snd ex_derived_i))))))
     = [''C'']"
  "map (\<lambda>r. buffer_name (buffer r))
     (reads (BlockizeImpl_block_subst ex_Arith ex_block (fst ex_derived_i) (fst (snd (snd (snd ex_derived_i))))))
     = [''A'']"
  by code_simp+

theorem BlockizeImpl_inner_reads_witness:
  "BlockizeImpl (ex_Sched ex_true) ex_Arith (ex_state ex_true) (ex_sref_i ex_true) False 100
     = Inr ex_blockize_i
   \<and> SubspaceDivide ex_Arith (ex_realize ex_true) (ex_sref_block ex_true) (ex_sref_i ex_true)
        False False = ([ex_loop_j ex_true, ex_loop_i ex_true], Inr ex_division_i)
   \<and> DeriveBlockBinding ex_Arith (iter_vars (block (ex_realize ex_true))) ex_division_i [] [] [] []
        False False 100 = Inr ex_derived_i
   \<and> (\<exists>inner_realize.
         innermost (body (block (fst ex_blockize_i))) = BlockRealizeS inner_realize
       \<and> map iter_type (iter_vars (block (fst ex_blockize_i))) = [kDataPar, kCommReduce]
       \<and> map (\<lambda>r. buffer_name (buffer r)) (reads (block inner_realize)) = [''C'', ''A''])"
proof -
  note h = ex_C6_hyps(1-4) ex_C6_hyps(5)[unfolded ex_derived_i_def]
  note e = ex_C6_eval[unfolded ex_derived_i_def fst_conv snd_conv]
  have b: "block (ex_realize ex_true) = ex_block" by (simp add: ex_realize_def)
  show ?thesis
    using BlockizeImpl_inner_reads[OF h refl] e ex_C6_hyps
    unfolding b by auto
qed

subsection \<open>C7: the outer init subtree\<close>

lemma innermost_Substitute:
  "innermost (Substitute_Stmt simp sub s) = Substitute_Stmt simp sub (innermost s)"
  by (induction s rule: innermost.induct) simp_all

lemma loop_nest_Substitute:
  "map (\<lambda>l. (name_hint (loop_var l), for_addr l)) (loop_nest (Substitute_Stmt simp sub s))
     = map (\<lambda>l. (name_hint (loop_var l), for_addr l)) (loop_nest s)"
  by (induction s rule: loop_nest.induct) simp_all

lemma GenerateOuterInit_iters_props:
  assumes "GenerateOuterInit_iters block_init olds vals (sm, ivs, ivals, fresh) = (sm', ivs', ivals', fresh')"
  shows "ivals' = ivals @ map snd (filter (\<lambda>(iv, v). init_iter_selected block_init iv) (zip olds vals))
       \<and> map (\<lambda>iv. (name_hint (var iv), iter_type iv)) ivs' =
           map (\<lambda>iv. (name_hint (var iv), iter_type iv)) ivs
           @ map (\<lambda>(iv, v). (name_hint (var iv) @ ''_init'', iter_type iv))
               (filter (\<lambda>(iv, v). init_iter_selected block_init iv) (zip olds vals))"
  using assms
proof (induction block_init olds vals "(sm, ivs, ivals, fresh)" arbitrary: sm ivs ivals fresh
       rule: GenerateOuterInit_iters.induct)
  case (1 block_init old_iter_var olds iter_value vals subst_map ivs ivals fresh)
  show ?case
  proof (cases "init_iter_selected block_init old_iter_var")
    case True
    then have c: "iter_type old_iter_var = kDataPar \<and> UsesVar1_Stmt block_init (var old_iter_var)"
      by (simp add: init_iter_selected_def)
    from "1.prems" c have
      "GenerateOuterInit_iters block_init olds vals
         (AList.update (var old_iter_var) (copy_with_suffix (var old_iter_var) ''_init'' fresh) subst_map,
          ivs @ [IterVar (dom_iv old_iter_var) (copy_with_suffix (var old_iter_var) ''_init'' fresh)
                   (iter_type old_iter_var)],
          ivals @ [iter_value], Suc fresh) = (sm', ivs', ivals', fresh')"
      by (simp add: Let_def)
    from "1.hyps"(1)[OF c refl refl this] True show ?thesis
      by (simp add: copy_with_suffix_def)
  next
    case False
    then have c: "\<not> (iter_type old_iter_var = kDataPar \<and> UsesVar1_Stmt block_init (var old_iter_var))"
      by (simp add: init_iter_selected_def)
    from "1.prems" c have
      "GenerateOuterInit_iters block_init olds vals (subst_map, ivs, ivals, fresh) = (sm', ivs', ivals', fresh')"
      by auto
    from "1.hyps"(2)[OF c this] False show ?thesis by simp
  qed
qed simp_all

lemma GenerateOuterInit_loops_props:
  assumes "GenerateOuterInit_loops ivals loops (s, sm, fresh) = (s', sm', fresh')"
  shows "innermost s' = innermost s
       \<and> map (\<lambda>l. (name_hint (loop_var l), for_addr l)) (loop_nest s') =
           rev (map (\<lambda>l. (name_hint (loop_var l), for_addr l)) (filter (init_loop_selected ivals) loops))
           @ map (\<lambda>l. (name_hint (loop_var l), for_addr l)) (loop_nest s)"
  using assms
proof (induction loops arbitrary: s sm fresh)
  case Nil
  then show ?case by simp
next
  case (Cons loop loops)
  show ?case
  proof (cases "init_loop_selected ivals loop")
    case True
    then have c: "\<exists>init_binding \<in> set ivals. UsesVar1 init_binding (loop_var loop)"
      by (simp add: init_loop_selected_def)
    from Cons.prems c have
      "GenerateOuterInit_loops ivals loops
         (ForS (ForNode (copy_with_suffix (loop_var loop) [] fresh) (for_min loop) (for_extent loop)
                  (kind loop) s (for_addr loop)),
          AList.update (loop_var loop) (copy_with_suffix (loop_var loop) [] fresh) sm, Suc fresh)
       = (s', sm', fresh')"
      by (simp add: Let_def)
    from Cons.IH[OF this] True show ?thesis
      by (simp add: copy_with_suffix_def)
  next
    case False
    then have c: "\<not> (\<exists>init_binding \<in> set ivals. UsesVar1 init_binding (loop_var loop))"
      by (simp add: init_loop_selected_def)
    from Cons.prems c have "GenerateOuterInit_loops ivals loops (s, sm, fresh) = (s', sm', fresh')"
      by simp
    from Cons.IH[OF this] False show ?thesis by simp
  qed
qed

lemma filter_zip_fst:
  "length xs = length ys \<Longrightarrow>
   map (\<lambda>(x, y). f x) (filter (\<lambda>(x, y). P x) (zip xs ys)) = map f (filter P xs)"
  by (induction xs ys rule: list_induct2) simp_all

text \<open>
  C7. The subtree that \<^verbatim>\<open>GenerateOuterInit\<close> returns is a loop nest around one block
  realize, the init block realize. The iterators of the init block are, in order, copies
  (named with suffix \<open>_init\<close>, same iterator type) of exactly those iterators of the
  inner block that are data parallel and whose variable is referenced by the init body.
  The loops of the nest are, from the innermost outwards, copies (same name, same
  original loop) of exactly those inner loops whose loop variable appears in at least
  one init binding.
\<close>

theorem GenerateOuterInit_well_formed:
  assumes "GenerateOuterInit block_init inner_realize loops block_name fresh = Inr (s, fresh')"
  shows "\<exists>init_realize.
           innermost s = BlockRealizeS init_realize
         \<and> map (\<lambda>iv. (name_hint (var iv), iter_type iv)) (iter_vars (block init_realize)) =
             map (\<lambda>iv. (name_hint (var iv) @ ''_init'', iter_type iv))
               (filter (init_iter_selected block_init) (iter_vars (block inner_realize)))
         \<and> map (\<lambda>l. (name_hint (loop_var l), for_addr l)) (loop_nest s) =
             rev (map (\<lambda>l. (name_hint (loop_var l), for_addr l))
                    (filter (init_loop_selected (init_bindings block_init inner_realize)) loops))"
proof -
  from assms have len: "length (iter_vars (block inner_realize)) = length (iter_values inner_realize)"
    by (auto simp add: GenerateOuterInit_def Let_def split: if_splits)
  obtain sm ivs ivals fresh1 where it:
    "GenerateOuterInit_iters block_init (iter_vars (block inner_realize))
       (iter_values inner_realize) ([], [], [], fresh) = (sm, ivs, ivals, fresh1)"
    by (cases "GenerateOuterInit_iters block_init (iter_vars (block inner_realize))
       (iter_values inner_realize) ([], [], [], fresh)") auto
  let ?r = "BlockRealize ivals (predicate inner_realize)
              (Block ivs [] (writes (block inner_realize)) block_name block_init None [] [] [] fresh1)"
  obtain s1 sm1 fresh2 where lp:
    "GenerateOuterInit_loops ivals loops (BlockRealizeS ?r, sm, Suc fresh1) = (s1, sm1, fresh2)"
    by (cases "GenerateOuterInit_loops ivals loops (BlockRealizeS ?r, sm, Suc fresh1)") auto
  from assms len it lp have s: "s = tir_Substitute s1 sm1"
    by (simp add: GenerateOuterInit_def Let_def BlockRealize_ctor_def split: if_splits)
  note I = GenerateOuterInit_iters_props[OF it, simplified]
  note L = GenerateOuterInit_loops_props[OF lp, simplified]
  have ivals: "ivals = init_bindings block_init inner_realize"
    using I by (simp add: init_bindings_def)
  have inner: "innermost s = BlockRealizeS (Substitute_BlockRealize (\<lambda>e. e)
                                (map (\<lambda>(k, v). (k, VarE v)) sm1) ?r)"
    using L by (simp add: s tir_Substitute_def innermost_Substitute)
  have ivs: "map (\<lambda>iv. (name_hint (var iv), iter_type iv)) ivs =
      map (\<lambda>iv. (name_hint (var iv) @ ''_init'', iter_type iv))
               (filter (init_iter_selected block_init) (iter_vars (block inner_realize)))"
    using I filter_zip_fst[OF len, of "\<lambda>iv. (name_hint (var iv) @ ''_init'', iter_type iv)"
                              "init_iter_selected block_init"]
    by simp
  have nest: "map (\<lambda>l. (name_hint (loop_var l), for_addr l)) (loop_nest s) =
             rev (map (\<lambda>l. (name_hint (loop_var l), for_addr l))
                    (filter (init_loop_selected (init_bindings block_init inner_realize)) loops))"
    using L by (simp add: s tir_Substitute_def loop_nest_Substitute ivals)
  show ?thesis
    using inner ivs nest by (simp add: Substitute_IterVar_def comp_def)
qed

lemma ex_C7_hyp:
  "GenerateOuterInit (the (init ex_block)) (ex_realize ex_true)
     [ex_loop_j ex_true, ex_loop_i ex_true] ''B_init'' 100 = Inr (ex_init_tree, 103)"
  by code_simp

lemma ex_C7_eval:
  "map (\<lambda>iv. (name_hint (var iv) @ ''_init'', iter_type iv))
     (filter (init_iter_selected (the (init ex_block))) (iter_vars (block (ex_realize ex_true))))
     = [(''vi_init'', kDataPar)]"
  "rev (map (\<lambda>l. (name_hint (loop_var l), for_addr l))
          (filter (init_loop_selected (init_bindings (the (init ex_block)) (ex_realize ex_true)))
             [ex_loop_j ex_true, ex_loop_i ex_true]))
     = [(''i'', 10)]"
  by code_simp+

theorem GenerateOuterInit_well_formed_witness:
  "GenerateOuterInit (the (init ex_block)) (ex_realize ex_true)
     [ex_loop_j ex_true, ex_loop_i ex_true] ''B_init'' 100 = Inr (ex_init_tree, 103)
   \<and> (\<exists>init_realize.
         innermost ex_init_tree = BlockRealizeS init_realize
       \<and> map (\<lambda>iv. (name_hint (var iv), iter_type iv)) (iter_vars (block init_realize))
           = [(''vi_init'', kDataPar)]
       \<and> map (\<lambda>l. (name_hint (loop_var l), for_addr l)) (loop_nest ex_init_tree) = [(''i'', 10)])"
  using GenerateOuterInit_well_formed[OF ex_C7_hyp] ex_C7_hyp
  unfolding ex_C7_eval by auto

subsection \<open>C10: the affine-binding flag of the scope root\<close>






subsection \<open>C9: the predicate of the outer block realize of the group form\<close>

lemma make_outer_predicate:
  "make_outer ar st = Inr (b, st') \<Longrightarrow>
     predicate b = IntImm DataType_Bool 1 \<and> blockized st' = Some b"
  by (auto simp add: make_outer_def Let_def make_const_def BlockRealize_ctor_def
      split: sum.splits if_splits)

lemma RewriteSeq_step_ok:
  "RewriteSeq_step ar n it v st locals = Inr (st', locals') \<Longrightarrow> outer_pred_ok st \<Longrightarrow>
     outer_pred_ok st'"
  by (auto simp add: RewriteSeq_step_def Let_def outer_pred_ok_def
      dest!: make_outer_predicate split: prod.splits if_splits sum.splits)

lemma target_iters_blockized: "blockized (target_iters st ivs) = blockized st"
  by (induction ivs arbitrary: st) (simp_all add: Let_def)

lemma target_block_blockized:
  "target_block ar st b = Inr (b', st') \<Longrightarrow> blockized st' = blockized st"
  by (auto simp add: target_block_def Let_def target_iters_blockized
      split: option.splits sum.splits)

lemma realize_target_blockized:
  "realize_target st r b = Inr (s, st') \<Longrightarrow> blockized st' = blockized st"
  by (auto simp add: realize_target_def Let_def split: if_splits sum.splits)

lemma fold_sum_invariant:
  assumes "\<And>x r. x \<in> set xs \<Longrightarrow> J r \<Longrightarrow> J (f x r)" and "J r0"
  shows "J (fold f xs r0)"
  using assms by (induction xs arbitrary: r0) simp_all

lemma BlockizeBlocks_outer_pred_ok:
  shows "outer_pred_ok (st :: 's BlockizeBlocks) \<Longrightarrow>
           BlockizeBlocks_VisitStmt ar st s = Inr (r, st') \<Longrightarrow> outer_pred_ok st'"
    and "outer_pred_ok (st :: 's BlockizeBlocks) \<Longrightarrow>
           BlockizeBlocks_For ar st loop = Inr (r, st') \<Longrightarrow> outer_pred_ok st'"
    and "outer_pred_ok (st :: 's BlockizeBlocks) \<Longrightarrow>
           BlockizeBlocks_Block ar st b = Inr (rb, st') \<Longrightarrow> outer_pred_ok st'"
    and "outer_pred_ok (st :: 's BlockizeBlocks) \<Longrightarrow>
           RewriteSeq ar st s = Inr (r, st') \<Longrightarrow> outer_pred_ok st'"
proof (induction ar st s and ar st loop and ar st b and ar st s
       arbitrary: r st' and r st' and rb st' and r st'
       rule: BlockizeBlocks_VisitStmt_BlockizeBlocks_For_BlockizeBlocks_Block_RewriteSeq.induct)
  case (1 ar st loop)
  then show ?case by simp
next
  case (2 ar st b)
  then show ?case by (auto split: sum.splits)
next
  case (3 ar st vs pr b)
  from "3.prems"(2) obtain block_subst st1 where
    b: "BlockizeBlocks_Block ar (st\<lparr>inner_iter_vars := Array_clear (inner_iter_vars st)\<rparr>) b
          = Inr (block_subst, st1)"
    and t: "realize_target st1 (BlockRealize vs pr b) block_subst = Inr (r, st')"
    by (auto split: sum.splits)
  have "outer_pred_ok (st\<lparr>inner_iter_vars := Array_clear (inner_iter_vars st)\<rparr>)"
    using "3.prems"(1) by (simp add: outer_pred_ok_def)
  from "3.IH"[OF this b] have "outer_pred_ok st1" .
  with realize_target_blockized[OF t] show ?case by (simp add: outer_pred_ok_def)
next
  case (4 ar st ss)
  let ?f = "\<lambda>s r. case r of
                          Inl e \<Rightarrow> Inl e
                        | Inr (acc, st') \<Rightarrow>
                            (case BlockizeBlocks_VisitStmt ar st' s of
                               Inl e \<Rightarrow> Inl e
                             | Inr (s', st'') \<Rightarrow> Inr (acc @ [s'], st''))"
  let ?J = "\<lambda>r :: error + Stmt list \<times> 's BlockizeBlocks.
              case r of Inl e \<Rightarrow> True | Inr (acc, st1) \<Rightarrow> outer_pred_ok st1"
  have "?J (fold ?f ss (Inr ([], st)))"
  proof (rule fold_sum_invariant)
    show "?J (Inr ([], st))" using "4.prems"(1) by simp
  next
    fix x r assume x: "x \<in> set ss" and j: "?J r"
    show "?J (?f x r)"
      using j "4.IH"[OF x] by (auto split: sum.splits prod.splits)
  qed
  with "4.prems"(2) show ?case by (auto split: sum.splits prod.splits)
next
  case (5 ar st c t e)
  from "5.prems"(2) obtain stmt_then st1 where
    t: "BlockizeBlocks_VisitStmt ar st t = Inr (stmt_then, st1)"
    by (auto split: sum.splits)
  from "5.IH"(1)[OF "5.prems"(1) t] have ok1: "outer_pred_ok st1" .
  show ?case
  proof (cases e)
    case None
    with "5.prems"(2) t ok1 show ?thesis by auto
  next
    case (Some x2)
    with "5.prems"(2) t obtain s' where
      e: "BlockizeBlocks_VisitStmt ar st1 x2 = Inr (s', st')"
      by (auto split: sum.splits)
    from "5.IH"(2)[OF t refl Some ok1 e] show ?thesis .
  qed
next
  case (6 ar st b v idx)
  then show ?case by simp
next
  case (7 ar st e)
  then show ?case by simp
next
  case (8 ar st lv mn ex k bd a)
  have f: "outer_pred_ok (st\<lparr>first_in := True\<rparr>)"
    using "8.prems"(1) by (simp add: outer_pred_ok_def)
  show ?case
  proof (cases "points_to_For (stmt (lca st)) (ForNode lv mn ex k bd a)")
    case True
    with "8.prems"(2) obtain bd' where "RewriteSeq ar (st\<lparr>first_in := True\<rparr>) bd = Inr (bd', st')"
      by (auto split: sum.splits)
    from "8.IH"(1)[OF True f this] show ?thesis .
  next
    case False
    show ?thesis
    proof (cases "loop_var_subst st \<noteq> []")
      case True
      with False "8.prems"(2) obtain lv' bd' where
        "substitute_loop_var lv (loop_var_subst st) = Inr lv'"
        "BlockizeBlocks_VisitStmt ar st bd = Inr (bd', st')"
        by (auto split: sum.splits)
      from "8.IH"(2)[OF False True this(1) "8.prems"(1) this(2)] show ?thesis .
    next
      case F2: False
      with False "8.prems"(2) obtain bd' where
        "BlockizeBlocks_VisitStmt ar st bd = Inr (bd', st')"
        by (auto split: sum.splits)
      from "8.IH"(3)[OF False F2 "8.prems"(1) this] show ?thesis .
    qed
  qed
next
  case (9 ar st ivs rs ws nm bd ini al mb an a)
  have f: "outer_pred_ok (st\<lparr>first_in := True\<rparr>)"
    using "9.prems"(1) by (simp add: outer_pred_ok_def)
  show ?case
  proof (cases "points_to_Block (stmt (lca st)) (Block ivs rs ws nm bd ini al mb an a)")
    case True
    with "9.prems"(2) obtain bd' where "RewriteSeq ar (st\<lparr>first_in := True\<rparr>) bd = Inr (bd', st')"
      by (auto split: sum.splits)
    from "9.IH"[OF True f this] show ?thesis .
  next
    case False
    with "9.prems" show ?thesis
      by (auto simp add: outer_pred_ok_def dest!: target_block_blockized split: if_splits)
  qed
next
  case (10 ar st ss)
  let ?f = "\<lambda>it r. case r of
                           Inl e \<Rightarrow> Inl e
                         | Inr (st', locals) \<Rightarrow>
                             (case BlockizeBlocks_VisitStmt ar (st'\<lparr>target_in := False\<rparr>) it of
                                Inl e \<Rightarrow> Inl e
                              | Inr (visited, st'') \<Rightarrow>
                                  RewriteSeq_step ar (length ss) it visited st'' locals)"
  let ?J = "\<lambda>r :: error + 's BlockizeBlocks \<times> RewriteSeq_locals.
              case r of Inl e \<Rightarrow> True | Inr (st1, locals) \<Rightarrow> outer_pred_ok st1"
  have "?J (fold ?f ss (Inr (st, (- 1, 0, - 1, 0, []))))"
  proof (rule fold_sum_invariant)
    show "?J (Inr (st, (- 1, 0, - 1, 0, [])))" using "10.prems"(1) by simp
  next
    fix x r assume x: "x \<in> set ss" and j: "?J r"
    show "?J (?f x r)"
    proof (cases r)
      case (Inl e)
      then show ?thesis by simp
    next
      case (Inr p)
      obtain st1 locals where p: "p = (st1, locals)" by (cases p)
      have ok: "outer_pred_ok (st1\<lparr>target_in := False\<rparr>)"
        using j Inr p by (simp add: outer_pred_ok_def)
      show ?thesis
      proof (cases "BlockizeBlocks_VisitStmt ar (st1\<lparr>target_in := False\<rparr>) x")
        case (Inl e)
        with Inr p show ?thesis by simp
      next
        case (Inr q)
        obtain visited st2 where q: "q = (visited, st2)" by (cases q)
        from "10.IH"[OF x ok Inr[unfolded q]] have ok2: "outer_pred_ok st2" .
        show ?thesis
        proof (cases "RewriteSeq_step ar (length ss) x visited st2 locals")
          case (Inl e)
          with \<open>r = Inr p\<close> p Inr q show ?thesis by simp
        next
          case R: (Inr w)
          obtain st3 l3 where w: "w = (st3, l3)" by (cases w)
          from RewriteSeq_step_ok[OF R[unfolded w] ok2] have "outer_pred_ok st3" .
          with \<open>r = Inr p\<close> p Inr q R w show ?thesis by simp
        qed
      qed
    qed
  qed
  with "10.prems"(2) show ?case by (auto split: sum.splits prod.splits)
qed simp_all

text \<open>
  C9. The outer block realize that \<^verbatim>\<open>BlockizeBlocks::Rewrite\<close> hands back through
  \<open>blockized\<close>, which is the one it puts into the rewritten sequence, has the boolean
  constant true as its predicate, whether its iterators were collected above the lca or
  the dummy unit iterator was synthesized.
\<close>

theorem Rewrite_outer_predicate:
  assumes "Rewrite sch ar self block_srefs lca_sref next = Inr (new_lca, rewriter)"
    and "blockized rewriter = Some outer"
  shows "predicate outer = make_const DataType_Bool 1"
proof -
  from assms(1) obtain st0 where
    n: "BlockizeBlocks_new sch ar self block_srefs lca_sref next = Inr st0"
    and v: "BlockizeBlocks_VisitStmt ar st0 (SRefStmt_Stmt (stmt lca_sref)) = Inr (new_lca, rewriter)"
    by (auto simp add: Rewrite_def split: sum.splits)
  from n have "blockized st0 = None"
    by (auto simp add: BlockizeBlocks_new_def split: list.splits sum.splits)
  then have "outer_pred_ok st0" by (simp add: outer_pred_ok_def)
  from BlockizeBlocks_outer_pred_ok(1)[OF this v] assms(2)
  show ?thesis by (simp add: outer_pred_ok_def make_const_def)
qed

lemma ex2_Rewrite:
  "Rewrite (ex2_Sched ex2_sref_root) ex_Arith ex2_state [ex2_sref_B1, ex2_sref_B2] ex2_sref_i 200
     = Inr (fst ex2_rewrite, snd ex2_rewrite)"
  "blockized (snd ex2_rewrite) = Some ex2_outer"
  by code_simp+

theorem Rewrite_outer_predicate_witness:
  "Rewrite (ex2_Sched ex2_sref_root) ex_Arith ex2_state [ex2_sref_B1, ex2_sref_B2] ex2_sref_i 200
     = Inr (fst ex2_rewrite, snd ex2_rewrite)
   \<and> blockized (snd ex2_rewrite) = Some ex2_outer
   \<and> predicate ex2_outer = IntImm DataType_Bool 1"
  using Rewrite_outer_predicate[OF ex2_Rewrite] ex2_Rewrite
  by (simp add: make_const_def)

subsection \<open>Tensorize\<close>

lemma fold_max_Max:
  "fold (\<lambda>r acc. max acc (f r)) xs (a::int) = Max (insert a (f ` set xs))"
proof (induction xs arbitrary: a)
  case Nil
  then show ?case by simp
next
  case (Cons x xs)
  have "Max (insert (max a (f x)) (f ` set xs)) = Max (insert a (insert (f x) (f ` set xs)))"
    by (cases "set xs = {}") (auto simp add: max.assoc max.commute max.left_commute)
  with Cons show ?case by simp
qed

lemma f_update_max_Max:
  "f_update_max_dtype_bits_from_region a brs =
     Max (insert a ((\<lambda>r. int (bits (dtype (range_min r)))) ` set (concat (map region brs))))"
proof (induction brs arbitrary: a)
  case Nil
  then show ?case by (simp add: f_update_max_dtype_bits_from_region_def)
next
  case (Cons br brs)
  let ?g = "\<lambda>r. int (bits (dtype (range_min r)))"
  have "f_update_max_dtype_bits_from_region a (br # brs) =
          f_update_max_dtype_bits_from_region (fold (\<lambda>r acc. max acc (?g r)) (region br) a) brs"
    by (simp add: f_update_max_dtype_bits_from_region_def)
  also have "\<dots> = Max (insert (Max (insert a (?g ` set (region br))))
                        (?g ` set (concat (map region brs))))"
    by (simp add: Cons.IH fold_max_Max)
  also have "\<dots> = Max (insert a (?g ` set (region br) \<union> ?g ` set (concat (map region brs))))"
  proof -
    have f1: "finite (insert a (?g ` set (region br)))" by simp
    have f2: "finite (?g ` set (concat (map region brs)))" by simp
    show ?thesis
    proof (cases "?g ` set (concat (map region brs)) = {}")
      case True
      then show ?thesis by simp
    next
      case False
      have "Max (insert a (?g ` set (region br)) \<union> ?g ` set (concat (map region brs)))
              = max (Max (insert a (?g ` set (region br)))) (Max (?g ` set (concat (map region brs))))"
        using Max_Un[OF f1 _ f2 False] by simp
      moreover have "Max (insert (Max (insert a (?g ` set (region br))))
                        (?g ` set (concat (map region brs))))
              = max (Max (insert a (?g ` set (region br)))) (Max (?g ` set (concat (map region brs))))"
        using Max_insert[OF f2 False] by simp
      ultimately show ?thesis by simp
    qed
  qed
  finally show ?case by (simp add: image_Un)
qed

lemma index_dtype_bits_Max:
  "index_dtype_bits blk =
     Max (insert (- 1) ((\<lambda>r. int (bits (dtype (range_min r)))) ` set (region_bounds blk)))"
proof -
  let ?g = "\<lambda>r. int (bits (dtype (range_min r)))"
  have "index_dtype_bits blk =
     Max (insert (Max (insert (- 1) (?g ` set (concat (map region (reads blk))))))
            (?g ` set (concat (map region (writes blk)))))"
    by (simp add: index_dtype_bits_def f_update_max_Max)
  also have "\<dots> = Max (insert (- 1) (?g ` set (concat (map region (reads blk)))
                                  \<union> ?g ` set (concat (map region (writes blk)))))"
  proof (cases "?g ` set (concat (map region (writes blk))) = {}")
    case True
    then show ?thesis by simp
  next
    case False
    have f1: "finite (insert (- 1) (?g ` set (concat (map region (reads blk)))))" by simp
    have f2: "finite (?g ` set (concat (map region (writes blk))))" by simp
    from Max_Un[OF f1 _ f2 False] Max_insert[OF f2 False]
    show ?thesis by simp
  qed
  finally show ?thesis by (simp add: region_bounds_def image_Un)
qed

lemma le_fold_max: "(k::nat) \<in> set xs \<Longrightarrow> k \<le> fold max xs a"
proof (induction xs arbitrary: a)
  case Nil
  then show ?case by simp
next
  case (Cons x xs)
  have mono: "\<And>b c. (b::nat) \<le> c \<Longrightarrow> fold max xs b \<le> fold max xs c"
  proof -
    fix b c :: nat assume "b \<le> c"
    then show "fold max xs b \<le> fold max xs c"
      by (induction xs arbitrary: b c) (simp_all add: max.mono)
  qed
  have ge: "\<And>b. b \<le> fold max xs b"
  proof -
    fix b :: nat
    show "b \<le> fold max xs b"
    proof (induction xs arbitrary: b)
      case Nil
      then show ?case by simp
    next
      case (Cons y ys)
      have "b \<le> max y b" by simp
      also have "\<dots> \<le> fold max ys (max y b)" by (rule Cons.IH)
      finally show ?case by simp
    qed
  qed
  show ?case
  proof (cases "k = x")
    case True
    have "x \<le> max x a" by simp
    also have "\<dots> \<le> fold max xs (max x a)" by (rule ge)
    finally show ?thesis using True by simp
  next
    case False
    with Cons.prems have "k \<in> set xs" by simp
    from Cons.IH[OF this] show ?thesis by simp
  qed
qed

lemma fresh_ref_new: "fresh_ref store \<notin> fst ` set store"
proof
  assume "fresh_ref store \<in> fst ` set store"
  then have "fresh_ref store \<in> set (map fst store)" by simp
  from le_fold_max[OF this, of 0] show False by (simp add: fresh_ref_def)
qed

lemma map_of_append_new:
  "k \<in> fst ` set m \<Longrightarrow> map_of (m @ [(r, v)]) k = map_of m k"
  by (cases "map_of m k") (auto simp add: map_add_def map_of_eq_None_iff)

lemma Tensorize_normalize_Inr:
  assumes "Tensorize_normalize ops store intrin block_realize = Inr (ref, store')"
    and "map_of store (impl intrin) = Some registered_impl"
  shows "ref = fresh_ref store
       \<and> 0 < index_dtype_bits (block block_realize)
       \<and> map_of store' ref =
           Some (IndexDataTypeNormalizer_Rewrite ops
                   (DataType_Int (index_dtype_bits (block block_realize)))
                   (LoadJSON_SaveJSON ops registered_impl))
       \<and> (\<forall>k \<in> fst ` set store. map_of store' k = map_of store k)"
proof -
  let ?r = "fresh_ref store"
  let ?s1 = "store @ [(?r, LoadJSON_SaveJSON ops registered_impl)]"
  have none: "map_of store ?r = None"
    using fresh_ref_new[of store] by (simp add: map_of_eq_None_iff)
  have at: "map_of ?s1 ?r = Some (LoadJSON_SaveJSON ops registered_impl)"
    using none by (simp add: map_add_def)
  from assms have pos: "0 < index_dtype_bits (block block_realize)"
    and ref: "ref = ?r"
    and st: "store' = AList.update ?r
               (IndexDataTypeNormalizer_Rewrite ops
                  (DataType_Int (index_dtype_bits (block block_realize)))
                  (LoadJSON_SaveJSON ops registered_impl)) ?s1"
    using at
    by (auto simp add: Tensorize_normalize_def DeepCopy_def Rewrite_in_place_def
        split: if_splits sum.splits option.splits)
  have keep: "\<forall>k \<in> fst ` set store. map_of store' k = map_of store k"
  proof
    fix k assume k: "k \<in> fst ` set store"
    then have "k \<noteq> ?r" using fresh_ref_new[of store] by blast
    then have "map_of store' k = map_of ?s1 k" by (simp add: st update_conv')
    also have "\<dots> = map_of store k" using map_of_append_new[OF k] .
    finally show "map_of store' k = map_of store k" .
  qed
  show ?thesis using pos ref keep by (simp add: st update_conv')
qed




lemma Tensorize_Inr:
  assumes "Tensorize sch ar ops self store sref intrin preserve_unit_iters next
             = Inr (self', store', next')"
  obtains block_realize old_block new_realize self1 where
    "Tensorize_obtain sch ar self sref preserve_unit_iters next
       = Inr (block_realize, old_block, next')"
    "Tensorize_rewrite ops (state_mod self) store intrin block_realize = Inr (new_realize, store')"
    "Tensorize_install sch self sref old_block new_realize = Inr self1"
  using assms
  by (auto simp add: Tensorize_def split: sum.splits option.splits SRefStmt.splits)

lemma Tensorize_rewrite_Inr:
  assumes "Tensorize_rewrite ops m store intrin block_realize = Inr (new_realize, store')"
  obtains intrin_desc impl_ref intrin_impl rhs_buffer_map buffer_indices impl2desc impl2cur
    impl_realize match_buffer_regions where
    "map_of store (desc intrin) = Some intrin_desc"
    "Tensorize_normalize ops store intrin block_realize = Inr (impl_ref, store')"
    "map_of store' impl_ref = Some intrin_impl"
    "TensorizeComparator_VisitStmt ops m block_realize (func_body intrin_desc)
       = Inr (rhs_buffer_map, buffer_indices)"
    "Tensorize_impl2desc intrin_desc intrin_impl (params intrin_desc) (params intrin_impl) []
       = Inr impl2desc"
    "Tensorize_impl2cur rhs_buffer_map impl2desc [] = Inr impl2cur"
    "func_body intrin_impl = BlockRealizeS impl_realize"
    "Tensorize_match_buffers ops intrin_impl impl2cur (Tensorize_impl2region (block impl_realize))
       buffer_indices (params intrin_impl) = Inr match_buffer_regions"
    "iter_values new_realize = iter_values block_realize"
    "iter_vars (block new_realize) = iter_vars (block block_realize)"
    "body (block new_realize) = body (block impl_realize)"
    "match_buffers (block new_realize) = match_buffer_regions"
  using assms
  by (auto simp add: Tensorize_rewrite_def Let_def
      split: sum.splits option.splits if_splits Stmt.splits)


subsection \<open>C8: the index width of Tensorize\<close>


lemma max_bound_bits_empty:
  "region_bounds blk = [] \<Longrightarrow> max_bound_bits blk = - 1"
  by (simp add: max_bound_bits_def)

text \<open>
  C8. Let \<^verbatim>\<open>Tensorize\<close> have obtained the block realize to match, and let the registry
  hold the description and the implementation of the intrinsic. The index width that
  the scan computes is the maximum of the bit widths of the types of the region bounds
  (the range minima) of the block's reads and writes, and \<open>-1\<close> when there is none.
  When the scan finds no bound, and whenever the width is not positive,
  \<^verbatim>\<open>Tensorize\<close> fails with the fatal error of the check
  \<^verbatim>\<open>index_dtype_bits > 0\<close>. When \<^verbatim>\<open>Tensorize\<close> succeeds, the width is positive;
  the store it leaves holds, at a reference that is new to the store, the rewrite at the
  integer type of that width of a copy of the registered implementation; every
  reference of the old store, the registered implementation among them, holds what it
  held before; and the block realize that \<^verbatim>\<open>Tensorize\<close> installs has the body of
  the block of that rewritten copy.
\<close>

theorem Tensorize_index_width:
  assumes "Tensorize_obtain sch ar self sref preserve_unit_iters next
             = Inr (block_realize, old_block, next')"
    and "map_of store (desc intrin) = Some intrin_desc"
    and "map_of store (impl intrin) = Some registered_impl"
  shows "index_dtype_bits (block block_realize) = max_bound_bits (block block_realize)
       \<and> (region_bounds (block block_realize) = [] \<longrightarrow>
            Tensorize sch ar ops self store sref intrin preserve_unit_iters next
              = Inl (Fatal ''Check failed: index_dtype_bits > 0''))
       \<and> (max_bound_bits (block block_realize) \<le> 0 \<longrightarrow>
            Tensorize sch ar ops self store sref intrin preserve_unit_iters next
              = Inl (Fatal ''Check failed: index_dtype_bits > 0''))
       \<and> (\<forall>self' store' next''.
            Tensorize sch ar ops self store sref intrin preserve_unit_iters next
              = Inr (self', store', next'') \<longrightarrow>
            (\<exists>new_realize impl_realize self1.
                0 < max_bound_bits (block block_realize)
              \<and> fresh_ref store \<notin> fst ` set store
              \<and> map_of store' (fresh_ref store) =
                  Some (IndexDataTypeNormalizer_Rewrite ops
                          (DataType_Int (max_bound_bits (block block_realize)))
                          (LoadJSON_SaveJSON ops registered_impl))
              \<and> (\<forall>k \<in> fst ` set store. map_of store' k = map_of store k)
              \<and> func_body (IndexDataTypeNormalizer_Rewrite ops
                              (DataType_Int (max_bound_bits (block block_realize)))
                              (LoadJSON_SaveJSON ops registered_impl))
                  = BlockRealizeS impl_realize
              \<and> Tensorize_rewrite ops (state_mod self) store intrin block_realize
                  = Inr (new_realize, store')
              \<and> body (block new_realize) = body (block impl_realize)
              \<and> Tensorize_install sch self sref old_block new_realize = Inr self1))"
proof (intro conjI allI impI)
  show w: "index_dtype_bits (block block_realize) = max_bound_bits (block block_realize)"
    unfolding max_bound_bits_def by (rule index_dtype_bits_Max)
  have fail: "Tensorize sch ar ops self store sref intrin preserve_unit_iters next
              = Inl (Fatal ''Check failed: index_dtype_bits > 0'')"
    if "max_bound_bits (block block_realize) \<le> 0"
    using that assms w
    by (simp add: Tensorize_def Tensorize_rewrite_def Tensorize_normalize_def DeepCopy_def)
  show "Tensorize sch ar ops self store sref intrin preserve_unit_iters next
              = Inl (Fatal ''Check failed: index_dtype_bits > 0'')"
    if "max_bound_bits (block block_realize) \<le> 0"
    using that by (rule fail)
  show "Tensorize sch ar ops self store sref intrin preserve_unit_iters next
              = Inl (Fatal ''Check failed: index_dtype_bits > 0'')"
    if "region_bounds (block block_realize) = []"
    using max_bound_bits_empty[OF that] by (intro fail) simp
next
  fix self' store' next''
  assume t: "Tensorize sch ar ops self store sref intrin preserve_unit_iters next
              = Inr (self', store', next'')"
  from t obtain br ob new_realize self1 where
    o: "Tensorize_obtain sch ar self sref preserve_unit_iters next = Inr (br, ob, next'')"
    and rw0: "Tensorize_rewrite ops (state_mod self) store intrin br = Inr (new_realize, store')"
    and inst0: "Tensorize_install sch self sref ob new_realize = Inr self1"
    by (rule Tensorize_Inr)
  from o assms(1) have eq: "br = block_realize" "ob = old_block" by simp_all
  note rw = rw0[unfolded eq] and inst = inst0[unfolded eq]
  from rw obtain intrin_desc' impl_ref intrin_impl rhs_buffer_map buffer_indices impl2desc
      impl2cur impl_realize match_buffer_regions where
    "map_of store (desc intrin) = Some intrin_desc'"
    and n: "Tensorize_normalize ops store intrin block_realize = Inr (impl_ref, store')"
    and at: "map_of store' impl_ref = Some intrin_impl"
    and "TensorizeComparator_VisitStmt ops (state_mod self) block_realize (func_body intrin_desc')
       = Inr (rhs_buffer_map, buffer_indices)"
    and "Tensorize_impl2desc intrin_desc' intrin_impl (params intrin_desc') (params intrin_impl) []
       = Inr impl2desc"
    and "Tensorize_impl2cur rhs_buffer_map impl2desc [] = Inr impl2cur"
    and fb: "func_body intrin_impl = BlockRealizeS impl_realize"
    and "Tensorize_match_buffers ops intrin_impl impl2cur
               (Tensorize_impl2region (block impl_realize))
               buffer_indices (params intrin_impl) = Inr match_buffer_regions"
    and "iter_values new_realize = iter_values block_realize"
    and "iter_vars (block new_realize) = iter_vars (block block_realize)"
    and bd: "body (block new_realize) = body (block impl_realize)"
    and "match_buffers (block new_realize) = match_buffer_regions"
    by (rule Tensorize_rewrite_Inr)
  note N = Tensorize_normalize_Inr[OF n assms(3)]
  have w: "index_dtype_bits (block block_realize) = max_bound_bits (block block_realize)"
    unfolding max_bound_bits_def by (rule index_dtype_bits_Max)
  from N have ref: "impl_ref = fresh_ref store" by blast
  from N have pos: "0 < max_bound_bits (block block_realize)" by (simp add: w)
  from N have st: "map_of store' (fresh_ref store) =
                  Some (IndexDataTypeNormalizer_Rewrite ops
                          (DataType_Int (max_bound_bits (block block_realize)))
                          (LoadJSON_SaveJSON ops registered_impl))"
    by (simp add: w ref[symmetric])
  from N have keep: "\<forall>k \<in> fst ` set store. map_of store' k = map_of store k" by blast
  from at st ref fb have fb': "func_body (IndexDataTypeNormalizer_Rewrite ops
                              (DataType_Int (max_bound_bits (block block_realize)))
                              (LoadJSON_SaveJSON ops registered_impl))
                  = BlockRealizeS impl_realize" by simp
  show "\<exists>new_realize impl_realize self1.
                0 < max_bound_bits (block block_realize)
              \<and> fresh_ref store \<notin> fst ` set store
              \<and> map_of store' (fresh_ref store) =
                  Some (IndexDataTypeNormalizer_Rewrite ops
                          (DataType_Int (max_bound_bits (block block_realize)))
                          (LoadJSON_SaveJSON ops registered_impl))
              \<and> (\<forall>k \<in> fst ` set store. map_of store' k = map_of store k)
              \<and> func_body (IndexDataTypeNormalizer_Rewrite ops
                              (DataType_Int (max_bound_bits (block block_realize)))
                              (LoadJSON_SaveJSON ops registered_impl))
                  = BlockRealizeS impl_realize
              \<and> Tensorize_rewrite ops (state_mod self) store intrin block_realize
                  = Inr (new_realize, store')
              \<and> body (block new_realize) = body (block impl_realize)
              \<and> Tensorize_install sch self sref old_block new_realize = Inr self1"
    using pos fresh_ref_new[of store] st keep fb' rw bd inst by blast
qed

lemma ex_Tensorize:
  "Tensorize ex_Sched_B ex_Arith ex_TensorizeOps (ex_state ex_true) ex_store
     (ex_sref_block ex_true) ex_intrin False 100
   = Inr (fst ex_tensorized, fst (snd ex_tensorized), snd (snd ex_tensorized))"
  by code_simp

lemma ex_C8_hyps:
  "Tensorize_obtain ex_Sched_B ex_Arith (ex_state ex_true) (ex_sref_block ex_true) False 100
     = Inr (ex_realize ex_true, Some ex_block, 100)"
  "map_of ex_store (desc ex_intrin) = Some ex_desc_func"
  "map_of ex_store (impl ex_intrin) = Some ex_impl_func"
  by code_simp+

lemma ex_C8_root:
  "Tensorize_obtain (ex_Sched ex_true) ex_Arith (ex_state ex_true) (ex_sref_root ex_true) False 100
     = Inr (BlockRealize [] ex_true (ex_root_block ex_true), Some (ex_root_block ex_true), 100)"
  "region_bounds (block (BlockRealize [] ex_true (ex_root_block ex_true))) = []"
  by code_simp+

lemma ex_C8_eval:
  "max_bound_bits (block (ex_realize ex_true)) = 32"
  "IndexDataTypeNormalizer_Rewrite ex_TensorizeOps (DataType_Int 32)
     (LoadJSON_SaveJSON ex_TensorizeOps ex_impl_func) = ex_normalize int32 ex_impl_func"
  "ex_normalize int32 ex_impl_func \<noteq> ex_impl_func"
  "impl ex_intrin \<in> fst ` set ex_store"
  by code_simp+

theorem Tensorize_index_width_witness:
  "Tensorize_obtain ex_Sched_B ex_Arith (ex_state ex_true) (ex_sref_block ex_true) False 100
     = Inr (ex_realize ex_true, Some ex_block, 100)
   \<and> map_of ex_store (desc ex_intrin) = Some ex_desc_func
   \<and> map_of ex_store (impl ex_intrin) = Some ex_impl_func
   \<and> Tensorize ex_Sched_B ex_Arith ex_TensorizeOps (ex_state ex_true) ex_store
       (ex_sref_block ex_true) ex_intrin False 100
       = Inr (fst ex_tensorized, fst (snd ex_tensorized), snd (snd ex_tensorized))
   \<and> max_bound_bits (block (ex_realize ex_true)) = 32
   \<and> map_of (fst (snd ex_tensorized)) (fresh_ref ex_store)
       = Some (ex_normalize int32 ex_impl_func)
   \<and> ex_normalize int32 ex_impl_func \<noteq> ex_impl_func
   \<and> map_of (fst (snd ex_tensorized)) (impl ex_intrin) = Some ex_impl_func
   \<and> Tensorize_obtain (ex_Sched ex_true) ex_Arith (ex_state ex_true) (ex_sref_root ex_true)
         False 100
       = Inr (BlockRealize [] ex_true (ex_root_block ex_true), Some (ex_root_block ex_true), 100)
   \<and> region_bounds (block (BlockRealize [] ex_true (ex_root_block ex_true))) = []
   \<and> Tensorize (ex_Sched ex_true) ex_Arith ex_TensorizeOps (ex_state ex_true) ex_store
         (ex_sref_root ex_true) ex_intrin False 100
       = Inl (Fatal ''Check failed: index_dtype_bits > 0'')"
proof -
  note T = Tensorize_index_width[OF ex_C8_hyps, of ex_TensorizeOps]
  from T ex_Tensorize have a: "map_of (fst (snd ex_tensorized)) (fresh_ref ex_store) =
       Some (IndexDataTypeNormalizer_Rewrite ex_TensorizeOps
               (DataType_Int (max_bound_bits (block (ex_realize ex_true))))
               (LoadJSON_SaveJSON ex_TensorizeOps ex_impl_func))"
    by blast
  from T ex_Tensorize have
    "\<forall>k \<in> fst ` set ex_store. map_of (fst (snd ex_tensorized)) k = map_of ex_store k"
    by blast
  with ex_C8_eval(4) have "map_of (fst (snd ex_tensorized)) (impl ex_intrin)
                         = map_of ex_store (impl ex_intrin)"
    by blast
  with ex_C8_hyps(3) have b:
    "map_of (fst (snd ex_tensorized)) (impl ex_intrin) = Some ex_impl_func"
    by simp
  from Tensorize_index_width[OF ex_C8_root(1) ex_C8_hyps(2,3), of ex_TensorizeOps] ex_C8_root(2)
  have c: "Tensorize (ex_Sched ex_true) ex_Arith ex_TensorizeOps (ex_state ex_true) ex_store
         (ex_sref_root ex_true) ex_intrin False 100
       = Inl (Fatal ''Check failed: index_dtype_bits > 0'')"
    by blast
  from a b c ex_C8_hyps ex_C8_root ex_C8_eval ex_Tensorize show ?thesis by simp
qed


subsection \<open>C4: the match buffers of Tensorize\<close>


lemma ex_C4_eval:
  "Tensorize_obtain ex_Sched_B ex_Arith (ex_state ex_true) (ex_sref_block ex_true) False 100
     = Inr (ex_realize ex_true, Some ex_block, 100)"
  "Tensorize_rewrite ex_TensorizeOps (state_mod (ex_state ex_true)) ex_store ex_intrin
     (ex_realize ex_true) = Inr (ex_tensorized_realize, fst (snd ex_tensorized))"
  "match_buffers (block ex_tensorized_realize) =
     [MatchBufferRegion ex_Aimpl
        (BufferRegion ex_A [Range (VarE ex_vi) (IntImm int32 1),
                            Range (VarE ex_vj) (IntImm int32 8)])]"
  "map_of (fst (snd ex_tensorized)) (fresh_ref ex_store) = Some (ex_normalize int32 ex_impl_func)"
  "length (params (ex_normalize int32 ex_impl_func)) = 1"
  by code_simp+



subsection \<open>C1: the sizes of iterator lists and binding lists\<close>

lemma iter_vars_Substitute_Block:
  "length (iter_vars (Substitute_Block f m b)) = length (iter_vars b)"
  by (cases b) simp

lemma all_sizes_equal_Substitute:
  "all_sizes_equal (Substitute_Stmt f m s) = all_sizes_equal s"
  "all_sizes_equal_For (Substitute_For f m l) = all_sizes_equal_For l"
  "all_sizes_equal_Block (Substitute_Block f m b) = all_sizes_equal_Block b"
  "all_sizes_equal_BlockRealize (Substitute_BlockRealize f m r) = all_sizes_equal_BlockRealize r"
proof (induction f m s and f m l and f m b and f m r
       rule: Substitute_Stmt_Substitute_For_Substitute_Block_Substitute_BlockRealize.induct)
  case (5 simp sub c t e)
  then show ?case by (cases e) simp_all
next
  case (9 simp sub ivs rs ws nm bd ini al mb an a)
  then show ?case by (cases ini) simp_all
next
  case (10 simp sub vs pr b)
  then show ?case by (simp add: iter_vars_Substitute_Block)
qed simp_all

lemma all_sizes_equal_tir_Substitute:
  "all_sizes_equal (tir_Substitute s vmap) = all_sizes_equal s"
  by (simp add: tir_Substitute_def all_sizes_equal_Substitute)

lemma all_sizes_equal_MakeLoopNest:
  "all_sizes_equal (MakeLoopNest s loops) = all_sizes_equal s"
  by (induction loops arbitrary: s) simp_all

lemma all_sizes_equal_GenerateOuterInit_loops:
  "GenerateOuterInit_loops ivals loops (s, sm, fresh) = (s', sm', fresh') \<Longrightarrow>
   all_sizes_equal s' = all_sizes_equal s"
proof (induction loops arbitrary: s sm fresh)
  case Nil
  then show ?case by simp
next
  case (Cons loop loops)
  show ?case
  proof (cases "\<exists>init_binding \<in> set ivals. UsesVar1 init_binding (loop_var loop)")
    case True
    with Cons.prems have
      "GenerateOuterInit_loops ivals loops
         (ForS (ForNode (copy_with_suffix (loop_var loop) [] fresh) (for_min loop) (for_extent loop)
                  (kind loop) s (for_addr loop)),
          AList.update (loop_var loop) (copy_with_suffix (loop_var loop) [] fresh) sm, Suc fresh)
       = (s', sm', fresh')"
      by (simp add: Let_def)
    from Cons.IH[OF this] show ?thesis by simp
  next
    case False
    with Cons.prems have "GenerateOuterInit_loops ivals loops (s, sm, fresh) = (s', sm', fresh')"
      by simp
    from Cons.IH[OF this] show ?thesis .
  qed
qed

lemma BlockRealize_ctor_Inr:
  "BlockRealize_ctor vals pred blk = Inr r \<Longrightarrow>
   r = BlockRealize vals pred blk \<and> length vals = length (iter_vars blk)"
  by (auto simp add: BlockRealize_ctor_def split: if_splits)

lemma all_sizes_equal_GenerateOuterInit:
  assumes "GenerateOuterInit block_init inner_realize loops block_name fresh = Inr (s, fresh')"
    and "all_sizes_equal block_init"
  shows "all_sizes_equal s"
proof -
  obtain sm ivs ivals fresh1 where it:
    "GenerateOuterInit_iters block_init (iter_vars (block inner_realize))
       (iter_values inner_realize) ([], [], [], fresh) = (sm, ivs, ivals, fresh1)"
    by (cases "GenerateOuterInit_iters block_init (iter_vars (block inner_realize))
       (iter_values inner_realize) ([], [], [], fresh)") auto
  from assms(1) it obtain init_realize where
    c: "BlockRealize_ctor ivals (predicate inner_realize)
          (Block ivs [] (writes (block inner_realize)) block_name block_init None [] [] [] fresh1)
        = Inr init_realize"
    by (auto simp add: GenerateOuterInit_def Let_def split: if_splits sum.splits)
  obtain s1 sm1 fresh2 where lp:
    "GenerateOuterInit_loops ivals loops (BlockRealizeS init_realize, sm, Suc fresh1)
       = (s1, sm1, fresh2)"
    by (cases "GenerateOuterInit_loops ivals loops (BlockRealizeS init_realize, sm, Suc fresh1)") auto
  from assms(1) it c lp have s: "s = tir_Substitute s1 sm1"
    by (auto simp add: GenerateOuterInit_def Let_def split: if_splits)
  from BlockRealize_ctor_Inr[OF c] assms(2) have "all_sizes_equal (BlockRealizeS init_realize)"
    by simp
  with all_sizes_equal_GenerateOuterInit_loops[OF lp] show ?thesis
    by (simp add: s all_sizes_equal_tir_Substitute)
qed

lemma BlockizeImpl_build_sizes:
  assumes "BlockizeImpl_build ar blk loops division preserve_unit_iters fresh
             = Inr (outer, reuse, fresh')"
  shows "sizes_equal outer
       \<and> (all_sizes_equal_Block blk \<longrightarrow> all_sizes_equal_BlockRealize outer)"
proof -
  from assms obtain sub oivs obs iivs ibs fresh1 opm ipm rest where
    l: "last division = opm # ipm # rest"
    and d: "DeriveBlockBinding ar (iter_vars blk) division [] [] [] [] preserve_unit_iters
              False fresh = Inr (sub, oivs, obs, iivs, ibs, fresh1)"
    by (auto simp add: BlockizeImpl_build_def split: list.splits sum.splits)
  let ?bs = "BlockizeImpl_block_subst ar blk sub iivs"
  from assms l d obtain inner_realize outer_reads outer_writes outer_init fresh2 where
    gi: "GenerateInner (has_outer_reduction ?bs oivs) iivs ibs (mark_extent ipm) ?bs
           = Inr inner_realize"
    and oi: "BlockizeImpl_init ?bs inner_realize loops fresh1 = Inr (outer_init, fresh2)"
    and oc: "BlockRealize_ctor obs (mark_extent opm)
               (Block oivs outer_reads outer_writes (block_name_hint ?bs @ ''_o'')
                  (MakeLoopNest (BlockRealizeS inner_realize) loops) outer_init [] [] [] fresh2)
             = Inr outer"
    by (auto simp add: BlockizeImpl_build_def Let_def split: sum.splits)
  note O = BlockRealize_ctor_Inr[OF oc]
  from O have s: "sizes_equal outer" by (simp add: sizes_equal_def)
  have "all_sizes_equal_BlockRealize outer" if w: "all_sizes_equal_Block blk"
  proof -
    from w have bs: "all_sizes_equal_Block ?bs"
      by (simp add: BlockizeImpl_block_subst_def all_sizes_equal_Substitute)
    from gi have inner: "all_sizes_equal_BlockRealize inner_realize"
      using bs by (cases ?bs) (auto simp add: GenerateInner_def dest!: BlockRealize_ctor_Inr)
    have init_ok: "case outer_init of None \<Rightarrow> True | Some s \<Rightarrow> all_sizes_equal s"
    proof (cases "init ?bs")
      case None
      with oi show ?thesis by (simp add: BlockizeImpl_init_def)
    next
      case (Some block_init)
      with oi obtain s where
        g: "GenerateOuterInit block_init inner_realize loops (block_name_hint ?bs @ ''_init'') fresh1
              = Inr (s, fresh2)"
        and o: "outer_init = Some s"
        by (auto simp add: BlockizeImpl_init_def split: sum.splits)
      from bs Some have "all_sizes_equal block_init" by (cases ?bs) simp
      from all_sizes_equal_GenerateOuterInit[OF g this] o show ?thesis by simp
    qed
    from O inner init_ok show ?thesis
      by (simp add: all_sizes_equal_MakeLoopNest)
  qed
  with s show ?thesis by simp
qed

lemma BlockizeImpl_sizes:
  assumes "BlockizeImpl sch ar self loop_sref preserve_unit_iters fresh = Inr (outer, reuse, fresh')"
  shows "\<exists>block_realize.
           CheckGetSingleChildBlockRealizeOnSRefTree sch self loop_sref = Inr block_realize
         \<and> sizes_equal outer
         \<and> (all_sizes_equal_BlockRealize block_realize \<longrightarrow> all_sizes_equal_BlockRealize outer)"
proof -
  from assms obtain loop block_realize block_sref loops division where
    "stmt loop_sref = SRefFor loop"
    and c: "CheckGetSingleChildBlockRealizeOnSRefTree sch self loop_sref = Inr block_realize"
    and "map_of (stmt2ref self) (block_addr (block block_realize)) = Some block_sref"
    and "SubspaceDivide ar block_realize block_sref loop_sref preserve_unit_iters False
           = (loops, Inr division)"
    and b: "BlockizeImpl_build ar (block block_realize) loops division preserve_unit_iters fresh
           = Inr (outer, reuse, fresh')"
    by (auto simp add: BlockizeImpl_def split: SRefStmt.splits sum.splits option.splits
        prod.splits if_splits)
  have "all_sizes_equal_BlockRealize block_realize \<Longrightarrow> all_sizes_equal_Block (block block_realize)"
    by (cases block_realize) simp
  with BlockizeImpl_build_sizes[OF b] c show ?thesis by blast
qed

lemma make_outer_sizes:
  "make_outer ar st = Inr (b, st') \<Longrightarrow>
     sizes_equal b \<and> blockized st' = Some b \<and> seq_body st' = seq_body st
   \<and> (seq_body_ok st \<longrightarrow> all_sizes_equal_BlockRealize b)"
  by (auto simp add: make_outer_def Let_def sizes_equal_def seq_body_ok_def
      dest!: BlockRealize_ctor_Inr split: sum.splits if_splits)

lemma RewriteSeq_step_sizes:
  "RewriteSeq_step ar n it v st locals = Inr (st', locals') \<Longrightarrow> outer_sizes_ok st \<Longrightarrow>
     outer_sizes_ok st'"
  by (auto simp add: RewriteSeq_step_def Let_def outer_sizes_ok_def
      dest!: make_outer_sizes split: prod.splits if_splits sum.splits)

lemma BlockizeBlocks_outer_sizes_ok:
  shows "outer_sizes_ok (st :: 's BlockizeBlocks) \<Longrightarrow>
           BlockizeBlocks_VisitStmt ar st s = Inr (r, st') \<Longrightarrow> outer_sizes_ok st'"
    and "outer_sizes_ok (st :: 's BlockizeBlocks) \<Longrightarrow>
           BlockizeBlocks_For ar st loop = Inr (r, st') \<Longrightarrow> outer_sizes_ok st'"
    and "outer_sizes_ok (st :: 's BlockizeBlocks) \<Longrightarrow>
           BlockizeBlocks_Block ar st b = Inr (rb, st') \<Longrightarrow> outer_sizes_ok st'"
    and "outer_sizes_ok (st :: 's BlockizeBlocks) \<Longrightarrow>
           RewriteSeq ar st s = Inr (r, st') \<Longrightarrow> outer_sizes_ok st'"
proof (induction ar st s and ar st loop and ar st b and ar st s
       arbitrary: r st' and r st' and rb st' and r st'
       rule: BlockizeBlocks_VisitStmt_BlockizeBlocks_For_BlockizeBlocks_Block_RewriteSeq.induct)
  case (1 ar st loop)
  then show ?case by simp
next
  case (2 ar st b)
  then show ?case by (auto split: sum.splits)
next
  case (3 ar st vs pr b)
  from "3.prems"(2) obtain block_subst st1 where
    b: "BlockizeBlocks_Block ar (st\<lparr>inner_iter_vars := Array_clear (inner_iter_vars st)\<rparr>) b
          = Inr (block_subst, st1)"
    and t: "realize_target st1 (BlockRealize vs pr b) block_subst = Inr (r, st')"
    by (auto split: sum.splits)
  have "outer_sizes_ok (st\<lparr>inner_iter_vars := Array_clear (inner_iter_vars st)\<rparr>)"
    using "3.prems"(1) by (simp add: outer_sizes_ok_def)
  from "3.IH"[OF this b] have "outer_sizes_ok st1" .
  with realize_target_blockized[OF t] show ?case by (simp add: outer_sizes_ok_def)
next
  case (4 ar st ss)
  let ?f = "\<lambda>s r. case r of
                          Inl e \<Rightarrow> Inl e
                        | Inr (acc, st') \<Rightarrow>
                            (case BlockizeBlocks_VisitStmt ar st' s of
                               Inl e \<Rightarrow> Inl e
                             | Inr (s', st'') \<Rightarrow> Inr (acc @ [s'], st''))"
  let ?J = "\<lambda>r :: error + Stmt list \<times> 's BlockizeBlocks.
              case r of Inl e \<Rightarrow> True | Inr (acc, st1) \<Rightarrow> outer_sizes_ok st1"
  have "?J (fold ?f ss (Inr ([], st)))"
  proof (rule fold_sum_invariant)
    show "?J (Inr ([], st))" using "4.prems"(1) by simp
  next
    fix x r assume x: "x \<in> set ss" and j: "?J r"
    show "?J (?f x r)"
      using j "4.IH"[OF x] by (auto split: sum.splits prod.splits)
  qed
  with "4.prems"(2) show ?case by (auto split: sum.splits prod.splits)
next
  case (5 ar st c t e)
  from "5.prems"(2) obtain stmt_then st1 where
    t: "BlockizeBlocks_VisitStmt ar st t = Inr (stmt_then, st1)"
    by (auto split: sum.splits)
  from "5.IH"(1)[OF "5.prems"(1) t] have ok1: "outer_sizes_ok st1" .
  show ?case
  proof (cases e)
    case None
    with "5.prems"(2) t ok1 show ?thesis by auto
  next
    case (Some x2)
    with "5.prems"(2) t obtain s' where
      e: "BlockizeBlocks_VisitStmt ar st1 x2 = Inr (s', st')"
      by (auto split: sum.splits)
    from "5.IH"(2)[OF t refl Some ok1 e] show ?thesis .
  qed
next
  case (6 ar st b v idx)
  then show ?case by simp
next
  case (7 ar st e)
  then show ?case by simp
next
  case (8 ar st lv mn ex k bd a)
  have f: "outer_sizes_ok (st\<lparr>first_in := True\<rparr>)"
    using "8.prems"(1) by (simp add: outer_sizes_ok_def)
  show ?case
  proof (cases "points_to_For (stmt (lca st)) (ForNode lv mn ex k bd a)")
    case True
    with "8.prems"(2) obtain bd' where "RewriteSeq ar (st\<lparr>first_in := True\<rparr>) bd = Inr (bd', st')"
      by (auto split: sum.splits)
    from "8.IH"(1)[OF True f this] show ?thesis .
  next
    case False
    show ?thesis
    proof (cases "loop_var_subst st \<noteq> []")
      case True
      with False "8.prems"(2) obtain lv' bd' where
        "substitute_loop_var lv (loop_var_subst st) = Inr lv'"
        "BlockizeBlocks_VisitStmt ar st bd = Inr (bd', st')"
        by (auto split: sum.splits)
      from "8.IH"(2)[OF False True this(1) "8.prems"(1) this(2)] show ?thesis .
    next
      case F2: False
      with False "8.prems"(2) obtain bd' where
        "BlockizeBlocks_VisitStmt ar st bd = Inr (bd', st')"
        by (auto split: sum.splits)
      from "8.IH"(3)[OF False F2 "8.prems"(1) this] show ?thesis .
    qed
  qed
next
  case (9 ar st ivs rs ws nm bd ini al mb an a)
  have f: "outer_sizes_ok (st\<lparr>first_in := True\<rparr>)"
    using "9.prems"(1) by (simp add: outer_sizes_ok_def)
  show ?case
  proof (cases "points_to_Block (stmt (lca st)) (Block ivs rs ws nm bd ini al mb an a)")
    case True
    with "9.prems"(2) obtain bd' where "RewriteSeq ar (st\<lparr>first_in := True\<rparr>) bd = Inr (bd', st')"
      by (auto split: sum.splits)
    from "9.IH"[OF True f this] show ?thesis .
  next
    case False
    with "9.prems" show ?thesis
      by (auto simp add: outer_sizes_ok_def dest!: target_block_blockized split: if_splits)
  qed
next
  case (10 ar st ss)
  let ?f = "\<lambda>it r. case r of
                           Inl e \<Rightarrow> Inl e
                         | Inr (st', locals) \<Rightarrow>
                             (case BlockizeBlocks_VisitStmt ar (st'\<lparr>target_in := False\<rparr>) it of
                                Inl e \<Rightarrow> Inl e
                              | Inr (visited, st'') \<Rightarrow>
                                  RewriteSeq_step ar (length ss) it visited st'' locals)"
  let ?J = "\<lambda>r :: error + 's BlockizeBlocks \<times> RewriteSeq_locals.
              case r of Inl e \<Rightarrow> True | Inr (st1, locals) \<Rightarrow> outer_sizes_ok st1"
  have "?J (fold ?f ss (Inr (st, (- 1, 0, - 1, 0, []))))"
  proof (rule fold_sum_invariant)
    show "?J (Inr (st, (- 1, 0, - 1, 0, [])))" using "10.prems"(1) by simp
  next
    fix x r assume x: "x \<in> set ss" and j: "?J r"
    show "?J (?f x r)"
    proof (cases r)
      case (Inl e)
      then show ?thesis by simp
    next
      case (Inr p)
      obtain st1 locals where p: "p = (st1, locals)" by (cases p)
      have ok: "outer_sizes_ok (st1\<lparr>target_in := False\<rparr>)"
        using j Inr p by (simp add: outer_sizes_ok_def)
      show ?thesis
      proof (cases "BlockizeBlocks_VisitStmt ar (st1\<lparr>target_in := False\<rparr>) x")
        case (Inl e)
        with Inr p show ?thesis by simp
      next
        case (Inr q)
        obtain visited st2 where q: "q = (visited, st2)" by (cases q)
        from "10.IH"[OF x ok Inr[unfolded q]] have ok2: "outer_sizes_ok st2" .
        show ?thesis
        proof (cases "RewriteSeq_step ar (length ss) x visited st2 locals")
          case (Inl e)
          with \<open>r = Inr p\<close> p Inr q show ?thesis by simp
        next
          case R: (Inr w)
          obtain st3 l3 where w: "w = (st3, l3)" by (cases w)
          from RewriteSeq_step_sizes[OF R[unfolded w] ok2] have "outer_sizes_ok st3" .
          with \<open>r = Inr p\<close> p Inr q R w show ?thesis by simp
        qed
      qed
    qed
  qed
  with "10.prems"(2) show ?case by (auto split: sum.splits prod.splits)
qed simp_all

lemma target_iters_seq_body: "seq_body (target_iters st ivs) = seq_body st"
  by (induction ivs arbitrary: st) (simp_all add: Let_def)

lemma target_block_seq:
  "target_block ar st b = Inr (b', st') \<Longrightarrow>
     seq_body st' = seq_body st \<and> all_sizes_equal_Block b' = all_sizes_equal_Block b"
  by (auto simp add: target_block_def Let_def target_iters_seq_body all_sizes_equal_Substitute
      split: option.splits sum.splits)

lemma all_sizes_equal_GenerateInner:
  "GenerateInner w ivs ivals pred blk = Inr r \<Longrightarrow>
     sizes_equal r \<and> (all_sizes_equal_Block blk \<longrightarrow> all_sizes_equal_BlockRealize r)"
  by (cases blk) (auto simp add: GenerateInner_def sizes_equal_def dest!: BlockRealize_ctor_Inr)

lemma realize_target_seq:
  "realize_target st r b = Inr (s, st') \<Longrightarrow>
     seq_body st' = seq_body st
   \<and> (all_sizes_equal_BlockRealize r \<longrightarrow> all_sizes_equal_Block b \<longrightarrow> all_sizes_equal s)"
  by (auto simp add: realize_target_def Let_def dest!: all_sizes_equal_GenerateInner
      split: if_splits sum.splits)

lemma RewriteSeq_result_sizes:
  "all_sizes_equal (RewriteSeq_result new_seq) = (\<forall>s \<in> set new_seq. all_sizes_equal s)"
  by (auto simp add: RewriteSeq_result_def split: list.splits)

lemma RewriteSeq_step_seq:
  assumes "RewriteSeq_step ar n it v st (a, b, c, d, new_seq) = Inr (st', (a', b', c', d', new_seq'))"
    and "seq_body_ok st" and "all_sizes_equal it" and "all_sizes_equal v"
    and "\<forall>s \<in> set new_seq. all_sizes_equal s"
  shows "seq_body_ok st' \<and> (\<forall>s \<in> set new_seq'. all_sizes_equal s)"
proof (cases "target_in st")
  case True
  have ok1: "seq_body_ok (st\<lparr>seq_body := seq_body st @ [v]\<rparr>)"
    using assms(2,4) by (simp add: seq_body_ok_def)
  show ?thesis
  proof (cases "int d = int n - 1")
    case L: True
    with True assms(1) obtain blk st2 where
      m: "make_outer ar (st\<lparr>seq_body := seq_body st @ [v]\<rparr>) = Inr (blk, st2)"
      and e: "st' = st2" "new_seq' = new_seq @ [BlockRealizeS blk]"
      by (auto simp add: RewriteSeq_step_def Let_def split: if_splits sum.splits)
    from make_outer_sizes[OF m] ok1 have "all_sizes_equal_BlockRealize blk" "seq_body_ok st2"
      by (simp_all add: seq_body_ok_def)
    with e assms(5) show ?thesis by simp
  next
    case False
    with True assms(1) have "st' = st\<lparr>seq_body := seq_body st @ [v]\<rparr>" "new_seq' = new_seq"
      by (auto simp add: RewriteSeq_step_def Let_def split: if_splits sum.splits)
    with ok1 assms(5) show ?thesis by simp
  qed
next
  case False
  show ?thesis
  proof (cases "a \<noteq> - 1 \<and> c = int d - 1")
    case T: True
    with False assms(1) obtain blk st2 where
      m: "make_outer ar st = Inr (blk, st2)"
      and e: "st' = st2" "new_seq' = new_seq @ [BlockRealizeS blk] @ [it]"
      by (auto simp add: RewriteSeq_step_def Let_def split: if_splits sum.splits)
    from make_outer_sizes[OF m] assms(2) have "all_sizes_equal_BlockRealize blk" "seq_body_ok st2"
      by (simp_all add: seq_body_ok_def)
    with e assms(3,5) show ?thesis by simp
  next
    case F: False
    with False assms(1) have "st' = st" "new_seq' = new_seq @ [it]"
      by (auto simp add: RewriteSeq_step_def Let_def split: if_splits sum.splits)
    with assms(2,3,5) show ?thesis by simp
  qed
qed

lemma BlockizeBlocks_all_sizes_equal:
  shows "seq_body_ok (st :: 's BlockizeBlocks) \<Longrightarrow> all_sizes_equal s \<Longrightarrow>
           BlockizeBlocks_VisitStmt ar st s = Inr (r, st') \<Longrightarrow>
           seq_body_ok st' \<and> all_sizes_equal r"
    and "seq_body_ok (st :: 's BlockizeBlocks) \<Longrightarrow> all_sizes_equal_For loop \<Longrightarrow>
           BlockizeBlocks_For ar st loop = Inr (r, st') \<Longrightarrow>
           seq_body_ok st' \<and> all_sizes_equal r"
    and "seq_body_ok (st :: 's BlockizeBlocks) \<Longrightarrow> all_sizes_equal_Block b \<Longrightarrow>
           BlockizeBlocks_Block ar st b = Inr (rb, st') \<Longrightarrow>
           seq_body_ok st' \<and> all_sizes_equal_Block rb"
    and "seq_body_ok (st :: 's BlockizeBlocks) \<Longrightarrow> all_sizes_equal s \<Longrightarrow>
           RewriteSeq ar st s = Inr (r, st') \<Longrightarrow>
           seq_body_ok st' \<and> all_sizes_equal r"
proof (induction ar st s and ar st loop and ar st b and ar st s
       arbitrary: r st' and r st' and rb st' and r st'
       rule: BlockizeBlocks_VisitStmt_BlockizeBlocks_For_BlockizeBlocks_Block_RewriteSeq.induct)
  case (1 ar st loop)
  then show ?case by simp
next
  case (2 ar st b)
  from "2.prems"(3) obtain b' where
    v: "BlockizeBlocks_Block ar st b = Inr (b', st')" and r: "r = BlockS b'"
    by (auto split: sum.splits)
  from "2.IH"[OF "2.prems"(1) _ v] "2.prems"(2) r show ?case by simp
next
  case (3 ar st vs pr b)
  from "3.prems"(3) obtain block_subst st1 where
    b: "BlockizeBlocks_Block ar (st\<lparr>inner_iter_vars := Array_clear (inner_iter_vars st)\<rparr>) b
          = Inr (block_subst, st1)"
    and t: "realize_target st1 (BlockRealize vs pr b) block_subst = Inr (r, st')"
    by (auto split: sum.splits)
  have ok: "seq_body_ok (st\<lparr>inner_iter_vars := Array_clear (inner_iter_vars st)\<rparr>)"
    using "3.prems"(1) by (simp add: seq_body_ok_def)
  from "3.prems"(2) have sb: "all_sizes_equal_Block b"
    and sr: "all_sizes_equal_BlockRealize (BlockRealize vs pr b)" by simp_all
  from "3.IH"[OF ok sb b] have "seq_body_ok st1" "all_sizes_equal_Block block_subst" by simp_all
  with realize_target_seq[OF t] sr show ?case by (simp add: seq_body_ok_def)
next
  case (4 ar st ss)
  let ?f = "\<lambda>s r. case r of
                          Inl e \<Rightarrow> Inl e
                        | Inr (acc, st') \<Rightarrow>
                            (case BlockizeBlocks_VisitStmt ar st' s of
                               Inl e \<Rightarrow> Inl e
                             | Inr (s', st'') \<Rightarrow> Inr (acc @ [s'], st''))"
  let ?J = "\<lambda>r :: error + Stmt list \<times> 's BlockizeBlocks.
              case r of Inl e \<Rightarrow> True
              | Inr (acc, st1) \<Rightarrow> seq_body_ok st1 \<and> (\<forall>s \<in> set acc. all_sizes_equal s)"
  have "?J (fold ?f ss (Inr ([], st)))"
  proof (rule fold_sum_invariant)
    show "?J (Inr ([], st))" using "4.prems"(1) by simp
  next
    fix x r assume x: "x \<in> set ss" and j: "?J r"
    from x "4.prems"(2) have sx: "all_sizes_equal x" by simp
    show "?J (?f x r)"
      using j sx "4.IH"[OF x] by (auto split: sum.splits prod.splits)
  qed
  with "4.prems"(3) show ?case by (auto split: sum.splits prod.splits)
next
  case (5 ar st c t e)
  from "5.prems"(3) obtain stmt_then st1 where
    t: "BlockizeBlocks_VisitStmt ar st t = Inr (stmt_then, st1)"
    by (auto split: sum.splits)
  from "5.prems"(2) have st: "all_sizes_equal t" by simp
  from "5.IH"(1)[OF "5.prems"(1) st t] have ok1: "seq_body_ok st1" "all_sizes_equal stmt_then"
    by simp_all
  show ?case
  proof (cases e)
    case None
    with "5.prems"(3) t ok1 show ?thesis by auto
  next
    case (Some x2)
    with "5.prems"(3) t obtain s' where
      e: "BlockizeBlocks_VisitStmt ar st1 x2 = Inr (s', st')"
      and r: "r = IfThenElse (if loop_var_subst st \<noteq> []
                                then tir_Substitute_expr c (loop_var_subst st) else c)
                      stmt_then (Some s')"
      by (auto split: sum.splits)
    from "5.prems"(2) Some have sx: "all_sizes_equal x2" by simp
    from "5.IH"(2)[OF t refl Some ok1(1) sx e] ok1(2) r show ?thesis by simp
  qed
next
  case (6 ar st b v idx)
  then show ?case by auto
next
  case (7 ar st e)
  then show ?case by auto
next
  case (8 ar st lv mn ex k bd a)
  have f: "seq_body_ok (st\<lparr>first_in := True\<rparr>)"
    using "8.prems"(1) by (simp add: seq_body_ok_def)
  from "8.prems"(2) have sb: "all_sizes_equal bd" by simp
  show ?case
  proof (cases "points_to_For (stmt (lca st)) (ForNode lv mn ex k bd a)")
    case True
    with "8.prems"(3) obtain bd' where
      v: "RewriteSeq ar (st\<lparr>first_in := True\<rparr>) bd = Inr (bd', st')"
      and r: "r = ForS (ForNode lv mn ex k bd' a)"
      by (auto split: sum.splits)
    from "8.IH"(1)[OF True f sb v] r show ?thesis by simp
  next
    case False
    show ?thesis
    proof (cases "loop_var_subst st \<noteq> []")
      case True
      with False "8.prems"(3) obtain lv' bd' where
        l: "substitute_loop_var lv (loop_var_subst st) = Inr lv'"
        and v: "BlockizeBlocks_VisitStmt ar st bd = Inr (bd', st')"
        and r: "r = ForS (ForNode lv' mn ex k bd' a)"
        by (auto split: sum.splits)
      from "8.IH"(2)[OF False True l "8.prems"(1) sb v] r show ?thesis by simp
    next
      case F2: False
      with False "8.prems"(3) obtain bd' where
        v: "BlockizeBlocks_VisitStmt ar st bd = Inr (bd', st')"
        and r: "r = ForS (ForNode lv mn ex k bd' a)"
        by (auto split: sum.splits)
      from "8.IH"(3)[OF False F2 "8.prems"(1) sb v] r show ?thesis by simp
    qed
  qed
next
  case (9 ar st ivs rs ws nm bd ini al mb an a)
  have f: "seq_body_ok (st\<lparr>first_in := True\<rparr>)"
    using "9.prems"(1) by (simp add: seq_body_ok_def)
  from "9.prems"(2) have sb: "all_sizes_equal bd"
    and si: "case ini of None \<Rightarrow> True | Some s \<Rightarrow> all_sizes_equal s" by simp_all
  show ?case
  proof (cases "points_to_Block (stmt (lca st)) (Block ivs rs ws nm bd ini al mb an a)")
    case True
    with "9.prems"(3) obtain bd' where
      v: "RewriteSeq ar (st\<lparr>first_in := True\<rparr>) bd = Inr (bd', st')"
      and r: "rb = Block ivs rs ws nm bd' ini al mb an a"
      by (auto split: sum.splits)
    from "9.IH"[OF True f sb v] r si show ?thesis by simp
  next
    case False
    show ?thesis
    proof (cases "first_in st \<and> is_target (blocks st) (Block ivs rs ws nm bd ini al mb an a)")
      case True
      with False "9.prems"(3) have
        "target_block ar st (Block ivs rs ws nm bd ini al mb an a) = Inr (rb, st')"
        by simp
      from target_block_seq[OF this] "9.prems"(1,2) show ?thesis
        by (simp add: seq_body_ok_def)
    next
      case F2: False
      with False "9.prems"(3) have "rb = Block ivs rs ws nm bd ini al mb an a" "st' = st"
        by auto
      with "9.prems"(1,2) show ?thesis by simp
    qed
  qed
next
  case (10 ar st ss)
  let ?f = "\<lambda>it r. case r of
                           Inl e \<Rightarrow> Inl e
                         | Inr (st', locals) \<Rightarrow>
                             (case BlockizeBlocks_VisitStmt ar (st'\<lparr>target_in := False\<rparr>) it of
                                Inl e \<Rightarrow> Inl e
                              | Inr (visited, st'') \<Rightarrow>
                                  RewriteSeq_step ar (length ss) it visited st'' locals)"
  let ?J = "\<lambda>r :: error + 's BlockizeBlocks \<times> RewriteSeq_locals.
              case r of Inl e \<Rightarrow> True
              | Inr (st1, (a, b, c, d, new_seq)) \<Rightarrow>
                  seq_body_ok st1 \<and> (\<forall>s \<in> set new_seq. all_sizes_equal s)"
  have "?J (fold ?f ss (Inr (st, (- 1, 0, - 1, 0, []))))"
  proof (rule fold_sum_invariant)
    show "?J (Inr (st, (- 1, 0, - 1, 0, [])))" using "10.prems"(1) by simp
  next
    fix x r assume x: "x \<in> set ss" and j: "?J r"
    from x "10.prems"(2) have sx: "all_sizes_equal x" by simp
    show "?J (?f x r)"
    proof (cases r)
      case (Inl e)
      then show ?thesis by simp
    next
      case (Inr p)
      obtain st1 a b c d new_seq where p: "p = (st1, (a, b, c, d, new_seq))" by (cases p) auto
      have ok: "seq_body_ok (st1\<lparr>target_in := False\<rparr>)"
        and ns: "\<forall>s \<in> set new_seq. all_sizes_equal s"
        using j Inr p by (simp_all add: seq_body_ok_def)
      show ?thesis
      proof (cases "BlockizeBlocks_VisitStmt ar (st1\<lparr>target_in := False\<rparr>) x")
        case (Inl e)
        with Inr p show ?thesis by simp
      next
        case (Inr q)
        obtain visited st2 where q: "q = (visited, st2)" by (cases q)
        from "10.IH"[OF x ok sx Inr[unfolded q]] have ok2: "seq_body_ok st2"
          and sv: "all_sizes_equal visited" by simp_all
        show ?thesis
        proof (cases "RewriteSeq_step ar (length ss) x visited st2 (a, b, c, d, new_seq)")
          case (Inl e)
          with \<open>r = Inr p\<close> p Inr q show ?thesis by simp
        next
          case R: (Inr w)
          obtain st3 a' b' c' d' new_seq' where w: "w = (st3, (a', b', c', d', new_seq'))"
            by (cases w) auto
          from RewriteSeq_step_seq[OF R[unfolded w] ok2 sx sv ns]
          have "seq_body_ok st3 \<and> (\<forall>s \<in> set new_seq'. all_sizes_equal s)" .
          with \<open>r = Inr p\<close> p Inr q R w show ?thesis by simp
        qed
      qed
    qed
  qed
  with "10.prems"(3) show ?case
    by (auto simp add: RewriteSeq_result_sizes split: sum.splits prod.splits)
qed simp_all

lemma Rewrite_sizes:
  assumes "Rewrite sch ar self block_srefs lca_sref next = Inr (new_lca, rewriter)"
  shows "(\<forall>outer. blockized rewriter = Some outer \<longrightarrow> sizes_equal outer)
       \<and> (all_sizes_equal (SRefStmt_Stmt (stmt lca_sref)) \<longrightarrow> all_sizes_equal new_lca)"
proof -
  from assms obtain st0 where
    n: "BlockizeBlocks_new sch ar self block_srefs lca_sref next = Inr st0"
    and v: "BlockizeBlocks_VisitStmt ar st0 (SRefStmt_Stmt (stmt lca_sref)) = Inr (new_lca, rewriter)"
    by (auto simp add: Rewrite_def split: sum.splits)
  from n have "blockized st0 = None" "seq_body st0 = []"
    by (auto simp add: BlockizeBlocks_new_def split: list.splits sum.splits)
  then have a: "outer_sizes_ok st0" and b: "seq_body_ok st0"
    by (simp_all add: outer_sizes_ok_def seq_body_ok_def)
  from BlockizeBlocks_outer_sizes_ok(1)[OF a v]
  have 1: "\<forall>outer. blockized rewriter = Some outer \<longrightarrow> sizes_equal outer"
    by (simp add: outer_sizes_ok_def)
  from BlockizeBlocks_all_sizes_equal(1)[OF b _ v]
  have 2: "all_sizes_equal (SRefStmt_Stmt (stmt lca_sref)) \<longrightarrow> all_sizes_equal new_lca"
    by blast
  from 1 2 show ?thesis by blast
qed

lemma Blockize_Inr:
  assumes "Blockize sch ar self loop_sref preserve_unit_iters next = Inr (self', result, next')"
  obtains outer reuse self1 where
    "BlockizeImpl sch ar self loop_sref preserve_unit_iters next = Inr (outer, reuse, next')"
    "Replace sch self loop_sref (BlockRealizeS outer) reuse = Inr self1"
  using assms
  by (auto simp add: Blockize_def split: sum.splits option.splits)

lemma Blockize_blocks_Inr:
  assumes "Blockize_blocks sch (ar :: 's Arith) self block_srefs preserve_unit_iters next
             = Inr (self', result, next')"
  obtains lca_sref new_lca and rewriter :: "'s BlockizeBlocks" and outer self1 where
    "GetSRefLowestCommonAncestor sch block_srefs = Inr lca_sref"
    "Rewrite sch ar self block_srefs lca_sref next = Inr (new_lca, rewriter)"
    "blockized rewriter = Some outer"
    "Replace sch self lca_sref new_lca (block_sref_reuse rewriter) = Inr self1"
  using assms
  by (auto simp add: Blockize_blocks_def split: sum.splits option.splits)

lemma Tensorize_obtain_sizes:
  "Tensorize_obtain sch ar self sref preserve_unit_iters next = Inr (block_realize, None, next')
   \<Longrightarrow> sizes_equal block_realize"
  by (auto simp add: Tensorize_obtain_def split: SRefStmt.splits sum.splits
      dest!: BlockizeImpl_sizes)

text \<open>
  C1. Every block realize that a successful \<^verbatim>\<open>Blockize\<close>, on a loop or on a group
  of blocks, or a successful \<^verbatim>\<open>Tensorize\<close> generates has as many iterator values as
  its block has iterators. On a loop: the outer block realize that
  \<^verbatim>\<open>BlockizeImpl\<close> builds and \<open>Replace\<close> installs has equal sizes, and when every
  block realize under the loop has equal sizes, so has every block realize of the new
  subtree, the inner and the init block realize among them. On a group: the outer block
  realize handed back through \<open>blockized\<close> has equal sizes, although its bindings are
  collected per enclosing loop and its iterators per block iterator: the constructor of
  the block realize lets no other through. When every block realize under the lca has
  equal sizes, so has every block realize of the rewritten lca. \<^verbatim>\<open>Tensorize\<close>
  installs a block realize with the iterator values and the iterators of the one it
  obtained: it has equal sizes when that one has, and always when that one was built by
  \<^verbatim>\<open>BlockizeImpl\<close>.
\<close>

theorem Blockize_Tensorize_sizes:
  "(\<forall>self' result fresh'.
      Blockize sch ar self loop_sref preserve_unit_iters fresh = Inr (self', result, fresh') \<longrightarrow>
      (\<exists>block_realize outer reuse self1.
          CheckGetSingleChildBlockRealizeOnSRefTree sch self loop_sref = Inr block_realize
        \<and> BlockizeImpl sch ar self loop_sref preserve_unit_iters fresh = Inr (outer, reuse, fresh')
        \<and> Replace sch self loop_sref (BlockRealizeS outer) reuse = Inr self1
        \<and> sizes_equal outer
        \<and> (all_sizes_equal_BlockRealize block_realize \<longrightarrow> all_sizes_equal_BlockRealize outer)))
 \<and> (\<forall>self' result fresh'.
      Blockize_blocks sch ar self block_srefs preserve_unit_iters fresh
        = Inr (self', result, fresh') \<longrightarrow>
      (\<exists>lca_sref new_lca rewriter outer self1.
          GetSRefLowestCommonAncestor sch block_srefs = Inr lca_sref
        \<and> Rewrite sch ar self block_srefs lca_sref fresh = Inr (new_lca, rewriter)
        \<and> blockized rewriter = Some outer
        \<and> Replace sch self lca_sref new_lca (block_sref_reuse rewriter) = Inr self1
        \<and> sizes_equal outer
        \<and> (all_sizes_equal (SRefStmt_Stmt (stmt lca_sref)) \<longrightarrow> all_sizes_equal new_lca)))
 \<and> (\<forall>self' store' fresh'.
      Tensorize sch ar ops self store sref intrin preserve_unit_iters fresh
        = Inr (self', store', fresh') \<longrightarrow>
      (\<exists>block_realize old_block new_realize self1.
          Tensorize_obtain sch ar self sref preserve_unit_iters fresh
            = Inr (block_realize, old_block, fresh')
        \<and> Tensorize_rewrite ops (state_mod self) store intrin block_realize
            = Inr (new_realize, store')
        \<and> Tensorize_install sch self sref old_block new_realize = Inr self1
        \<and> (old_block = None \<longrightarrow> sizes_equal new_realize)
        \<and> (sizes_equal block_realize \<longrightarrow> sizes_equal new_realize)))"
proof (intro conjI allI impI)
  fix self' result fresh'
  assume b: "Blockize sch ar self loop_sref preserve_unit_iters fresh = Inr (self', result, fresh')"
  from b obtain outer reuse self1 where
    i: "BlockizeImpl sch ar self loop_sref preserve_unit_iters fresh = Inr (outer, reuse, fresh')"
    and r: "Replace sch self loop_sref (BlockRealizeS outer) reuse = Inr self1"
    by (rule Blockize_Inr)
  from BlockizeImpl_sizes[OF i] i r
  show "\<exists>block_realize outer reuse self1.
          CheckGetSingleChildBlockRealizeOnSRefTree sch self loop_sref = Inr block_realize
        \<and> BlockizeImpl sch ar self loop_sref preserve_unit_iters fresh = Inr (outer, reuse, fresh')
        \<and> Replace sch self loop_sref (BlockRealizeS outer) reuse = Inr self1
        \<and> sizes_equal outer
        \<and> (all_sizes_equal_BlockRealize block_realize \<longrightarrow> all_sizes_equal_BlockRealize outer)"
    by blast
next
  fix self' result fresh'
  assume b: "Blockize_blocks sch ar self block_srefs preserve_unit_iters fresh
               = Inr (self', result, fresh')"
  from b obtain lca_sref new_lca and rewriter :: "'a BlockizeBlocks" and outer self1 where
    l: "GetSRefLowestCommonAncestor sch block_srefs = Inr lca_sref"
    and w: "Rewrite sch ar self block_srefs lca_sref fresh = Inr (new_lca, rewriter)"
    and o: "blockized rewriter = Some outer"
    and r: "Replace sch self lca_sref new_lca (block_sref_reuse rewriter) = Inr self1"
    by (rule Blockize_blocks_Inr)
  from Rewrite_sizes[OF w] o have "sizes_equal outer"
    and "all_sizes_equal (SRefStmt_Stmt (stmt lca_sref)) \<longrightarrow> all_sizes_equal new_lca"
    by simp_all
  with l w o r
  show "\<exists>lca_sref new_lca rewriter outer self1.
          GetSRefLowestCommonAncestor sch block_srefs = Inr lca_sref
        \<and> Rewrite sch ar self block_srefs lca_sref fresh = Inr (new_lca, rewriter)
        \<and> blockized rewriter = Some outer
        \<and> Replace sch self lca_sref new_lca (block_sref_reuse rewriter) = Inr self1
        \<and> sizes_equal outer
        \<and> (all_sizes_equal (SRefStmt_Stmt (stmt lca_sref)) \<longrightarrow> all_sizes_equal new_lca)"
    by blast
next
  fix self' store' fresh'
  assume t: "Tensorize sch ar ops self store sref intrin preserve_unit_iters fresh
               = Inr (self', store', fresh')"
  from t obtain block_realize old_block new_realize self1 where
    ob: "Tensorize_obtain sch ar self sref preserve_unit_iters fresh
           = Inr (block_realize, old_block, fresh')"
    and rw: "Tensorize_rewrite ops (state_mod self) store intrin block_realize
           = Inr (new_realize, store')"
    and inst: "Tensorize_install sch self sref old_block new_realize = Inr self1"
    by (rule Tensorize_Inr)
  from rw obtain intrin_desc impl_ref intrin_impl rhs_buffer_map
      buffer_indices impl2desc impl2cur impl_realize match_buffer_regions where
    "map_of store (desc intrin) = Some intrin_desc"
    and "Tensorize_normalize ops store intrin block_realize = Inr (impl_ref, store')"
    and "map_of store' impl_ref = Some intrin_impl"
    and "TensorizeComparator_VisitStmt ops (state_mod self) block_realize (func_body intrin_desc)
       = Inr (rhs_buffer_map, buffer_indices)"
    and "Tensorize_impl2desc intrin_desc intrin_impl (params intrin_desc) (params intrin_impl) []
       = Inr impl2desc"
    and "Tensorize_impl2cur rhs_buffer_map impl2desc [] = Inr impl2cur"
    and "func_body intrin_impl = BlockRealizeS impl_realize"
    and "Tensorize_match_buffers ops intrin_impl impl2cur
               (Tensorize_impl2region (block impl_realize))
               buffer_indices (params intrin_impl) = Inr match_buffer_regions"
    and vs: "iter_values new_realize = iter_values block_realize"
    and ivs: "iter_vars (block new_realize) = iter_vars (block block_realize)"
    and "body (block new_realize) = body (block impl_realize)"
    and "match_buffers (block new_realize) = match_buffer_regions"
    by (rule Tensorize_rewrite_Inr)
  from vs ivs have eq: "sizes_equal new_realize = sizes_equal block_realize"
    by (simp add: sizes_equal_def)
  have "old_block = None \<longrightarrow> sizes_equal new_realize"
    using Tensorize_obtain_sizes ob eq by blast
  with ob rw inst eq
  show "\<exists>block_realize old_block new_realize self1.
          Tensorize_obtain sch ar self sref preserve_unit_iters fresh
            = Inr (block_realize, old_block, fresh')
        \<and> Tensorize_rewrite ops (state_mod self) store intrin block_realize
            = Inr (new_realize, store')
        \<and> Tensorize_install sch self sref old_block new_realize = Inr self1
        \<and> (old_block = None \<longrightarrow> sizes_equal new_realize)
        \<and> (sizes_equal block_realize \<longrightarrow> sizes_equal new_realize)"
    by blast
qed

text \<open>
  For the two sibling blocks under loops \<open>i\<close> and \<open>j\<close>, with lca loop \<open>j\<close>, the collector
  records two outer bindings and one outer iterator, and the rewrite fails in the
  constructor of the outer block realize.
\<close>

lemma ex3_Rewrite_aborts:
  "Rewrite (ex2_Sched ex3_sref_root) ex_Arith ex3_state [ex3_sref_B1, ex3_sref_B2] ex3_sref_j 200
   = Inl (Fatal (''ValueError: BlockRealize needs to have the same number of ''
                 @ ''iter_vars and binding values''))"
  by code_simp

lemma ex_C1_single:
  "Blockize (ex_Sched ex_true) ex_Arith (ex_state ex_true) (ex_sref_i ex_true) False 100
     = Inr (fst ex_blockized_state_i, fst (snd ex_blockized_state_i), snd (snd ex_blockized_state_i))"
  "CheckGetSingleChildBlockRealizeOnSRefTree (ex_Sched ex_true) (ex_state ex_true)
     (ex_sref_i ex_true) = Inr (ex_realize ex_true)"
  "all_sizes_equal_BlockRealize (ex_realize ex_true)"
  "sizes_equal (ex_realize ex_true)"
  by code_simp+

lemma ex_C1_single_impl:
  "BlockizeImpl (ex_Sched ex_true) ex_Arith (ex_state ex_true) (ex_sref_i ex_true) False 100
     = Inr (fst ex_blockize_i, fst (snd ex_blockize_i), snd (snd ex_blockize_i))"
  by code_simp

lemma ex_C1_group:
  "Blockize_blocks (ex2_Sched ex2_sref_root) ex_Arith ex2_state [ex2_sref_B1, ex2_sref_B2] False 200
     = Inr (fst ex2_blockized, fst (snd ex2_blockized), snd (snd ex2_blockized))"
  "GetSRefLowestCommonAncestor (ex2_Sched ex2_sref_root) [ex2_sref_B1, ex2_sref_B2]
     = Inr ex2_sref_i"
  "all_sizes_equal (SRefStmt_Stmt (stmt ex2_sref_i))"
  by code_simp+

theorem Blockize_Tensorize_sizes_witness:
  "Blockize (ex_Sched ex_true) ex_Arith (ex_state ex_true) (ex_sref_i ex_true) False 100
     = Inr (fst ex_blockized_state_i, fst (snd ex_blockized_state_i), snd (snd ex_blockized_state_i))
   \<and> all_sizes_equal_BlockRealize (ex_realize ex_true)
   \<and> sizes_equal (fst ex_blockize_i)
   \<and> all_sizes_equal_BlockRealize (fst ex_blockize_i)
   \<and> Blockize_blocks (ex2_Sched ex2_sref_root) ex_Arith ex2_state [ex2_sref_B1, ex2_sref_B2]
         False 200
       = Inr (fst ex2_blockized, fst (snd ex2_blockized), snd (snd ex2_blockized))
   \<and> all_sizes_equal (SRefStmt_Stmt (stmt ex2_sref_i))
   \<and> sizes_equal ex2_outer
   \<and> all_sizes_equal (fst ex2_rewrite)
   \<and> Tensorize ex_Sched_B ex_Arith ex_TensorizeOps (ex_state ex_true) ex_store
         (ex_sref_block ex_true) ex_intrin False 100
       = Inr (fst ex_tensorized, fst (snd ex_tensorized), snd (snd ex_tensorized))
   \<and> sizes_equal (ex_realize ex_true)
   \<and> sizes_equal ex_tensorized_realize"
proof -
  have a: "sizes_equal (fst ex_blockize_i) \<and> all_sizes_equal_BlockRealize (fst ex_blockize_i)"
  proof -
    from Blockize_Tensorize_sizes[THEN conjunct1, rule_format, OF ex_C1_single(1)]
    obtain block_realize outer reuse where
      c: "CheckGetSingleChildBlockRealizeOnSRefTree (ex_Sched ex_true) (ex_state ex_true)
            (ex_sref_i ex_true) = Inr block_realize"
      and i: "BlockizeImpl (ex_Sched ex_true) ex_Arith (ex_state ex_true) (ex_sref_i ex_true)
                False 100 = Inr (outer, reuse, snd (snd ex_blockized_state_i))"
      and s: "sizes_equal outer"
      and w: "all_sizes_equal_BlockRealize block_realize \<longrightarrow> all_sizes_equal_BlockRealize outer"
      by blast
    from c ex_C1_single(2) have "block_realize = ex_realize ex_true"
      by (metis sum.inject(2))
    moreover from i ex_C1_single_impl
    have "(outer, reuse, snd (snd ex_blockized_state_i))
          = (fst ex_blockize_i, fst (snd ex_blockize_i), snd (snd ex_blockize_i))"
      by (metis sum.inject(2))
    then have "outer = fst ex_blockize_i" by (simp only: prod.inject)
    ultimately show ?thesis using s w ex_C1_single(3) by simp
  qed
  have b: "sizes_equal ex2_outer \<and> all_sizes_equal (fst ex2_rewrite)"
  proof -
    from Blockize_Tensorize_sizes[THEN conjunct2, THEN conjunct1, rule_format, OF ex_C1_group(1)]
    obtain lca_sref new_lca rewriter outer where
      l: "GetSRefLowestCommonAncestor (ex2_Sched ex2_sref_root) [ex2_sref_B1, ex2_sref_B2]
            = Inr lca_sref"
      and r: "Rewrite (ex2_Sched ex2_sref_root) ex_Arith ex2_state [ex2_sref_B1, ex2_sref_B2]
                lca_sref 200 = Inr (new_lca, rewriter)"
      and o: "blockized rewriter = Some outer"
      and s: "sizes_equal outer"
      and w: "all_sizes_equal (SRefStmt_Stmt (stmt lca_sref)) \<longrightarrow> all_sizes_equal new_lca"
      by blast
    from l ex_C1_group(2) have lca: "lca_sref = ex2_sref_i" by (metis sum.inject(2))
    from r[unfolded lca] ex2_Rewrite(1)
    have "(new_lca, rewriter) = (fst ex2_rewrite, snd ex2_rewrite)"
      by (metis sum.inject(2))
    then have nr: "new_lca = fst ex2_rewrite" "rewriter = snd ex2_rewrite"
      by (simp_all only: prod.inject)
    from o[unfolded nr] ex2_Rewrite(2) have "outer = ex2_outer" by (metis option.inject)
    with s w ex_C1_group(3) show ?thesis by (simp add: lca nr)
  qed
  have c: "sizes_equal ex_tensorized_realize"
  proof -
    from Blockize_Tensorize_sizes[THEN conjunct2, THEN conjunct2, rule_format, OF ex_Tensorize]
    obtain block_realize old_block new_realize where
      ob: "Tensorize_obtain ex_Sched_B ex_Arith (ex_state ex_true) (ex_sref_block ex_true) False 100
             = Inr (block_realize, old_block, snd (snd ex_tensorized))"
      and rw: "Tensorize_rewrite ex_TensorizeOps (state_mod (ex_state ex_true)) ex_store ex_intrin
                 block_realize = Inr (new_realize, fst (snd ex_tensorized))"
      and w: "sizes_equal block_realize \<longrightarrow> sizes_equal new_realize"
      by blast
    from ob ex_C4_eval(1) have br: "block_realize = ex_realize ex_true"
      by (metis sum.inject(2) prod.inject)
    from rw[unfolded br] ex_C4_eval(2) have "new_realize = ex_tensorized_realize"
      by (metis sum.inject(2) prod.inject)
    with w br ex_C1_single(4) show ?thesis by simp
  qed
  from a b c ex_C1_single ex_C1_group ex_Tensorize show ?thesis by simp
qed

end
